theory Spec2Isabelle
  imports Complex_Main
begin

section \<open>JavaScript strings\<close>

text \<open>
  A JavaScript string is a sequence of UTF-16 code units. The model uses \<^typ>\<open>string\<close>, a list
  of 8-bit characters, read as the code units \<open>0x00\<close> to \<open>0xFF\<close> (the Latin-1 range), so
  that \<open>length\<close> is the \<open>.length\<close> of the source. The helpers below are the string methods
  the source calls, restricted to that range.
\<close>

text \<open>White space as \<open>String.prototype.trim\<close> sees it: TAB, LF, VT, FF, CR, SPACE and NBSP.\<close>

definition is_js_space :: "char \<Rightarrow> bool" where
  "is_js_space c =
     (c = CHR 0x09 \<or> c = CHR 0x0A \<or> c = CHR 0x0B \<or> c = CHR 0x0C \<or> c = CHR 0x0D \<or>
      c = CHR 0x20 \<or> c = CHR 0xA0)"

definition trim :: "string \<Rightarrow> string" where
  "trim s = rev (dropWhile is_js_space (rev (dropWhile is_js_space s)))"

definition startsWith :: "string \<Rightarrow> string \<Rightarrow> bool" where
  "startsWith s p = (take (length p) s = p)"

definition endsWith :: "string \<Rightarrow> string \<Rightarrow> bool" where
  "endsWith s p = (length p \<le> length s \<and> drop (length s - length p) s = p)"

text \<open>\<open>s.substring(a, b)\<close>: both indices are clamped to the length and swapped when \<open>a > b\<close>.\<close>

definition substring :: "string \<Rightarrow> nat \<Rightarrow> nat \<Rightarrow> string" where
  "substring s a b =
     (let a' = min a (length s); b' = min b (length s);
          lo = min a' b'; hi = max a' b'
      in take (hi - lo) (drop lo s))"

text \<open>\<open>s.substring(a)\<close>, with the end defaulting to the length.\<close>

definition substring_from :: "string \<Rightarrow> nat \<Rightarrow> string" where
  "substring_from s a = substring s a (length s)"

fun includes_str :: "string \<Rightarrow> string \<Rightarrow> bool" where
  "includes_str [] sub = (sub = [])"
| "includes_str (c # cs) sub = (startsWith (c # cs) sub \<or> includes_str cs sub)"

text \<open>
  \<open>toLowerCase\<close> on one code unit of the Latin-1 range: \<open>A\<close> to \<open>Z\<close> and the accented capitals
  \<open>0xC0\<close> to \<open>0xDE\<close> (without the multiplication sign \<open>0xD7\<close>) move up by \<open>0x20\<close>.
\<close>

definition lower_char :: "char \<Rightarrow> char" where
  "lower_char c =
     (let n = (of_char c :: nat)
      in if (65 \<le> n \<and> n \<le> 90) \<or> (192 \<le> n \<and> n \<le> 222 \<and> n \<noteq> 215)
         then char_of (n + 32) else c)"

definition toLowerCase :: "string \<Rightarrow> string" where
  "toLowerCase s = map lower_char s"

section \<open>Authentication errors: \<open>formatAuthError\<close> (AuthContext.tsx)\<close>

text \<open>
  The function reads two properties of its argument, \<open>error.message\<close> and \<open>error.code\<close>;
  each may be absent. The argument itself may be \<open>null\<close>.
\<close>

record upstream_error =
  error_message :: "string option"
  error_code :: "string option"

text \<open>\<open>x || ""\<close> on a property that is a string or absent.\<close>

definition or_empty :: "string option \<Rightarrow> string" where
  "or_empty x = (case x of None \<Rightarrow> [] | Some s \<Rightarrow> s)"

definition formatAuthError_default :: "string \<Rightarrow> string" where
  "formatAuthError_default errorMessage =
    (if includes_str (toLowerCase errorMessage) ''invalid login credentials'' then
       ''Invalid email or password. Please check your credentials and try again.''
     else if includes_str (toLowerCase errorMessage) ''user already registered'' then
       ''An account with this email already exists. Please sign in instead.''
     else if includes_str (toLowerCase errorMessage) ''email not confirmed'' then
       ''Please check your email and click the confirmation link before signing in.''
     else if includes_str (toLowerCase errorMessage) ''weak password'' then
       ''Password is too weak. Please use at least 6 characters.''
     else if includes_str (toLowerCase errorMessage) ''invalid email'' then
       ''Please enter a valid email address.''
     else if includes_str (toLowerCase errorMessage) ''timeout'' \<or>
             includes_str (toLowerCase errorMessage) ''timed out'' then
       ''Connection timeout. Please check your internet connection and try again.''
     else if includes_str (toLowerCase errorMessage) ''network'' then
       ''Network connection error. Please check your internet connection and try again.''
     else if includes_str (toLowerCase errorMessage) ''rate limit'' then
       ''Too many attempts. Please wait a few minutes before trying again.''
     else if includes_str (toLowerCase errorMessage) ''database'' then
       ''Database connection error. Please try again in a moment.''
     else if includes_str (toLowerCase errorMessage) ''not_found'' \<or>
             includes_str (toLowerCase errorMessage) ''404'' then
       ''Service temporarily unavailable. Please try again in a moment.''
     else if errorMessage \<noteq> [] \<and> length errorMessage < 100 \<and>
             \<not> includes_str errorMessage ''Error:'' then
       errorMessage
     else
       ''An unexpected error occurred. Please try again or contact support if the problem persists.'')"

definition formatAuthError :: "upstream_error option \<Rightarrow> string" where
  "formatAuthError error =
    (case error of
       None \<Rightarrow> ''An unexpected error occurred''
     | Some e \<Rightarrow>
        (let errorMessage = or_empty (error_message e);
             errorCode = or_empty (error_code e)
         in if errorCode = ''invalid_credentials'' then
              ''Invalid email or password. Please check your credentials and try again.''
            else if errorCode = ''user_already_exists'' \<or>
                    errorCode = ''email_address_already_exists'' then
              ''An account with this email already exists. Please sign in instead or use a different email.''
            else if errorCode = ''weak_password'' then
              ''Password is too weak. Please use at least 6 characters with a mix of letters and numbers.''
            else if errorCode = ''invalid_email'' then
              ''Please enter a valid email address.''
            else if errorCode = ''email_not_confirmed'' then
              ''Please check your email and click the confirmation link before signing in.''
            else if errorCode = ''too_many_requests'' then
              ''Too many login attempts. Please wait a few minutes before trying again.''
            else if errorCode = ''signup_disabled'' then
              ''New user registration is currently disabled. Please contact support.''
            else if errorCode = ''email_address_invalid'' then
              ''The email address format is invalid. Please enter a valid email.''
            else if errorCode = ''password_too_short'' then
              ''Password must be at least 6 characters long.''
            else if errorCode = ''user_not_found'' then
              ''No account found with this email address. Please sign up first.''
            else if errorCode = ''session_not_found'' then
              ''Your session has expired. Please sign in again.''
            else if errorCode = ''refresh_token_not_found'' then
              ''Authentication expired. Please sign in again.''
            else if errorCode = ''invalid_request'' then
              ''Invalid request. Please check your information and try again.''
            else if errorCode = ''network_error'' then
              ''Network connection error. Please check your internet connection and try again.''
            else formatAuthError_default errorMessage))"

text \<open>The fixed messages of the function, in the order of the source.\<close>

definition category_messages :: "string list" where
  "category_messages =
    [''An unexpected error occurred'',
     ''Invalid email or password. Please check your credentials and try again.'',
     ''An account with this email already exists. Please sign in instead or use a different email.'',
     ''Password is too weak. Please use at least 6 characters with a mix of letters and numbers.'',
     ''Please enter a valid email address.'',
     ''Please check your email and click the confirmation link before signing in.'',
     ''Too many login attempts. Please wait a few minutes before trying again.'',
     ''New user registration is currently disabled. Please contact support.'',
     ''The email address format is invalid. Please enter a valid email.'',
     ''Password must be at least 6 characters long.'',
     ''No account found with this email address. Please sign up first.'',
     ''Your session has expired. Please sign in again.'',
     ''Authentication expired. Please sign in again.'',
     ''Invalid request. Please check your information and try again.'',
     ''Network connection error. Please check your internet connection and try again.'',
     ''An account with this email already exists. Please sign in instead.'',
     ''Password is too weak. Please use at least 6 characters.'',
     ''Connection timeout. Please check your internet connection and try again.'',
     ''Too many attempts. Please wait a few minutes before trying again.'',
     ''Database connection error. Please try again in a moment.'',
     ''Service temporarily unavailable. Please try again in a moment.'',
     ''An unexpected error occurred. Please try again or contact support if the problem persists.'']"

text \<open>
  The last test of the default branch hands the upstream message through: it is the result
  when the message is non-empty, shorter than 100 code units and free of \<open>Error:\<close>.
\<close>

definition passes_through :: "string \<Rightarrow> bool" where
  "passes_through m = (m \<noteq> [] \<and> length m < 100 \<and> \<not> includes_str m ''Error:'')"

text \<open>
  The classification as two tables, in the order of the source: the codes of the \<open>switch\<close>
  with their messages, and the texts looked for in the lower-cased message with theirs (the
  alternatives of one test side by side).
\<close>

definition code_messages :: "(string \<times> string) list" where
  "code_messages =
    [(''invalid_credentials'',
      ''Invalid email or password. Please check your credentials and try again.''),
     (''user_already_exists'',
      ''An account with this email already exists. Please sign in instead or use a different email.''),
     (''email_address_already_exists'',
      ''An account with this email already exists. Please sign in instead or use a different email.''),
     (''weak_password'',
      ''Password is too weak. Please use at least 6 characters with a mix of letters and numbers.''),
     (''invalid_email'', ''Please enter a valid email address.''),
     (''email_not_confirmed'',
      ''Please check your email and click the confirmation link before signing in.''),
     (''too_many_requests'',
      ''Too many login attempts. Please wait a few minutes before trying again.''),
     (''signup_disabled'',
      ''New user registration is currently disabled. Please contact support.''),
     (''email_address_invalid'',
      ''The email address format is invalid. Please enter a valid email.''),
     (''password_too_short'', ''Password must be at least 6 characters long.''),
     (''user_not_found'', ''No account found with this email address. Please sign up first.''),
     (''session_not_found'', ''Your session has expired. Please sign in again.''),
     (''refresh_token_not_found'', ''Authentication expired. Please sign in again.''),
     (''invalid_request'', ''Invalid request. Please check your information and try again.''),
     (''network_error'',
      ''Network connection error. Please check your internet connection and try again.'')]"

definition message_patterns :: "(string list \<times> string) list" where
  "message_patterns =
    [([''invalid login credentials''],
      ''Invalid email or password. Please check your credentials and try again.''),
     ([''user already registered''],
      ''An account with this email already exists. Please sign in instead.''),
     ([''email not confirmed''],
      ''Please check your email and click the confirmation link before signing in.''),
     ([''weak password''], ''Password is too weak. Please use at least 6 characters.''),
     ([''invalid email''], ''Please enter a valid email address.''),
     ([''timeout'', ''timed out''],
      ''Connection timeout. Please check your internet connection and try again.''),
     ([''network''],
      ''Network connection error. Please check your internet connection and try again.''),
     ([''rate limit''], ''Too many attempts. Please wait a few minutes before trying again.''),
     ([''database''], ''Database connection error. Please try again in a moment.''),
     ([''not_found'', ''404''],
      ''Service temporarily unavailable. Please try again in a moment.'')]"

text \<open>The message of a code, if the code is one of the \<open>switch\<close>.\<close>

definition code_message :: "string \<Rightarrow> string option" where
  "code_message errorCode = map_of code_messages errorCode"

text \<open>
  The first entry of \<open>message_patterns\<close> one of whose texts occurs in the lower-cased
  message, if there is one.
\<close>

definition matching_pattern :: "string \<Rightarrow> (string list \<times> string) option" where
  "matching_pattern errorMessage =
     find (\<lambda>entry. list_ex (includes_str (toLowerCase errorMessage)) (fst entry))
       message_patterns"

section \<open>The AI endpoint: gemini.ts\<close>

subsection \<open>\<open>cleanJsonResponse\<close>\<close>

text \<open>\<open>s.indexOf(c)\<close> and \<open>s.lastIndexOf(c)\<close> for a one-character pattern; \<open>None\<close> is \<open>-1\<close>.\<close>

fun indexOf :: "string \<Rightarrow> char \<Rightarrow> nat option" where
  "indexOf [] c = None"
| "indexOf (x # xs) c = (if x = c then Some 0 else map_option Suc (indexOf xs c))"

fun lastIndexOf :: "string \<Rightarrow> char \<Rightarrow> nat option" where
  "lastIndexOf [] c = None"
| "lastIndexOf (x # xs) c =
     (case lastIndexOf xs c of
        Some j \<Rightarrow> Some (Suc j)
      | None \<Rightarrow> if x = c then Some 0 else None)"

text \<open>
  \<open>s.match(/\{[\s\S]*\}/)\<close> and \<open>s.match(/\[[\s\S]*\]/)\<close>: the pattern is an opening
  character \<open>l\<close>, any characters at all (greedy), and a closing character \<open>r\<close>. The engine
  tries the start positions from the left; at a position holding \<open>l\<close> the greedy star runs
  to the end and backs up to the last \<open>r\<close> behind the start. The result is the index of the
  match and the matched text, or \<open>None\<close> for \<open>null\<close>. The second argument counts the
  positions already passed.
\<close>

fun regex_span :: "char \<Rightarrow> char \<Rightarrow> nat \<Rightarrow> string \<Rightarrow> (nat \<times> string) option" where
  "regex_span l r k [] = None"
| "regex_span l r k (c # cs) =
     (if c = l then
        (case lastIndexOf cs r of
           Some j \<Rightarrow> Some (k, c # take (Suc j) cs)
         | None \<Rightarrow> regex_span l r (Suc k) cs)
      else regex_span l r (Suc k) cs)"

definition match_span :: "char \<Rightarrow> char \<Rightarrow> string \<Rightarrow> (nat \<times> string) option" where
  "match_span l r s = regex_span l r 0 s"

text \<open>The branch taken when neither pattern matches (\<open>firstBrace\<close>, \<open>lastBrace\<close>, ...).\<close>

definition fallback_extract :: "string \<Rightarrow> string" where
  "fallback_extract cleaned =
     (case (indexOf cleaned CHR ''{'', lastIndexOf cleaned CHR ''}'') of
        (Some firstBrace, Some lastBrace) \<Rightarrow>
          if lastBrace > firstBrace then substring cleaned firstBrace (lastBrace + 1)
          else (case (indexOf cleaned CHR ''['', lastIndexOf cleaned CHR '']'') of
                  (Some firstBracket, Some lastBracket) \<Rightarrow>
                    if lastBracket > firstBracket
                    then substring cleaned firstBracket (lastBracket + 1) else cleaned
                | _ \<Rightarrow> cleaned)
      | _ \<Rightarrow>
          (case (indexOf cleaned CHR ''['', lastIndexOf cleaned CHR '']'') of
             (Some firstBracket, Some lastBracket) \<Rightarrow>
               if lastBracket > firstBracket
               then substring cleaned firstBracket (lastBracket + 1) else cleaned
           | _ \<Rightarrow> cleaned))"

text \<open>The first half of the function: trim, drop an opening and a closing fence, trim.\<close>

definition strip_fences :: "string \<Rightarrow> string" where
  "strip_fences content =
     (let cleaned = trim content;
          cleaned = (if startsWith cleaned ''```json'' then substring_from cleaned 7
                     else if startsWith cleaned ''```'' then substring_from cleaned 3
                     else cleaned);
          cleaned = (if endsWith cleaned ''```''
                     then substring cleaned 0 (length cleaned - 3) else cleaned)
      in trim cleaned)"

definition cleanJsonResponse :: "string \<Rightarrow> string" where
  "cleanJsonResponse content =
     (let cleaned = strip_fences content;
          jsonObjectMatch = match_span CHR ''{'' CHR ''}'' cleaned;
          jsonArrayMatch = match_span CHR ''['' CHR '']'' cleaned
      in case jsonArrayMatch of
           Some (arrayIndex, arrayText) \<Rightarrow>
             (case jsonObjectMatch of
                None \<Rightarrow> arrayText
              | Some (objectIndex, objectText) \<Rightarrow>
                  if arrayIndex < objectIndex then arrayText else objectText)
         | None \<Rightarrow>
             (case jsonObjectMatch of
                Some (objectIndex, objectText) \<Rightarrow> objectText
              | None \<Rightarrow> fallback_extract cleaned))"

subsection \<open>\<open>makeGeminiRequest\<close>\<close>

text \<open>What the source throws and catches: an object with a \<open>name\<close> and a \<open>message\<close>.\<close>

record js_error =
  name :: string
  message :: string

text \<open>\<open>new Error(m)\<close>.\<close>

definition Error :: "string \<Rightarrow> js_error" where
  "Error m = \<lparr>name = ''Error'', message = m\<rparr>"

text \<open>
  The body of a successful reply, as far as the source reads it:
  \<open>data.candidates[0].content.parts[0].text\<close>. \<open>No_candidate\<close> is a reply on which the
  guard \<open>!data.candidates || !data.candidates[0] || !data.candidates[0].content\<close> holds;
  \<open>Unreadable e\<close> is a reply that passes the guard and on which reading
  \<open>parts[0].text\<close>, or trimming a text that is no string, raises the engine's error \<open>e\<close>.
\<close>

datatype gemini_data = No_candidate | Unreadable js_error | Candidate_text string

text \<open>
  An HTTP response: \<open>text_body\<close> is the outcome of \<open>await response.text()\<close> and \<open>json_body\<close>
  of \<open>await response.json()\<close>; either can reject.
\<close>

record http_response =
  ok :: bool
  status :: nat
  text_body :: "js_error + string"
  json_body :: "js_error + gemini_data"

text \<open>
  The outcome of \<open>await fetch(...)\<close>. The timer started with \<open>setTimeout\<close> aborts the
  request through the \<open>AbortController\<close>; the fetch then rejects with an error named
  \<open>AbortError\<close>. The timer is cleared as soon as the fetch has resolved, so the abort is the
  outcome \<open>Rejected\<close> with that name and nothing else.
\<close>

datatype fetch_outcome = Rejected js_error | Responded http_response

text \<open>Every call of \<open>fetch\<close> is recorded, with the prompt it posts.\<close>

datatype net_event = Fetch_call string

text \<open>The decimal digits of a number, as a template literal prints \<open>response.status\<close>.\<close>

fun decimal :: "nat \<Rightarrow> string" where
  "decimal n =
     (if n < 10 then [char_of (48 + n)] else decimal (n div 10) @ [char_of (48 + n mod 10)])"

definition classify_status :: "http_response \<Rightarrow> string \<Rightarrow> js_error" where
  "classify_status response errorText =
     (if status response = 429 then
        Error ''API rate limit exceeded. Please try again in a few minutes.''
      else if status response = 401 then
        Error ''Invalid API key. Please check your Gemini API configuration.''
      else if status response \<ge> 500 then
        Error ''AI service is temporarily unavailable. Please try again later.''
      else
        Error (''AI request failed: '' @ decimal (status response) @ '' - '' @ errorText))"

text \<open>
  The \<open>try\<close> block after the fetch has resolved with \<open>response\<close>. \<open>JSON.parse\<close> is the
  platform's: it is a parameter, returning the parsed value or the \<open>SyntaxError\<close> it raises.
\<close>

definition handle_response ::
  "(string \<Rightarrow> js_error + 'j) \<Rightarrow> http_response \<Rightarrow> js_error + 'j" where
  "handle_response JSON_parse response =
     (if \<not> ok response then
        (case text_body response of
           Inl e \<Rightarrow> Inl e
         | Inr errorText \<Rightarrow> Inl (classify_status response errorText))
      else
        (case json_body response of
           Inl e \<Rightarrow> Inl e
         | Inr No_candidate \<Rightarrow> Inl (Error ''Invalid response from AI service. Please try again.'')
         | Inr (Unreadable e) \<Rightarrow> Inl e
         | Inr (Candidate_text content) \<Rightarrow>
             (let cleanedContent = cleanJsonResponse content
              in if cleanedContent = [] \<or>
                    (\<not> startsWith cleanedContent ''['' \<and> \<not> startsWith cleanedContent ''{'')
                 then Inl (Error ''AI returned invalid data format. Please try again.'')
                 else (case JSON_parse cleanedContent of
                         Inr v \<Rightarrow> Inr v
                       | Inl parseError \<Rightarrow>
                           Inl (Error ''Failed to process AI response. Please try again.'')))))"

text \<open>The \<open>catch\<close> block: what is thrown in place of the error \<open>error\<close>.\<close>

definition rethrow :: "js_error \<Rightarrow> js_error" where
  "rethrow error =
     (if name error = ''AbortError'' then
        Error ''Request timeout - the AI service is taking too long to respond. Please try again.''
      else if includes_str (message error) ''fetch'' then
        Error ''Network connection error. Please check your internet connection and try again.''
      else error)"

text \<open>
  \<open>makeGeminiRequest(prompt, timeout)\<close>. The environment is explicit: the configured key
  (\<open>None\<close> or the empty string is a missing key), and the outcome of the one \<open>fetch\<close> the
  function issues. The timeout only decides when the fetch is aborted, which is part of that
  outcome. The result is the value returned or the error thrown, with the calls of \<open>fetch\<close>
  made on the way.
\<close>

definition makeGeminiRequest ::
  "(string \<Rightarrow> js_error + 'j) \<Rightarrow> string option \<Rightarrow> fetch_outcome \<Rightarrow> string
     \<Rightarrow> (js_error + 'j) \<times> net_event list" where
  "makeGeminiRequest JSON_parse GEMINI_API_KEY outcome prompt =
     (if or_empty GEMINI_API_KEY = [] then
        (Inl (rethrow (Error
           ''Gemini API key is not configured. Please check your environment variables.'')), [])
      else
        (case outcome of
           Rejected e \<Rightarrow> (Inl (rethrow e), [Fetch_call prompt])
         | Responded response \<Rightarrow>
             (case handle_response JSON_parse response of
                Inl e \<Rightarrow> (Inl (rethrow e), [Fetch_call prompt])
              | Inr v \<Rightarrow> (Inr v, [Fetch_call prompt]))))"

subsection \<open>Replies that carry one JSON value\<close>

definition is_bracket :: "char \<Rightarrow> bool" where
  "is_bracket c = (c = CHR ''{'' \<or> c = CHR ''}'' \<or> c = CHR ''['' \<or> c = CHR '']'')"

text \<open>Text without braces and square brackets: fences, white space, plain prose.\<close>

definition bracket_free :: "string \<Rightarrow> bool" where
  "bracket_free s = list_all (\<lambda>c. \<not> is_bracket c) s"

text \<open>
  The text of a JSON object runs from \<open>{\<close> to \<open>}\<close>, that of a JSON array from \<open>[\<close> to
  \<open>]\<close>; white space around it belongs to the surrounding text.
\<close>

definition json_shaped :: "string \<Rightarrow> bool" where
  "json_shaped j =
     (2 \<le> length j \<and>
      ((hd j = CHR ''{'' \<and> last j = CHR ''}'') \<or> (hd j = CHR ''['' \<and> last j = CHR '']'')))"

declare decimal.simps [simp del]

text \<open>A text that wraps \<open>j\<close> between two bracket-free texts.\<close>

definition wraps :: "string \<Rightarrow> string \<Rightarrow> bool" where
  "wraps j s = (\<exists>pre post. s = pre @ j @ post \<and> bracket_free pre \<and> bracket_free post)"

subsection \<open>The three generators\<close>

text \<open>\<open>error.message || d\<close>.\<close>

definition message_or :: "js_error \<Rightarrow> string \<Rightarrow> string" where
  "message_or e d = (if message e = [] then d else message e)"

text \<open>
  Each generator builds a prompt (a fixed template around the goal, the answers or the
  lesson), awaits \<open>makeGeminiRequest\<close> once, checks the shape of the value and wraps every
  error in a new \<open>Error\<close> with the same message. No claim depends on the wording of a
  prompt, so the built prompt is an argument. \<open>Array.isArray\<close> and the test
  \<open>!v || typeof v !== "object"\<close> are the platform's, on values of the platform's JSON type
  \<open>'j\<close>.
\<close>

definition generateQuestions ::
  "(string \<Rightarrow> js_error + 'j) \<Rightarrow> ('j \<Rightarrow> bool) \<Rightarrow> string option \<Rightarrow> fetch_outcome \<Rightarrow> string
     \<Rightarrow> (js_error + 'j) \<times> net_event list" where
  "generateQuestions JSON_parse isArray GEMINI_API_KEY outcome prompt =
     (case makeGeminiRequest JSON_parse GEMINI_API_KEY outcome prompt of
        (Inl e, calls) \<Rightarrow>
          (Inl (Error (message_or e ''Failed to generate questions - please try again'')), calls)
      | (Inr questions, calls) \<Rightarrow>
          if \<not> isArray questions then
            (Inl (Error (message_or (Error ''Invalid questions format received from AI'')
                    ''Failed to generate questions - please try again'')), calls)
          else (Inr questions, calls))"

definition generateRoadmap ::
  "(string \<Rightarrow> js_error + 'j) \<Rightarrow> ('j \<Rightarrow> bool) \<Rightarrow> string option \<Rightarrow> fetch_outcome \<Rightarrow> string
     \<Rightarrow> (js_error + 'j) \<times> net_event list" where
  "generateRoadmap JSON_parse isArray GEMINI_API_KEY outcome prompt =
     (case makeGeminiRequest JSON_parse GEMINI_API_KEY outcome prompt of
        (Inl e, calls) \<Rightarrow>
          (Inl (Error (message_or e ''Failed to generate roadmap - please try again'')), calls)
      | (Inr roadmapWeeks, calls) \<Rightarrow>
          if \<not> isArray roadmapWeeks then
            (Inl (Error (message_or (Error ''Invalid roadmap format received from AI'')
                    ''Failed to generate roadmap - please try again'')), calls)
          else (Inr roadmapWeeks, calls))"

definition generateLessonContent ::
  "(string \<Rightarrow> js_error + 'j) \<Rightarrow> ('j \<Rightarrow> bool) \<Rightarrow> string option \<Rightarrow> fetch_outcome \<Rightarrow> string
     \<Rightarrow> (js_error + 'j) \<times> net_event list" where
  "generateLessonContent JSON_parse isObject GEMINI_API_KEY outcome prompt =
     (case makeGeminiRequest JSON_parse GEMINI_API_KEY outcome prompt of
        (Inl e, calls) \<Rightarrow>
          (Inl (Error (message_or e ''Failed to generate lesson content - please try again'')),
           calls)
      | (Inr lessonContent, calls) \<Rightarrow>
          if \<not> isObject lessonContent then
            (Inl (Error (message_or (Error ''Invalid lesson content format received from AI'')
                    ''Failed to generate lesson content - please try again'')), calls)
          else (Inr lessonContent, calls))"

section \<open>Notifications: the \<open>useToast\<close> hook\<close>

text \<open>The functions a view binds to a notification or a button.\<close>

datatype callback = Call_handleGenerateRoadmap | Call_fetchLesson | Call_fetchRoadmapData

text \<open>
  The optional third argument of \<open>showError\<close>: an object of which the hook's type reads the
  properties \<open>label\<close> and \<open>onClick\<close>. Either may be missing on the object that is passed.
\<close>

record toast_action =
  label :: "string option"
  onClick :: "callback option"

record toast =
  toast_type :: string
  toast_title :: string
  toast_message :: string
  duration :: "nat option"
  action :: "toast_action option"

definition showError :: "string \<Rightarrow> string \<Rightarrow> toast_action option \<Rightarrow> toast" where
  "showError t m a =
     \<lparr>toast_type = ''error'', toast_title = t, toast_message = m, duration = Some 8000,
      action = a\<rparr>"

definition showSuccess :: "string \<Rightarrow> string \<Rightarrow> toast" where
  "showSuccess t m =
     \<lparr>toast_type = ''success'', toast_title = t, toast_message = m, duration = None,
      action = None\<rparr>"

section \<open>Rows of the hosted store\<close>

type_synonym uuid = string

text \<open>
  The columns the source reads or writes. Several tables have columns of the same name
  (\<open>id\<close>, \<open>user_id\<close>, \<open>roadmap_id\<close>, \<open>title\<close>); the model prefixes those with the table:
  \<open>lesson_id\<close> and \<open>lesson_title\<close> are \<open>lessons.id\<close> and \<open>lessons.title\<close>, \<open>progress_id\<close>,
  \<open>progress_user_id\<close> and \<open>progress_roadmap_id\<close> are columns of \<open>user_progress\<close>, and
  \<open>completion_user_id\<close> and \<open>completion_lesson_id\<close> of \<open>lesson_completions\<close>.
\<close>

text \<open>The object built for one lesson before it is inserted; the store adds the \<open>id\<close>.\<close>

record lesson_fields =
  roadmap_id :: uuid
  week_number :: nat
  lesson_title :: string
  lesson_objective :: string
  estimated_time :: string
  order_index :: nat

record lesson = lesson_fields +
  lesson_id :: uuid

text \<open>
  \<open>average_accuracy\<close> is a nullable \<open>numeric\<close> column. The model keeps it as an exact
  rational, \<open>None\<close> for \<open>NULL\<close> (which is also how a \<open>NaN\<close> is stored).
\<close>

record progress_fields =
  progress_user_id :: uuid
  progress_roadmap_id :: uuid
  total_lessons :: nat
  completed_lessons :: nat
  total_time_spent :: nat
  average_accuracy :: "rat option"
  current_week :: nat

record progress = progress_fields +
  progress_id :: uuid

text \<open>
  A completion record. \<open>score\<close> is \<open>None\<close> for \<open>NULL\<close>; \<open>answers\<close> is the array of the
  user's answers, in which an index never assigned reads \<open>undefined\<close> (\<open>None\<close>).
\<close>

record completion =
  completion_user_id :: uuid
  completion_lesson_id :: uuid
  score :: "int option"
  time_spent :: nat
  answers :: "string option list"
  completed_at :: string

record database =
  lessons :: "lesson list"
  user_progress :: "progress list"
  lesson_completions :: "completion list"

section \<open>Onboarding: \<open>handleGenerateRoadmap\<close> (OnboardingFlow.tsx)\<close>

text \<open>
  A generated roadmap, read the way the view reads it: an array of weeks, each with an array
  \<open>topics\<close>, each topic with the three properties the view copies.
\<close>

record topic =
  title :: string
  lessonObjective :: string
  estimatedTime :: string

record week =
  topics :: "topic list"

text \<open>
  What a view does to the outside world, in the order in which it does it. \<open>Generator_call\<close>
  marks an invocation of \<open>generateLessonContent\<close>; the calls of \<open>fetch\<close> it makes follow
  as \<open>Net\<close> effects. \<open>Insert_roadmap\<close> carries the user, the title, the goal and the weeks
  of the inserted row (the row also holds the questions and answers of the earlier steps,
  which no claim reads).
\<close>

datatype 'j effect =
    Net net_event
  | Generator_call
  | Insert_roadmap uuid string string 'j
  | Insert_lessons "lesson_fields list"
  | Insert_progress progress_fields
  | Upsert_profile uuid string
  | Update_roadmap uuid 'j
  | Delete_lessons uuid
  | Reset_progress uuid nat
  | Select_roadmap_data
  | Show toast
  | Navigate string
  | Set_loading bool

text \<open>
  What the outside world answers during one run: the outcome of the fetch, the
  \<open>{data, error}\<close> of the insert into \<open>roadmaps\<close> (of the returned row only \<open>id\<close> is read),
  and the \<open>error\<close> of the two other inserts and of the profile upsert.
\<close>

record replies =
  ai_reply :: fetch_outcome
  roadmap_error :: "js_error option"
  roadmap_data :: "uuid option"
  lessons_error :: "js_error option"
  progress_error :: "js_error option"
  profile_error :: "upstream_error option"

text \<open>\<open>week.topics.map((topic, topicIndex) => ({...}))\<close> for the week at \<open>weekIndex\<close>.\<close>

definition week_lessons :: "uuid \<Rightarrow> nat \<Rightarrow> week \<Rightarrow> lesson_fields list" where
  "week_lessons roadmap_id' weekIndex week =
     map (\<lambda>(topicIndex, topic).
            \<lparr>roadmap_id = roadmap_id', week_number = weekIndex + 1,
             lesson_title = title topic, lesson_objective = lessonObjective topic,
             estimated_time = estimatedTime topic, order_index = topicIndex\<rparr>)
         (enumerate 0 (topics week))"

text \<open>\<open>roadmapData.flatMap((week, weekIndex) => ...)\<close>.\<close>

definition roadmap_lessons :: "uuid \<Rightarrow> week list \<Rightarrow> lesson_fields list" where
  "roadmap_lessons roadmap_id' roadmapData =
     concat (map (\<lambda>(weekIndex, week). week_lessons roadmap_id' weekIndex week)
                 (enumerate 0 roadmapData))"

text \<open>
  The \<open>catch\<close> block. The third argument of \<open>showError\<close> is here the object
  \<open>{action: {label: "Retry", onClick: handleGenerateRoadmap}}\<close>: the callback sits one level
  below where the hook reads it, so the object that becomes the toast's action has neither
  a \<open>label\<close> nor an \<open>onClick\<close> of its own.
\<close>

definition creation_failed :: "js_error \<Rightarrow> toast" where
  "creation_failed error =
     (let errorMessage = message_or error ''Failed to generate roadmap. Please try again.''
      in if includes_str errorMessage ''AI service is temporarily unavailable''
         then showError ''Creation Failed'' errorMessage (Some \<lparr>label = None, onClick = None\<rparr>)
         else showError ''Creation Failed'' errorMessage None)"

text \<open>
  \<open>updateProfile({goal})\<close> of the authentication context: an upsert into \<open>profiles\<close>; on an
  error it shows a notification of its own and throws \<open>new Error(formatAuthError(error))\<close>.
\<close>

definition updateProfile :: "uuid \<Rightarrow> string \<Rightarrow> upstream_error option \<Rightarrow> js_error option \<times> 'j effect list" where
  "updateProfile user goal reply =
     (case reply of
        None \<Rightarrow> (None, [Upsert_profile user goal])
      | Some e \<Rightarrow>
          (Some (Error (formatAuthError (Some e))),
           [Upsert_profile user goal,
            Show (showError ''Update Failed'' (formatAuthError (Some e)) None)]))"

text \<open>
  The steps after the roadmap row has come back with identifier \<open>roadmap_id'\<close>: the lessons,
  the progress record, the profile. The result is the error thrown, if any, and the effects.
\<close>

definition create_lessons_and_progress ::
  "uuid \<Rightarrow> string \<Rightarrow> replies \<Rightarrow> uuid \<Rightarrow> week list \<Rightarrow> js_error option \<times> 'j effect list" where
  "create_lessons_and_progress user goal world roadmap_id' roadmapData =
     (let lessons = roadmap_lessons roadmap_id' roadmapData;
          inserted = (if length lessons > 0 then [Insert_lessons lessons] else [])
      in if length lessons > 0 \<and> lessons_error world \<noteq> None
         then (lessons_error world, inserted)
         else
           (let row = \<lparr>progress_user_id = user, progress_roadmap_id = roadmap_id',
                       total_lessons = length lessons, completed_lessons = 0,
                       total_time_spent = 0, average_accuracy = Some 0, current_week = 1\<rparr>
            in if progress_error world \<noteq> None
               then (progress_error world, inserted @ [Insert_progress row])
               else
                 (case updateProfile user goal (profile_error world) of
                    (Some e, effects) \<Rightarrow> (Some e, inserted @ [Insert_progress row] @ effects)
                  | (None, effects) \<Rightarrow>
                      (None, inserted @ [Insert_progress row] @ effects @
                         [Show (showSuccess ''Roadmap Created''
                                  ''Your personalized learning roadmap is ready!''),
                          Navigate ''/dashboard'']))))"

text \<open>
  \<open>handleGenerateRoadmap\<close>. \<open>user\<close> is the signed-in user's identifier or \<open>None\<close>;
  \<open>weeks_of\<close> reads the parsed value as weeks and topics; \<open>prompt\<close> is the prompt that
  \<open>generateRoadmap\<close> builds from the goal and the answers.
\<close>

definition handleGenerateRoadmap ::
  "(string \<Rightarrow> js_error + 'j) \<Rightarrow> ('j \<Rightarrow> bool) \<Rightarrow> ('j \<Rightarrow> week list) \<Rightarrow> string option
     \<Rightarrow> uuid option \<Rightarrow> string \<Rightarrow> string \<Rightarrow> replies \<Rightarrow> 'j effect list" where
  "handleGenerateRoadmap JSON_parse isArray weeks_of GEMINI_API_KEY user goal prompt world =
     (case user of
        None \<Rightarrow>
          [Show (showError ''Authentication Error''
                   ''You must be logged in to create a roadmap.'' None)]
      | Some user_id \<Rightarrow>
          [Set_loading True] @
          (case generateRoadmap JSON_parse isArray GEMINI_API_KEY (ai_reply world) prompt of
             (Inl e, calls) \<Rightarrow> map Net calls @ [Show (creation_failed e)]
           | (Inr roadmapData, calls) \<Rightarrow>
               map Net calls @
               [Insert_roadmap user_id (''Learning Roadmap: '' @ goal) goal roadmapData] @
               (case roadmap_error world of
                  Some roadmapError \<Rightarrow> [Show (creation_failed roadmapError)]
                | None \<Rightarrow>
                    (case roadmap_data world of
                       None \<Rightarrow>
                         [Show (creation_failed (Error
                            ''Failed to retrieve roadmap after creation. Please check table permissions (RLS) and try again.''))]
                     | Some roadmap_id' \<Rightarrow>
                         (case create_lessons_and_progress user_id goal world roadmap_id'
                                 (weeks_of roadmapData) of
                            (Some e, effects) \<Rightarrow> effects @ [Show (creation_failed e)]
                          | (None, effects) \<Rightarrow> effects)))) @
          [Set_loading False])"

text \<open>The same with the index of the first week as a parameter: the rows of a tail of the
  roadmap.\<close>

definition lessons_from :: "uuid \<Rightarrow> nat \<Rightarrow> week list \<Rightarrow> lesson_fields list" where
  "lessons_from rid k ws =
     concat (map (\<lambda>(weekIndex, week). week_lessons rid weekIndex week) (enumerate k ws))"

section \<open>Numbers\<close>

text \<open>
  A JavaScript number is an IEEE 754 double. A finite double is a rational number, and an
  arithmetic operation returns the exact result rounded to the nearest double, ties to the
  even significand. The model computes on \<^typ>\<open>rat\<close> and rounds to 53 significant bits;
  it leaves out overflow and subnormal numbers, which the magnitudes of this program (between
  \<open>2\<^sup>-\<^sup>3\<^sup>2\<close> and a few hundred) never reach.
\<close>

text \<open>The number of binary digits of a natural number.\<close>

fun bit_length :: "nat \<Rightarrow> nat" where
  "bit_length n = (if n = 0 then 0 else Suc (bit_length (n div 2)))"

declare bit_length.simps [simp del]

text \<open>For \<open>x > 0\<close>, the exponent \<open>e\<close> with \<open>2\<^sup>e \<le> x < 2\<^sup>e\<^sup>+\<^sup>1\<close>.\<close>

definition binary_exponent :: "rat \<Rightarrow> int" where
  "binary_exponent x =
     (if 1 \<le> x then int (bit_length (nat \<lfloor>x\<rfloor>)) - 1
      else - int (bit_length (nat (\<lceil>1 / x\<rceil> - 1))))"

definition round_half_even :: "rat \<Rightarrow> int" where
  "round_half_even q =
     (let f = \<lfloor>q\<rfloor>; r = q - of_int f
      in if r < 1 / 2 then f else if 1 / 2 < r then f + 1 else if even f then f else f + 1)"

text \<open>The double nearest to a rational: the significand is scaled to 53 bits and rounded.\<close>

definition to_double :: "rat \<Rightarrow> rat" where
  "to_double x =
     (if x = 0 then 0
      else (let s = 52 - binary_exponent \<bar>x\<bar>
            in sgn x * of_int (round_half_even (\<bar>x\<bar> * 2 powi s)) / 2 powi s))"

definition double_div :: "rat \<Rightarrow> rat \<Rightarrow> rat" where
  "double_div a b = to_double (a / b)"

definition double_mul :: "rat \<Rightarrow> rat \<Rightarrow> rat" where
  "double_mul a b = to_double (a * b)"

text \<open>\<open>Math.round\<close>: the nearest integer, the larger one on a tie.\<close>

definition Math_round :: "rat \<Rightarrow> int" where
  "Math_round x = \<lfloor>x + 1 / 2\<rfloor>"

section \<open>The lesson page (LessonView)\<close>

subsection \<open>\<open>fetchLesson\<close>\<close>

text \<open>The state of the page that \<open>fetchLesson\<close> sets.\<close>

record 'j lesson_view =
  lesson :: "lesson option"
  allLessons :: "lesson list"
  lessonContent :: "'j option"
  loading :: bool

text \<open>
  What the outside world answers during one run of \<open>fetchLesson\<close>: the \<open>{data, error}\<close> of
  the two queries on \<open>lessons\<close> and the outcome of the fetch that generates the content.
\<close>

record lesson_replies =
  lesson_data :: "lesson option"
  lesson_error :: "js_error option"
  all_lessons_data :: "lesson list option"
  all_lessons_error :: "js_error option"
  content_reply :: fetch_outcome

text \<open>The browser's key-value storage: \<open>getItem\<close> is application, \<open>None\<close> is \<open>null\<close>.\<close>

type_synonym storage = "string \<rightharpoonup> string"

text \<open>The \<open>catch\<close> and \<open>finally\<close> blocks of \<open>fetchLesson\<close>.\<close>

definition loading_failed ::
  "'j lesson_view \<Rightarrow> storage \<Rightarrow> 'j effect list \<Rightarrow> js_error
     \<Rightarrow> 'j lesson_view \<times> storage \<times> 'j effect list" where
  "loading_failed view localStorage effects error =
     (view\<lparr>loading := False\<rparr>, localStorage,
      effects @
      [Show (showError ''Loading Failed'' (message_or error ''Failed to load lesson'')
               (Some \<lparr>label = Some ''Retry'', onClick = Some Call_fetchLesson\<rparr>))])"

text \<open>The \<open>else\<close> branch of \<open>if (cachedContent)\<close>: generate the content and store it.\<close>

definition generate_and_store ::
  "(string \<Rightarrow> js_error + 'j) \<Rightarrow> ('j \<Rightarrow> string) \<Rightarrow> ('j \<Rightarrow> bool) \<Rightarrow> string option
     \<Rightarrow> string \<Rightarrow> string \<Rightarrow> fetch_outcome \<Rightarrow> storage \<Rightarrow> 'j lesson_view
     \<Rightarrow> 'j lesson_view \<times> storage \<times> 'j effect list" where
  "generate_and_store JSON_parse JSON_stringify isObject GEMINI_API_KEY lessonId prompt outcome
       localStorage view =
     (case generateLessonContent JSON_parse isObject GEMINI_API_KEY outcome prompt of
        (Inl e, calls) \<Rightarrow>
          loading_failed view localStorage (Generator_call # map Net calls) e
      | (Inr content, calls) \<Rightarrow>
          (view\<lparr>lessonContent := Some content, loading := False\<rparr>,
           localStorage(''lesson_'' @ lessonId \<mapsto> JSON_stringify content),
           Generator_call # map Net calls))"

text \<open>
  The part of \<open>fetchLesson\<close> behind the two queries: the look-up in the storage under
  \<open>lesson_<id>\<close>. The test \<open>if (cachedContent)\<close> fails on \<open>null\<close> and on the empty string.
\<close>

definition load_content ::
  "(string \<Rightarrow> js_error + 'j) \<Rightarrow> ('j \<Rightarrow> string) \<Rightarrow> ('j \<Rightarrow> bool) \<Rightarrow> string option
     \<Rightarrow> string \<Rightarrow> string \<Rightarrow> fetch_outcome \<Rightarrow> storage \<Rightarrow> 'j lesson_view
     \<Rightarrow> 'j lesson_view \<times> storage \<times> 'j effect list" where
  "load_content JSON_parse JSON_stringify isObject GEMINI_API_KEY lessonId prompt outcome
       localStorage view =
     (case localStorage (''lesson_'' @ lessonId) of
        None \<Rightarrow>
          generate_and_store JSON_parse JSON_stringify isObject GEMINI_API_KEY lessonId prompt
            outcome localStorage view
      | Some cachedContent \<Rightarrow>
          if cachedContent = [] then
            generate_and_store JSON_parse JSON_stringify isObject GEMINI_API_KEY lessonId prompt
              outcome localStorage view
          else
            (case JSON_parse cachedContent of
               Inl e \<Rightarrow> loading_failed view localStorage [] e
             | Inr v \<Rightarrow>
                 (view\<lparr>lessonContent := Some v, loading := False\<rparr>, localStorage, [])))"

text \<open>
  \<open>fetchLesson\<close>. Its results are the state of the page, the storage and the effects.
  \<open>prompt\<close> is the prompt that \<open>generateLessonContent\<close> builds from the lesson row.
\<close>

definition fetchLesson ::
  "(string \<Rightarrow> js_error + 'j) \<Rightarrow> ('j \<Rightarrow> string) \<Rightarrow> ('j \<Rightarrow> bool) \<Rightarrow> string option
     \<Rightarrow> string \<Rightarrow> string \<Rightarrow> lesson_replies \<Rightarrow> storage \<Rightarrow> 'j lesson_view
     \<Rightarrow> 'j lesson_view \<times> storage \<times> 'j effect list" where
  "fetchLesson JSON_parse JSON_stringify isObject GEMINI_API_KEY lessonId prompt world
       localStorage view =
     (case lesson_error world of
        Some lessonError \<Rightarrow> loading_failed view localStorage [] lessonError
      | None \<Rightarrow>
          (case lesson_data world of
             None \<Rightarrow> loading_failed view localStorage [] (Error ''Lesson not found'')
           | Some lessonData \<Rightarrow>
               (case all_lessons_error world of
                  Some allLessonsError \<Rightarrow>
                    loading_failed (view\<lparr>lesson := Some lessonData\<rparr>) localStorage []
                      allLessonsError
                | None \<Rightarrow>
                    load_content JSON_parse JSON_stringify isObject GEMINI_API_KEY lessonId
                      prompt (content_reply world) localStorage
                      (view\<lparr>lesson := Some lessonData,
                            allLessons := (case all_lessons_data world of
                                             None \<Rightarrow> [] | Some ls \<Rightarrow> ls)\<rparr>))))"

text \<open>The number of invocations of the generator among the effects of a run.\<close>

definition generator_calls :: "'j effect list \<Rightarrow> nat" where
  "generator_calls effects = length (filter (\<lambda>e. e = Generator_call) effects)"

text \<open>The calls of \<open>fetch\<close> among the effects of a run.\<close>

definition fetch_calls :: "'j effect list \<Rightarrow> net_event list" where
  "fetch_calls effects = concat (map (\<lambda>e. case e of Net n \<Rightarrow> [n] | _ \<Rightarrow> []) effects)"

subsection \<open>Completing a lesson\<close>

text \<open>An assessment question; \<open>answer\<close> is read with \<open>question.answer?.\<close> and may be absent.\<close>

record question =
  question_text :: string
  answer :: "string option"

text \<open>\<open>xs[index]\<close> on an array with holes: \<open>undefined\<close> beyond the length and in a hole.\<close>

definition at_index :: "string option list \<Rightarrow> nat \<Rightarrow> string option" where
  "at_index xs index = (if index < length xs then xs ! index else None)"

text \<open>\<open>x?.trim().toLowerCase() || ""\<close>.\<close>

definition normalized :: "string option \<Rightarrow> string" where
  "normalized x = (case x of None \<Rightarrow> [] | Some s \<Rightarrow> toLowerCase (trim s))"

text \<open>
  The \<open>forEach\<close> of \<open>completeTest\<close>, from the question at position \<open>index\<close> on: the number of
  questions on which \<open>userAnswer === correctAnswer\<close>.
\<close>

fun count_correct :: "question list \<Rightarrow> string option list \<Rightarrow> nat \<Rightarrow> nat" where
  "count_correct [] userAnswers index = 0"
| "count_correct (question # questions) userAnswers index =
     (let userAnswer = normalized (at_index userAnswers index);
          correctAnswer = normalized (answer question)
      in (if userAnswer = correctAnswer then 1 else 0) +
         count_correct questions userAnswers (index + 1))"

text \<open>
  \<open>Math.round((correctAnswers / questions.length) * 100)\<close>. With no question the quotient
  is \<open>0 / 0\<close> and the score is \<open>NaN\<close>, which is \<open>None\<close> here and \<open>NULL\<close> in the store.
\<close>

definition final_score :: "nat \<Rightarrow> nat \<Rightarrow> int option" where
  "final_score correctAnswers n =
     (if n = 0 then None
      else Some (Math_round (double_mul (double_div (of_nat correctAnswers) (of_nat n)) 100)))"

text \<open>\<open>100 c / n\<close> lies halfway between two integers.\<close>

definition rounding_tie :: "nat \<Rightarrow> nat \<Rightarrow> bool" where
  "rounding_tie c n = ((200 * c + n) mod (2 * n) = 0)"

definition test_score :: "question list \<Rightarrow> string option list \<Rightarrow> int option" where
  "test_score questions userAnswers =
     final_score (count_correct questions userAnswers 0) (length questions)"

text \<open>
  The hosted store. The schema declares \<open>UNIQUE(user_id, lesson_id)\<close> on the completions
  and \<open>UNIQUE(user_id, roadmap_id)\<close> on the progress records. An upsert inserts the row
  when no row has its key; when one has, the store either replaces that row or rejects the
  request, depending on how the conflict is resolved. The source does not look at the reply,
  so both are kept.
\<close>

datatype conflict_policy = Replace_row | Reject_row

definition same_key :: "completion \<Rightarrow> completion \<Rightarrow> bool" where
  "same_key a b =
     (completion_user_id a = completion_user_id b \<and>
      completion_lesson_id a = completion_lesson_id b)"

definition upsert_completion ::
  "conflict_policy \<Rightarrow> completion \<Rightarrow> completion list \<Rightarrow> completion list" where
  "upsert_completion policy row table =
     (if list_ex (same_key row) table then
        (case policy of
           Replace_row \<Rightarrow> map (\<lambda>c. if same_key row c then row else c) table
         | Reject_row \<Rightarrow> table)
      else table @ [row])"

text \<open>
  \<open>.eq("user_id", u).eq("roadmap_id", r).single()\<close>: the row, when exactly one row
  matches, and \<open>null\<close> otherwise.
\<close>

definition select_progress :: "uuid \<Rightarrow> uuid \<Rightarrow> progress list \<Rightarrow> progress option" where
  "select_progress u r table =
     (case filter (\<lambda>p. progress_user_id p = u \<and> progress_roadmap_id p = r) table of
        [p] \<Rightarrow> Some p
      | _ \<Rightarrow> None)"

text \<open>\<open>x || 0\<close> on a nullable number.\<close>

definition or_zero :: "rat option \<Rightarrow> rat" where
  "or_zero x = (case x of None \<Rightarrow> 0 | Some a \<Rightarrow> a)"

text \<open>
  The block \<open>if (progressData) {...}\<close>, which is the same in both handlers. The score is
  \<open>None\<close> when it is \<open>NaN\<close>, and so is then the new average. The arithmetic on the average
  is exact: the claims about it are stated over the rationals.
\<close>

definition update_progress :: "progress \<Rightarrow> int option \<Rightarrow> progress list \<Rightarrow> progress list" where
  "update_progress progressData finalScore table =
     (let oldCompletedLessons = completed_lessons progressData;
          oldAverageAccuracy = or_zero (average_accuracy progressData);
          newCompletedLessons = oldCompletedLessons + 1;
          newAverageAccuracy =
            (case finalScore of
               None \<Rightarrow> None
             | Some s \<Rightarrow>
                 Some ((oldAverageAccuracy * of_nat oldCompletedLessons + of_int s) /
                       of_nat newCompletedLessons))
      in map (\<lambda>p. if progress_id p = progress_id progressData
                   then p\<lparr>completed_lessons := newCompletedLessons,
                          total_time_spent := total_time_spent progressData + 30,
                          average_accuracy := newAverageAccuracy\<rparr>
                   else p) table)"

text \<open>
  What both handlers do to the store: upsert the completion record, read the progress
  record of the user and the lesson's roadmap, and update it when there is one.
\<close>

definition record_completion ::
  "conflict_policy \<Rightarrow> completion \<Rightarrow> uuid \<Rightarrow> database \<Rightarrow> database" where
  "record_completion policy row roadmap db =
     (let db1 = db\<lparr>lesson_completions := upsert_completion policy row (lesson_completions db)\<rparr>
      in case select_progress (completion_user_id row) roadmap (user_progress db1) of
           None \<Rightarrow> db1
         | Some progressData \<Rightarrow>
             db1\<lparr>user_progress := update_progress progressData (score row) (user_progress db1)\<rparr>)"

text \<open>
  \<open>handleMarkComplete\<close>. Both handlers are bound to buttons of the rendered lesson, where
  the user, the lesson identifier and the lesson row are set; \<open>now\<close> is
  \<open>new Date().toISOString()\<close>. The store's client does not throw, so the \<open>catch\<close> block is
  not reached.
\<close>

definition handleMarkComplete ::
  "conflict_policy \<Rightarrow> string \<Rightarrow> uuid \<Rightarrow> uuid \<Rightarrow> lesson \<Rightarrow> database \<Rightarrow> database \<times> toast list" where
  "handleMarkComplete policy now user lessonId lesson' db =
     (record_completion policy
        \<lparr>completion_user_id = user, completion_lesson_id = lessonId, score = Some 100,
         time_spent = 30, answers = [], completed_at = now\<rparr>
        (roadmap_id lesson') db,
      [showSuccess ''Lesson Completed'' ''Great job! You can now move to the next lesson.''])"

text \<open>The text of \<open>${finalScore}\<close>.\<close>

definition score_text :: "int option \<Rightarrow> string" where
  "score_text s =
     (case s of
        None \<Rightarrow> ''NaN''
      | Some n \<Rightarrow> (if n < 0 then ''-'' @ decimal (nat (- n)) else decimal (nat n)))"

definition completeTest ::
  "conflict_policy \<Rightarrow> string \<Rightarrow> uuid \<Rightarrow> uuid \<Rightarrow> lesson \<Rightarrow> question list \<Rightarrow> string option list
     \<Rightarrow> database \<Rightarrow> database \<times> toast list" where
  "completeTest policy now user lessonId lesson' questions userAnswers db =
     (let finalScore = test_score questions userAnswers
      in (record_completion policy
            \<lparr>completion_user_id = user, completion_lesson_id = lessonId, score = finalScore,
             time_spent = 30, answers = userAnswers, completed_at = now\<rparr>
            (roadmap_id lesson') db,
          [showSuccess ''Test Completed''
             (''You scored '' @ score_text finalScore @ ''%! '' @
              (case finalScore of
                 None \<Rightarrow> ''Consider reviewing the material.''
               | Some s \<Rightarrow> if s \<ge> 70 then ''Great job!''
                           else ''Consider reviewing the material.''))]))"

subsection \<open>The counter of completed lessons\<close>

definition lesson_in_roadmap :: "database \<Rightarrow> uuid \<Rightarrow> uuid \<Rightarrow> bool" where
  "lesson_in_roadmap db l r = list_ex (\<lambda>x. lesson_id x = l \<and> roadmap_id x = r) (lessons db)"

text \<open>The completion records of user \<open>u\<close> for lessons of roadmap \<open>r\<close>.\<close>

definition completions_in_roadmap :: "database \<Rightarrow> uuid \<Rightarrow> uuid \<Rightarrow> completion list" where
  "completions_in_roadmap db u r =
     filter (\<lambda>c. completion_user_id c = u \<and> lesson_in_roadmap db (completion_lesson_id c) r)
       (lesson_completions db)"

text \<open>The invariant of claim C3, for the progress record of \<open>u\<close> and \<open>r\<close> if there is one.\<close>

definition counter_matches :: "database \<Rightarrow> uuid \<Rightarrow> uuid \<Rightarrow> bool" where
  "counter_matches db u r =
     (case select_progress u r (user_progress db) of
        None \<Rightarrow> True
      | Some p \<Rightarrow> completed_lessons p = length (completions_in_roadmap db u r))"





section \<open>The list of lessons: \<open>fetchLessons\<close> (LessonsList)\<close>

text \<open>The \<open>{data, error}\<close> with which a query of the store's client resolves.\<close>

record 'a query_result =
  result_data :: "'a option"
  result_error :: "js_error option"

text \<open>How a promise settles.\<close>

datatype 'a settled = Fulfilled 'a | Rejects js_error

text \<open>The state of the list page.\<close>

record lessons_list =
  list_lessons :: "lesson list"
  list_completions :: "completion list"
  list_error :: "string option"
  list_loading :: bool

text \<open>Which of the two promises handed to \<open>Promise.all\<close> settles first.\<close>

datatype settle_order = Lessons_first | Completions_first

text \<open>
  \<open>Promise.all([p, q])\<close> for two promises, as the language defines it: the aggregate keeps a
  slot for each value and a count of the promises still pending. When a promise fulfils,
  its value goes into its slot and the count goes down; at zero the aggregate fulfils with
  the values by position. When a promise rejects, the aggregate rejects with its reason. An
  aggregate that has settled stays as it is.
\<close>

record ('a, 'b) aggregate =
  first_value :: "'a option"
  second_value :: "'b option"
  remaining :: nat
  aggregate_result :: "(js_error + 'a \<times> 'b) option"

definition resolve_aggregate :: "('a, 'b) aggregate \<Rightarrow> ('a, 'b) aggregate" where
  "resolve_aggregate agg =
     (if remaining agg = 0 \<and> aggregate_result agg = None then
        (case (first_value agg, second_value agg) of
           (Some a, Some b) \<Rightarrow> agg\<lparr>aggregate_result := Some (Inr (a, b))\<rparr>
         | _ \<Rightarrow> agg)
      else agg)"

definition reject_aggregate :: "js_error \<Rightarrow> ('a, 'b) aggregate \<Rightarrow> ('a, 'b) aggregate" where
  "reject_aggregate e agg =
     (if aggregate_result agg = None then agg\<lparr>aggregate_result := Some (Inl e)\<rparr> else agg)"

definition settle_first :: "'a settled \<Rightarrow> ('a, 'b) aggregate \<Rightarrow> ('a, 'b) aggregate" where
  "settle_first p agg =
     (case p of
        Fulfilled a \<Rightarrow>
          resolve_aggregate (agg\<lparr>first_value := Some a, remaining := remaining agg - 1\<rparr>)
      | Rejects e \<Rightarrow> reject_aggregate e agg)"

definition settle_second :: "'b settled \<Rightarrow> ('a, 'b) aggregate \<Rightarrow> ('a, 'b) aggregate" where
  "settle_second q agg =
     (case q of
        Fulfilled b \<Rightarrow>
          resolve_aggregate (agg\<lparr>second_value := Some b, remaining := remaining agg - 1\<rparr>)
      | Rejects e \<Rightarrow> reject_aggregate e agg)"

text \<open>The aggregate after both promises have settled, in the given order; \<open>None\<close> would be an
  aggregate that never settles.\<close>

definition promise_all ::
  "settle_order \<Rightarrow> 'a settled \<Rightarrow> 'b settled \<Rightarrow> (js_error + 'a \<times> 'b) option" where
  "promise_all order p q =
     (let pending = \<lparr>first_value = None, second_value = None, remaining = 2,
                     aggregate_result = None\<rparr>
      in case order of
           Lessons_first \<Rightarrow> aggregate_result (settle_second q (settle_first p pending))
         | Completions_first \<Rightarrow> aggregate_result (settle_first p (settle_second q pending)))"

text \<open>The \<open>catch\<close> and \<open>finally\<close> blocks of \<open>fetchLessons\<close>.\<close>

definition lessons_failed :: "lessons_list \<Rightarrow> js_error \<Rightarrow> lessons_list" where
  "lessons_failed view error =
     view\<lparr>list_error := Some (message_or error ''Failed to load lessons''),
          list_loading := False\<rparr>"

text \<open>The lines behind the \<open>await\<close> of the two results: two checks, two assignments.\<close>

definition merge_results ::
  "lessons_list \<Rightarrow> lesson list query_result \<Rightarrow> completion list query_result \<Rightarrow> lessons_list" where
  "merge_results view lessonsResult completionsResult =
     (case result_error lessonsResult of
        Some e \<Rightarrow> lessons_failed view e
      | None \<Rightarrow>
          (case result_error completionsResult of
             Some e \<Rightarrow> lessons_failed view e
           | None \<Rightarrow>
               view\<lparr>list_lessons := (case result_data lessonsResult of
                                        None \<Rightarrow> [] | Some ls \<Rightarrow> ls),
                    list_completions := (case result_data completionsResult of
                                           None \<Rightarrow> [] | Some cs \<Rightarrow> cs),
                    list_loading := False\<rparr>))"

text \<open>
  \<open>fetchLessons\<close>. \<open>roadmap\<close> is the outcome of the race between the query for the user's
  roadmap and the 30 second timer (of the row only \<open>id\<close> is read); \<open>lessonsQuery\<close> and
  \<open>completionsQuery\<close> are the ways the two queries settle, and \<open>order\<close> says which settles
  first. The result is the state of the page when the function has returned, \<open>None\<close> if it
  never gets past the \<open>await\<close>.
\<close>

definition fetchLessons ::
  "settle_order \<Rightarrow> uuid query_result settled \<Rightarrow> lesson list query_result settled
     \<Rightarrow> completion list query_result settled \<Rightarrow> lessons_list \<Rightarrow> lessons_list option" where
  "fetchLessons order roadmap lessonsQuery completionsQuery view0 =
     (let view = view0\<lparr>list_error := None\<rparr>
      in case roadmap of
           Rejects e \<Rightarrow> Some (lessons_failed view e)
         | Fulfilled roadmapResult \<Rightarrow>
             (case result_error roadmapResult of
                Some roadmapError \<Rightarrow> Some (lessons_failed view roadmapError)
              | None \<Rightarrow>
                  (case result_data roadmapResult of
                     None \<Rightarrow>
                       Some (view\<lparr>list_lessons := [], list_completions := [],
                                  list_loading := False\<rparr>)
                   | Some roadmapData \<Rightarrow>
                       (case promise_all order lessonsQuery completionsQuery of
                          None \<Rightarrow> None
                        | Some (Inl e) \<Rightarrow> Some (lessons_failed view e)
                        | Some (Inr (lessonsResult, completionsResult)) \<Rightarrow>
                            Some (merge_results view lessonsResult completionsResult)))))"

text \<open>
  Not in the source: the same function with the two queries awaited one after the other,
  \<open>const lessonsResult = await ...; const completionsResult = await ...;\<close>, and in the
  other order.
\<close>

definition await_in_turn ::
  "settle_order \<Rightarrow> 'a settled \<Rightarrow> 'b settled \<Rightarrow> js_error + ('a \<times> 'b)" where
  "await_in_turn first p q =
     (case first of
        Lessons_first \<Rightarrow>
          (case p of
             Rejects e \<Rightarrow> Inl e
           | Fulfilled a \<Rightarrow> (case q of Rejects e \<Rightarrow> Inl e | Fulfilled b \<Rightarrow> Inr (a, b)))
      | Completions_first \<Rightarrow>
          (case q of
             Rejects e \<Rightarrow> Inl e
           | Fulfilled b \<Rightarrow> (case p of Rejects e \<Rightarrow> Inl e | Fulfilled a \<Rightarrow> Inr (a, b))))"

definition fetchLessons_sequential ::
  "settle_order \<Rightarrow> uuid query_result settled \<Rightarrow> lesson list query_result settled
     \<Rightarrow> completion list query_result settled \<Rightarrow> lessons_list \<Rightarrow> lessons_list" where
  "fetchLessons_sequential first roadmap lessonsQuery completionsQuery view0 =
     (let view = view0\<lparr>list_error := None\<rparr>
      in case roadmap of
           Rejects e \<Rightarrow> lessons_failed view e
         | Fulfilled roadmapResult \<Rightarrow>
             (case result_error roadmapResult of
                Some roadmapError \<Rightarrow> lessons_failed view roadmapError
              | None \<Rightarrow>
                  (case result_data roadmapResult of
                     None \<Rightarrow>
                       view\<lparr>list_lessons := [], list_completions := [], list_loading := False\<rparr>
                   | Some roadmapData \<Rightarrow>
                       (case await_in_turn first lessonsQuery completionsQuery of
                          Inl e \<Rightarrow> lessons_failed view e
                        | Inr (lessonsResult, completionsResult) \<Rightarrow>
                            merge_results view lessonsResult completionsResult))))"


text \<open>The progress record as the \<open>update\<close> of either handler leaves it, for a score \<open>s\<close>.\<close>

definition progressed :: "progress \<Rightarrow> int \<Rightarrow> progress" where
  "progressed p s =
     p\<lparr>completed_lessons := completed_lessons p + 1,
       total_time_spent := total_time_spent p + 30,
       average_accuracy :=
         Some ((or_zero (average_accuracy p) * of_nat (completed_lessons p) + of_int s) /
               of_nat (completed_lessons p + 1))\<rparr>"

section \<open>The other callers of the generators\<close>

subsection \<open>\<open>handleGoalSubmit\<close> (OnboardingFlow.tsx)\<close>

text \<open>
  The result is the questions, when they were generated, and the effects. \<open>prompt\<close> is the
  prompt that \<open>generateQuestions\<close> builds from the goal.
\<close>

definition handleGoalSubmit ::
  "(string \<Rightarrow> js_error + 'j) \<Rightarrow> ('j \<Rightarrow> bool) \<Rightarrow> string option \<Rightarrow> string \<Rightarrow> string
     \<Rightarrow> fetch_outcome \<Rightarrow> 'j option \<times> 'j effect list" where
  "handleGoalSubmit JSON_parse isArray GEMINI_API_KEY goal prompt outcome =
     (if trim goal = [] then (None, [])
      else
        (case generateQuestions JSON_parse isArray GEMINI_API_KEY outcome prompt of
           (Inl e, calls) \<Rightarrow>
             (None,
              [Set_loading True] @ map Net calls @
              [Show (showError ''Generation Failed''
                       (message_or e ''Failed to generate questions. Please try again.'') None),
               Set_loading False])
         | (Inr generatedQuestions, calls) \<Rightarrow>
             (Some generatedQuestions,
              [Set_loading True] @ map Net calls @
              [Show (showSuccess ''Questions Generated''
                       ''Your personalized questions are ready!''),
               Set_loading False])))"

subsection \<open>\<open>fetchRoadmapData\<close> and \<open>handleAlterRoadmap\<close> (RoadmapView.tsx)\<close>

text \<open>
  \<open>fetchRoadmapData\<close> reads the user's latest roadmap, its lessons and the user's
  completions. What is kept of it here is what it sends and shows; its assignments to the
  state of the page are left out, as no claim reads them. \<open>roadmap_found\<close> says whether the
  first query returned a row.
\<close>

record roadmap_fetch_replies =
  fetch_roadmap_error :: "js_error option"
  roadmap_found :: bool
  fetch_lessons_error :: "js_error option"
  fetch_completions_error :: "js_error option"

definition roadmap_loading_failed :: "js_error \<Rightarrow> 'j effect list" where
  "roadmap_loading_failed error =
     [Show (showError ''Loading Failed'' (message_or error ''Failed to load roadmap data'')
              (Some \<lparr>label = Some ''Retry'', onClick = Some Call_fetchRoadmapData\<rparr>)),
      Set_loading False]"

definition fetchRoadmapData :: "roadmap_fetch_replies \<Rightarrow> 'j effect list" where
  "fetchRoadmapData world =
     [Select_roadmap_data] @
     (case fetch_roadmap_error world of
        Some roadmapError \<Rightarrow> roadmap_loading_failed roadmapError
      | None \<Rightarrow>
          if \<not> roadmap_found world then [Set_loading False, Set_loading False]
          else
            (case fetch_lessons_error world of
               Some lessonsError \<Rightarrow> roadmap_loading_failed lessonsError
             | None \<Rightarrow>
                 (case fetch_completions_error world of
                    Some completionsError \<Rightarrow> roadmap_loading_failed completionsError
                  | None \<Rightarrow> [Set_loading False])))"

text \<open>What the outside world answers during one run of \<open>handleAlterRoadmap\<close>.\<close>

record alter_replies =
  alter_ai_reply :: fetch_outcome
  update_roadmap_error :: "js_error option"
  delete_lessons_error :: "js_error option"
  insert_lessons_error :: "js_error option"
  update_progress_error :: "js_error option"
  refetch_replies :: roadmap_fetch_replies

definition update_failed :: "js_error \<Rightarrow> 'j effect list" where
  "update_failed error =
     [Show (showError ''Update Failed''
              (message_or error ''Failed to alter roadmap. Please try again.'') None)]"

text \<open>The steps of \<open>handleAlterRoadmap\<close> behind the generation, up to the first error.\<close>

definition replace_lessons ::
  "alter_replies \<Rightarrow> uuid \<Rightarrow> 'j \<Rightarrow> week list \<Rightarrow> 'j effect list" where
  "replace_lessons world roadmap_id' newRoadmapWeeks weeks =
     [Update_roadmap roadmap_id' newRoadmapWeeks] @
     (case update_roadmap_error world of
        Some updateError \<Rightarrow> update_failed updateError
      | None \<Rightarrow>
          [Delete_lessons roadmap_id'] @
          (case delete_lessons_error world of
             Some deleteLessonsError \<Rightarrow> update_failed deleteLessonsError
           | None \<Rightarrow>
               [Insert_lessons (roadmap_lessons roadmap_id' weeks)] @
               (case insert_lessons_error world of
                  Some lessonsError \<Rightarrow> update_failed lessonsError
                | None \<Rightarrow>
                    [Reset_progress roadmap_id' (length (roadmap_lessons roadmap_id' weeks))] @
                    (case update_progress_error world of
                       Some progressError \<Rightarrow> update_failed progressError
                     | None \<Rightarrow>
                         [Show (showSuccess ''Roadmap Updated''
                            ''Your roadmap has been successfully updated with your requested changes.'')] @
                         fetchRoadmapData (refetch_replies world)))))"

text \<open>
  \<open>handleAlterRoadmap\<close>. \<open>roadmap\<close> is the identifier of the roadmap on the page, if one is
  loaded, and \<open>alterRequest\<close> the text the user typed. \<open>setProcessing\<close> is not an effect of
  the model.
\<close>

definition handleAlterRoadmap ::
  "(string \<Rightarrow> js_error + 'j) \<Rightarrow> ('j \<Rightarrow> bool) \<Rightarrow> ('j \<Rightarrow> week list) \<Rightarrow> string option
     \<Rightarrow> uuid option \<Rightarrow> string \<Rightarrow> string \<Rightarrow> alter_replies \<Rightarrow> 'j effect list" where
  "handleAlterRoadmap JSON_parse isArray weeks_of GEMINI_API_KEY roadmap alterRequest prompt world =
     (case roadmap of
        None \<Rightarrow> []
      | Some roadmap_id' \<Rightarrow>
          if trim alterRequest = [] then []
          else
            (case generateRoadmap JSON_parse isArray GEMINI_API_KEY (alter_ai_reply world)
                    prompt of
               (Inl e, calls) \<Rightarrow> map Net calls @ update_failed e
             | (Inr newRoadmapWeeks, calls) \<Rightarrow>
                 map Net calls @
                 replace_lessons world roadmap_id' newRoadmapWeeks (weeks_of newRoadmapWeeks)))"

section \<open>The pages as a transition system\<close>

text \<open>
  What is fixed during a session: the platform's functions, the configured key, the
  signed-in user, and the texts on the pages from which the prompts are built.
\<close>

record 'j app =
  app_JSON_parse :: "string \<Rightarrow> js_error + 'j"
  app_JSON_stringify :: "'j \<Rightarrow> string"
  app_isArray :: "'j \<Rightarrow> bool"
  app_isObject :: "'j \<Rightarrow> bool"
  app_weeks_of :: "'j \<Rightarrow> week list"
  app_key :: "string option"
  app_user :: "uuid option"
  app_goal :: string
  app_roadmap :: "uuid option"
  app_alterRequest :: string
  app_lessonId :: string
  questions_prompt :: string
  roadmap_prompt :: string
  alter_prompt :: string
  lesson_prompt :: string

text \<open>
  The state: the notifications on display, everything done so far, the browser's storage
  and the lesson page.
\<close>

record 'j page =
  shown :: "toast list"
  history :: "'j effect list"
  page_storage :: storage
  page_lesson :: "'j lesson_view"

text \<open>What the outside world answers to whichever function an event runs.\<close>

record world =
  questions_reply :: fetch_outcome
  onboarding_replies :: replies
  altering_replies :: alter_replies
  lesson_page_replies :: lesson_replies
  roadmap_page_replies :: roadmap_fetch_replies

text \<open>
  The invocation sites of the five functions in the source: the buttons "Continue"
  (\<open>handleGoalSubmit\<close>), "Generate roadmap" (\<open>handleGenerateRoadmap\<close>), "Update roadmap"
  (\<open>handleAlterRoadmap\<close>) and "Try Again" (\<open>fetchLesson\<close>); the actions of notifications;
  and the effect hooks of the lesson page (dependencies \<open>lessonId\<close> and \<open>user\<close>) and of the
  roadmap page (dependency \<open>user\<close>), which run \<open>fetchLesson\<close> and \<open>fetchRoadmapData\<close>.
  No function calls itself or another of them, \<open>handleAlterRoadmap\<close> apart, which refreshes
  the page with \<open>fetchRoadmapData\<close>; none starts a timer that would.

  A hook runs when its page is mounted, which follows a navigation of the user
  (\<open>Open_lesson_page\<close>, \<open>Open_roadmap_page\<close>: the links of the list of lessons and the
  buttons of \<open>navigateToLesson\<close>), and again whenever a dependency has changed. The
  dependency \<open>user\<close> is set by the authentication context: its initialisation and its
  listener \<open>onAuthStateChange\<close> (AuthContext.tsx) call \<open>setUser(session?.user ?? null)\<close>, the
  listener on every event of the authentication client, whatever the event, and the client
  is configured with \<open>autoRefreshToken: true\<close> (supabase.ts), so that such events also
  arrive from a timer. \<open>Auth_state_changed p u\<close> is one such event, arriving while page \<open>p\<close>
  is displayed, with \<open>u\<close> the user of its session.
\<close>

datatype mounted_page = Onboarding_page | Roadmap_page | Lesson_page | Another_page

datatype event =
    Click_continue
  | Click_generate_roadmap
  | Click_update_roadmap
  | Click_try_again
  | Open_lesson_page
  | Open_roadmap_page
  | Click_toast_action nat
  | Dismiss_toast nat
  | Toast_expired nat
  | Auth_state_changed mounted_page "uuid option"

text \<open>
  The events that are actions of the user. The expiry of a notification and the events of
  the authentication client are not.
\<close>

definition user_initiated :: "event \<Rightarrow> bool" where
  "user_initiated e =
     (case e of Toast_expired i \<Rightarrow> False | Auth_state_changed p u \<Rightarrow> False | _ \<Rightarrow> True)"

text \<open>
  The events of the authentication client on which the hook of the lesson page runs
  \<open>fetchLesson\<close> again: the lesson page is displayed and the session has a user.
\<close>

definition hook_rerun :: "event \<Rightarrow> bool" where
  "hook_rerun e =
     (case e of Auth_state_changed p u \<Rightarrow> p = Lesson_page \<and> u \<noteq> None | _ \<Rightarrow> False)"

definition toasts_of :: "'j effect list \<Rightarrow> toast list" where
  "toasts_of effects = concat (map (\<lambda>e. case e of Show t \<Rightarrow> [t] | _ \<Rightarrow> []) effects)"

definition record_effects :: "'j effect list \<Rightarrow> 'j page \<Rightarrow> 'j page" where
  "record_effects effects s =
     s\<lparr>shown := shown s @ toasts_of effects, history := history s @ effects\<rparr>"

definition run_fetchLesson :: "'j app \<Rightarrow> world \<Rightarrow> 'j page \<Rightarrow> 'j page" where
  "run_fetchLesson a w s =
     (case fetchLesson (app_JSON_parse a) (app_JSON_stringify a) (app_isObject a) (app_key a)
             (app_lessonId a) (lesson_prompt a) (lesson_page_replies w) (page_storage s)
             (page_lesson s) of
        (view, localStorage, effects) \<Rightarrow>
          record_effects effects (s\<lparr>page_storage := localStorage, page_lesson := view\<rparr>))"

definition run_handleGenerateRoadmap :: "'j app \<Rightarrow> world \<Rightarrow> 'j page \<Rightarrow> 'j page" where
  "run_handleGenerateRoadmap a w s =
     record_effects
       (handleGenerateRoadmap (app_JSON_parse a) (app_isArray a) (app_weeks_of a) (app_key a)
          (app_user a) (app_goal a) (roadmap_prompt a) (onboarding_replies w)) s"

definition run_callback :: "'j app \<Rightarrow> world \<Rightarrow> callback \<Rightarrow> 'j page \<Rightarrow> 'j page" where
  "run_callback a w c s =
     (case c of
        Call_handleGenerateRoadmap \<Rightarrow> run_handleGenerateRoadmap a w s
      | Call_fetchLesson \<Rightarrow> run_fetchLesson a w s
      | Call_fetchRoadmapData \<Rightarrow> record_effects (fetchRoadmapData (roadmap_page_replies w)) s)"

text \<open>
  The effect hook of the lesson page,
  \<open>useEffect(() => { if (lessonId && user) { fetchLesson(); checkCompletion(); } }, [lessonId, user])\<close>,
  for the value \<open>user\<close> has when it runs (\<open>checkCompletion\<close> sends one query to the hosted
  store and no request to the AI endpoint; it is left out), and the hook of the roadmap page,
  \<open>useEffect(() => { if (user) { fetchRoadmapData(); } }, [user])\<close>.
\<close>

definition lesson_hook :: "'j app \<Rightarrow> uuid option \<Rightarrow> world \<Rightarrow> 'j page \<Rightarrow> 'j page" where
  "lesson_hook a user w s =
     (if app_lessonId a \<noteq> [] \<and> user \<noteq> None then run_fetchLesson a w s else s)"

definition roadmap_hook :: "uuid option \<Rightarrow> world \<Rightarrow> 'j page \<Rightarrow> 'j page" where
  "roadmap_hook user w s =
     (if user \<noteq> None then record_effects (fetchRoadmapData (roadmap_page_replies w)) s else s)"

text \<open>
  Modelled from the spec: the \<open>Toast\<close> component (\<open>components/UI/Toast\<close>), which shows the
  notifications of \<open>useToast\<close> and is not among the sources. By the specification failures
  are ``surfaced as dismissable notifications, optionally with a bound retry action'', and
  ``every retry is user-initiated'': a notification leaves the display when the user
  dismisses it or its duration has passed, and its action runs when the user clicks it, if
  it has an \<open>onClick\<close>.
\<close>

definition remove_nth :: "nat \<Rightarrow> 'a list \<Rightarrow> 'a list" where
  "remove_nth i xs = take i xs @ drop (Suc i) xs"

definition click_toast :: "'j app \<Rightarrow> world \<Rightarrow> nat \<Rightarrow> 'j page \<Rightarrow> 'j page" where
  "click_toast a w i s =
     (if i < length (shown s) then
        (case action (shown s ! i) of
           None \<Rightarrow> s
         | Some act \<Rightarrow> (case onClick act of None \<Rightarrow> s | Some c \<Rightarrow> run_callback a w c s))
      else s)"

text \<open>
  One transition: the event and what the outside world answers during it. On an event of the
  authentication client the hooks of the displayed page run again, \<open>user\<close> being the user
  of the session (a new object at each event).
\<close>

definition react :: "'j app \<Rightarrow> event \<times> world \<Rightarrow> 'j page \<Rightarrow> 'j page" where
  "react a ew s =
     (case ew of
        (Click_continue, w) \<Rightarrow>
          record_effects
            (snd (handleGoalSubmit (app_JSON_parse a) (app_isArray a) (app_key a) (app_goal a)
                    (questions_prompt a) (questions_reply w))) s
      | (Click_generate_roadmap, w) \<Rightarrow> run_handleGenerateRoadmap a w s
      | (Click_update_roadmap, w) \<Rightarrow>
          record_effects
            (handleAlterRoadmap (app_JSON_parse a) (app_isArray a) (app_weeks_of a) (app_key a)
               (app_roadmap a) (app_alterRequest a) (alter_prompt a) (altering_replies w)) s
      | (Click_try_again, w) \<Rightarrow> run_fetchLesson a w s
      | (Open_lesson_page, w) \<Rightarrow> lesson_hook a (app_user a) w s
      | (Open_roadmap_page, w) \<Rightarrow> roadmap_hook (app_user a) w s
      | (Click_toast_action i, w) \<Rightarrow> click_toast a w i s
      | (Dismiss_toast i, w) \<Rightarrow> s\<lparr>shown := remove_nth i (shown s)\<rparr>
      | (Toast_expired i, w) \<Rightarrow> s\<lparr>shown := remove_nth i (shown s)\<rparr>
      | (Auth_state_changed p user, w) \<Rightarrow>
          (case p of
             Lesson_page \<Rightarrow> lesson_hook a user w s
           | Roadmap_page \<Rightarrow> roadmap_hook user w s
           | _ \<Rightarrow> s))"

text \<open>The number of events of a run that the user initiates.\<close>

definition user_events :: "(event \<times> world) list \<Rightarrow> nat" where
  "user_events es = length (filter (\<lambda>ew. user_initiated (fst ew)) es)"

text \<open>The number of events of a run on which the hook of the lesson page runs again.\<close>

definition hook_reruns :: "(event \<times> world) list \<Rightarrow> nat" where
  "hook_reruns es = length (filter (\<lambda>ew. hook_rerun (fst ew)) es)"

section \<open>Properties of \<open>formatAuthError\<close>\<close>

lemma formatAuthError_default_nonempty: "formatAuthError_default m \<noteq> []"
  unfolding formatAuthError_default_def by simp

lemma formatAuthError_default_patterns:
  "formatAuthError_default m =
     (case matching_pattern m of
        Some entry \<Rightarrow> snd entry
      | None \<Rightarrow>
          if passes_through m then m
          else ''An unexpected error occurred. Please try again or contact support if the problem persists.'')"
  by (simp add: formatAuthError_default_def matching_pattern_def message_patterns_def
      passes_through_def)

lemma formatAuthError_codes:
  "formatAuthError (Some x) =
     (case code_message (or_empty (error_code x)) of
        Some r \<Rightarrow> r
      | None \<Rightarrow> formatAuthError_default (or_empty (error_message x)))"
  by (simp add: formatAuthError_def code_message_def code_messages_def Let_def)

lemma code_messages_fixed:
  "list_all (\<lambda>entry. snd entry \<in> set category_messages \<and> snd entry \<noteq> []) code_messages"
  by code_simp

lemma message_patterns_fixed:
  "list_all (\<lambda>entry. snd entry \<in> set category_messages \<and> snd entry \<noteq> []) message_patterns"
  by code_simp

lemma code_message_fixed:
  assumes "code_message c = Some r"
  shows "r \<in> set category_messages" and "r \<noteq> []"
proof -
  from assms have "(c, r) \<in> set code_messages"
    unfolding code_message_def by (rule map_of_SomeD)
  with code_messages_fixed show "r \<in> set category_messages" and "r \<noteq> []"
    by (auto simp: list_all_iff)
qed

lemma matching_pattern_fixed:
  assumes "matching_pattern m = Some entry"
  shows "snd entry \<in> set category_messages" and "snd entry \<noteq> []"
proof -
  from assms have "entry \<in> set message_patterns"
    unfolding matching_pattern_def by (auto simp: find_Some_iff)
  with message_patterns_fixed show "snd entry \<in> set category_messages" and "snd entry \<noteq> []"
    by (auto simp: list_all_iff)
qed

text \<open>
  Claim C4, as amended. For every upstream error value (\<open>null\<close>, or an error whose message or
  code may be absent) \<open>formatAuthError\<close> returns a non-empty message, and which message is
  determined by matching on the code and the message of the error:
  \<^item> \<open>null\<close> gives \<open>An unexpected error occurred\<close>;
  \<^item> an error whose code is one of the fifteen codes of \<open>code_messages\<close> gives the message of
    that code, whatever its message;
  \<^item> otherwise the first entry of \<open>message_patterns\<close> one of whose texts occurs in the
    lower-cased message gives its message;
  \<^item> otherwise, when no code and no pattern matches, the upstream message is returned
    unchanged if it is non-empty, shorter than 100 code units and does not contain \<open>Error:\<close>,
    and the generic message is returned if not.

  Hence the result is one of the fixed category messages, or it is the upstream message
  itself, and the latter only for a message matched by no code and no pattern that passes
  the last test. Totality is the fact that the model is a HOL function without an error
  branch: no step of the source can raise on such an argument.
\<close>

theorem formatAuthError_total_and_classified:
  "formatAuthError e \<noteq> [] \<and>
   formatAuthError e =
     (case e of
        None \<Rightarrow> ''An unexpected error occurred''
      | Some x \<Rightarrow>
          (case code_message (or_empty (error_code x)) of
             Some r \<Rightarrow> r
           | None \<Rightarrow>
               (case matching_pattern (or_empty (error_message x)) of
                  Some entry \<Rightarrow> snd entry
                | None \<Rightarrow>
                    if passes_through (or_empty (error_message x))
                    then or_empty (error_message x)
                    else ''An unexpected error occurred. Please try again or contact support if the problem persists.''))) \<and>
   (formatAuthError e \<in> set category_messages \<or>
    (\<exists>x m. e = Some x \<and> error_message x = Some m \<and>
           code_message (or_empty (error_code x)) = None \<and> matching_pattern m = None \<and>
           passes_through m \<and> formatAuthError e = m)) \<and>
   (\<forall>x m. e = Some x \<and> error_message x = Some m \<and>
          code_message (or_empty (error_code x)) = None \<and> matching_pattern m = None \<and>
          passes_through m \<longrightarrow> formatAuthError e = m)"
proof (cases e)
  case None
  then show ?thesis by (simp add: formatAuthError_def category_messages_def)
next
  case (Some x)
  let ?m = "or_empty (error_message x)"
  let ?c = "or_empty (error_code x)"
  have eq: "formatAuthError e =
     (case code_message ?c of
        Some r \<Rightarrow> r
      | None \<Rightarrow>
          (case matching_pattern ?m of
             Some entry \<Rightarrow> snd entry
           | None \<Rightarrow>
               if passes_through ?m then ?m
               else ''An unexpected error occurred. Please try again or contact support if the problem persists.''))"
    unfolding Some formatAuthError_codes formatAuthError_default_patterns ..
  have ne: "formatAuthError e \<noteq> []"
    unfolding Some formatAuthError_codes
    using formatAuthError_default_nonempty [of ?m] code_message_fixed(2) [of ?c]
    by (auto split: option.splits)
  have through: "error_message x = Some ?m" if "passes_through ?m"
    using that by (cases "error_message x") (simp_all add: or_empty_def passes_through_def)
  have generic: "''An unexpected error occurred. Please try again or contact support if the problem persists.''
      \<in> set category_messages"
    by code_simp
  have "formatAuthError e \<in> set category_messages \<or>
    (error_message x = Some ?m \<and> code_message ?c = None \<and> matching_pattern ?m = None \<and>
     passes_through ?m \<and> formatAuthError e = ?m)"
  proof (cases "code_message ?c")
    case (Some r)
    then show ?thesis using code_message_fixed(1) [of ?c r] by (simp add: eq)
  next
    case c: None
    show ?thesis
    proof (cases "matching_pattern ?m")
      case (Some entry)
      then show ?thesis using matching_pattern_fixed(1) [of ?m entry] c by (simp add: eq)
    next
      case None
      then show ?thesis using c through generic by (simp add: eq)
    qed
  qed
  with Some have p3: "formatAuthError e \<in> set category_messages \<or>
    (\<exists>x m. e = Some x \<and> error_message x = Some m \<and>
           code_message (or_empty (error_code x)) = None \<and> matching_pattern m = None \<and>
           passes_through m \<and> formatAuthError e = m)"
    by blast
  have p2: "formatAuthError e =
     (case e of
        None \<Rightarrow> ''An unexpected error occurred''
      | Some x \<Rightarrow>
          (case code_message (or_empty (error_code x)) of
             Some r \<Rightarrow> r
           | None \<Rightarrow>
               (case matching_pattern (or_empty (error_message x)) of
                  Some entry \<Rightarrow> snd entry
                | None \<Rightarrow>
                    if passes_through (or_empty (error_message x))
                    then or_empty (error_message x)
                    else ''An unexpected error occurred. Please try again or contact support if the problem persists.'')))"
    using eq by (simp only: Some option.case)
  have p4: "\<forall>x m. e = Some x \<and> error_message x = Some m \<and>
          code_message (or_empty (error_code x)) = None \<and> matching_pattern m = None \<and>
          passes_through m \<longrightarrow> formatAuthError e = m"
    using eq Some by (auto simp: or_empty_def)
  from ne p2 p3 p4 show ?thesis by (intro conjI)
qed

text \<open>
  An error classified by its code whatever its message, an error of the hosted service
  classified by its message, \<open>null\<close>, and a message that no code and no pattern matches.
\<close>

theorem formatAuthError_total_and_classified_witness:
  "formatAuthError (Some \<lparr>error_message = Some ''x'', error_code = Some ''weak_password''\<rparr>)
     = ''Password is too weak. Please use at least 6 characters with a mix of letters and numbers.'' \<and>
   formatAuthError (Some \<lparr>error_message = Some ''Invalid login credentials'', error_code = None\<rparr>)
     = ''Invalid email or password. Please check your credentials and try again.'' \<and>
   formatAuthError (Some \<lparr>error_message = Some ''Invalid login credentials'', error_code = None\<rparr>)
     \<noteq> [] \<and>
   formatAuthError None \<in> set category_messages \<and>
   formatAuthError (Some \<lparr>error_message = Some ''Please try later'', error_code = None\<rparr>)
     = ''Please try later''"
proof -
  have a: "formatAuthError (Some \<lparr>error_message = Some ''x'', error_code = Some ''weak_password''\<rparr>)
     = ''Password is too weak. Please use at least 6 characters with a mix of letters and numbers.''"
    unfolding formatAuthError_total_and_classified
      [of "Some \<lparr>error_message = Some ''x'', error_code = Some ''weak_password''\<rparr>",
       THEN conjunct2, THEN conjunct1]
    by code_simp
  have b: "formatAuthError (Some \<lparr>error_message = Some ''Invalid login credentials'', error_code = None\<rparr>)
     = ''Invalid email or password. Please check your credentials and try again.''"
    unfolding formatAuthError_total_and_classified
      [of "Some \<lparr>error_message = Some ''Invalid login credentials'', error_code = None\<rparr>",
       THEN conjunct2, THEN conjunct1]
    by code_simp
  have c: "formatAuthError
      (Some \<lparr>error_message = Some ''Invalid login credentials'', error_code = None\<rparr>) \<noteq> []"
    using formatAuthError_total_and_classified
      [of "Some \<lparr>error_message = Some ''Invalid login credentials'', error_code = None\<rparr>"]
    by (rule conjunct1)
  have d: "formatAuthError None \<in> set category_messages"
    using formatAuthError_total_and_classified [of None]
    by (elim conjE disjE exE) (assumption, simp)
  have e: "formatAuthError (Some \<lparr>error_message = Some ''Please try later'', error_code = None\<rparr>)
     = ''Please try later''"
    unfolding formatAuthError_total_and_classified
      [of "Some \<lparr>error_message = Some ''Please try later'', error_code = None\<rparr>",
       THEN conjunct2, THEN conjunct1]
    by code_simp
  from a b c d e show ?thesis by (intro conjI)
qed

text \<open>
  Claim C4 as stated fails: a short upstream message that matches no pattern is returned as
  it is, and it is not one of the fixed messages.
\<close>

theorem formatAuthError_fixed_set_counterexample:
  "formatAuthError (Some \<lparr>error_message = Some ''Quota exceeded'', error_code = None\<rparr>)
     = ''Quota exceeded'' \<and>
   ''Quota exceeded'' \<notin> set category_messages"
  by code_simp

section \<open>Properties of \<open>cleanJsonResponse\<close> and \<open>makeGeminiRequest\<close>\<close>


lemma lastIndexOf_None: "lastIndexOf xs c = None \<longleftrightarrow> c \<notin> set xs"
  by (induction xs) (auto split: option.splits)

lemma lastIndexOf_append_last:
  "r \<notin> set ys \<Longrightarrow> lastIndexOf (xs @ r # ys) r = Some (length xs)"
  by (induction xs) (auto simp: lastIndexOf_None split: option.splits)

lemma regex_span_skip:
  "l \<notin> set pre \<Longrightarrow> regex_span l r k (pre @ s) = regex_span l r (k + length pre) s"
  by (induction pre arbitrary: k) auto

lemma regex_span_index:
  "regex_span l r k s = Some (i, t) \<Longrightarrow> k \<le> i \<and> i - k < length s \<and> s ! (i - k) = l"
proof (induction s arbitrary: k)
  case Nil
  then show ?case by simp
next
  case (Cons c cs)
  show ?case
  proof (cases "c = l \<and> lastIndexOf cs r \<noteq> None")
    case True
    with Cons.prems show ?thesis by (auto split: option.splits)
  next
    case False
    with Cons.prems have "regex_span l r (Suc k) cs = Some (i, t)"
      by (auto split: option.splits if_splits)
    from Cons.IH [OF this] show ?thesis by (auto simp: Suc_diff_le)
  qed
qed

lemma bracket_free_append [simp]:
  "bracket_free (xs @ ys) \<longleftrightarrow> bracket_free xs \<and> bracket_free ys"
  by (simp add: bracket_free_def)

lemma bracket_free_drop: "bracket_free xs \<Longrightarrow> bracket_free (drop n xs)"
  unfolding bracket_free_def list_all_iff by (auto dest: in_set_dropD)

lemma bracket_free_take: "bracket_free xs \<Longrightarrow> bracket_free (take n xs)"
  unfolding bracket_free_def list_all_iff by (auto dest: in_set_takeD)

lemma bracket_free_dropWhile: "bracket_free xs \<Longrightarrow> bracket_free (dropWhile P xs)"
  unfolding bracket_free_def list_all_iff by (auto dest: set_dropWhileD)

lemma bracket_free_rev [simp]: "bracket_free (rev xs) = bracket_free xs"
  by (simp add: bracket_free_def list_all_iff)

lemma bracket_not_space: "is_bracket c \<Longrightarrow> \<not> is_js_space c"
  by (auto simp: is_bracket_def is_js_space_def)

lemma json_shaped_hd_last:
  "json_shaped j \<Longrightarrow> j \<noteq> [] \<and> is_bracket (hd j) \<and> is_bracket (last j)"
  by (auto simp: json_shaped_def is_bracket_def)

lemma dropWhile_wraps:
  assumes "json_shaped j" "wraps j s"
  shows "wraps j (dropWhile is_js_space s)"
proof -
  from assms(2) obtain pre post where s: "s = pre @ j @ post"
    and bf: "bracket_free pre" "bracket_free post" by (auto simp: wraps_def)
  from json_shaped_hd_last [OF assms(1)] have j: "j \<noteq> []" "\<not> is_js_space (hd j)"
    by (auto dest: bracket_not_space)
  then have "dropWhile is_js_space (j @ post) = j @ post"
    by (cases j) auto
  then have "dropWhile is_js_space s = dropWhile is_js_space pre @ j @ post"
    unfolding s by (simp add: dropWhile_append)
  with bf show ?thesis unfolding wraps_def
    by (metis bracket_free_dropWhile)
qed

lemma json_shaped_rev: "json_shaped j \<Longrightarrow> j \<noteq> [] \<and> \<not> is_js_space (hd (rev j))"
  using json_shaped_hd_last [of j] by (auto simp: hd_rev dest: bracket_not_space)

lemma dropWhile_rev_wraps:
  assumes "json_shaped j" "wraps j s"
  shows "wraps j (rev (dropWhile is_js_space (rev s)))"
proof -
  from assms(2) obtain pre post where s: "s = pre @ j @ post"
    and bf: "bracket_free pre" "bracket_free post" by (auto simp: wraps_def)
  from json_shaped_rev [OF assms(1)] have j: "rev j \<noteq> []" "\<not> is_js_space (hd (rev j))"
    by auto
  then have "dropWhile is_js_space (rev j @ rev pre) = rev j @ rev pre"
    by (cases "rev j") auto
  then have "dropWhile is_js_space (rev s) = dropWhile is_js_space (rev post) @ rev j @ rev pre"
    unfolding s by (simp add: dropWhile_append)
  then have "rev (dropWhile is_js_space (rev s)) = pre @ j @ rev (dropWhile is_js_space (rev post))"
    by simp
  moreover have "bracket_free (rev (dropWhile is_js_space (rev post)))"
    using bf(2) by (simp add: bracket_free_dropWhile)
  ultimately show ?thesis using bf(1) unfolding wraps_def by blast
qed

lemma trim_wraps: "json_shaped j \<Longrightarrow> wraps j s \<Longrightarrow> wraps j (trim s)"
  unfolding trim_def by (intro dropWhile_rev_wraps dropWhile_wraps)


lemma substring_from_drop: "substring_from s n = drop n s"
  by (simp add: substring_from_def substring_def Let_def min_def max_def)

lemma substring_0_take: "substring s 0 n = take n s"
  by (simp add: substring_def Let_def min_def max_def)

lemma drop_fence_wraps:
  assumes j: "json_shaped j" and w: "wraps j s"
    and p: "startsWith s p" "bracket_free p"
  shows "wraps j (drop (length p) s)"
proof -
  from w obtain pre post where s: "s = pre @ j @ post"
    and bf: "bracket_free pre" "bracket_free post" by (auto simp: wraps_def)
  from json_shaped_hd_last [OF j] have jn: "j \<noteq> []" and hb: "is_bracket (hd j)" by auto
  have "length p \<le> length pre"
  proof (rule ccontr)
    assume "\<not> length p \<le> length pre"
    then have lt: "length pre < length p" by simp
    from p(1) have "p = take (length p) s" by (simp add: startsWith_def)
    then have "p ! length pre = s ! length pre" using lt by (metis nth_take)
    also have "\<dots> = hd j" using jn by (simp add: s nth_append hd_conv_nth)
    finally have "is_bracket (p ! length pre)" using hb by simp
    moreover have "\<not> is_bracket (p ! length pre)"
      using p(2) lt by (simp add: bracket_free_def list_all_length)
    ultimately show False by simp
  qed
  then have "drop (length p) s = drop (length p) pre @ j @ post" by (simp add: s)
  with bf show ?thesis unfolding wraps_def by (metis bracket_free_drop)
qed

lemma take_fence_wraps:
  assumes j: "json_shaped j" and w: "wraps j s"
    and p: "endsWith s p" "bracket_free p"
  shows "wraps j (take (length s - length p) s)"
proof -
  from w obtain pre post where s: "s = pre @ j @ post"
    and bf: "bracket_free pre" "bracket_free post" by (auto simp: wraps_def)
  from json_shaped_hd_last [OF j] have jn: "j \<noteq> []" and lb: "is_bracket (last j)" by auto
  from p(1) have le: "length p \<le> length s" and pd: "p = drop (length s - length p) s"
    by (simp_all add: endsWith_def)
  have "length p \<le> length post"
  proof (rule ccontr)
    assume "\<not> length p \<le> length post"
    then have lt: "length post < length p" by simp
    let ?i = "length p - Suc (length post)"
    have i: "?i < length p" using lt by simp
    have pos: "length s - length p + ?i = length pre + (length j - 1)"
      using lt le jn by (simp add: s) (cases j; simp)
    have "p ! ?i = s ! (length s - length p + ?i)"
      using pd le i by (metis nth_drop diff_le_self)
    also have "\<dots> = last j"
      using jn unfolding pos by (simp add: s nth_append last_conv_nth)
    finally have "is_bracket (p ! ?i)" using lb by simp
    moreover have "\<not> is_bracket (p ! ?i)"
      using p(2) i by (simp add: bracket_free_def list_all_length)
    ultimately show False by simp
  qed
  then have "take (length s - length p) s = pre @ j @ take (length post - length p) post"
    by (simp add: s)
  with bf show ?thesis unfolding wraps_def by (metis bracket_free_take)
qed

lemma fence_bracket_free: "bracket_free ''```json''" "bracket_free ''```''"
  by (simp_all add: bracket_free_def is_bracket_def)

lemma strip_fences_wraps:
  assumes j: "json_shaped j" and w: "wraps j s"
  shows "wraps j (strip_fences s)"
proof -
  define c0 where "c0 = trim s"
  define c1 where "c1 = (if startsWith c0 ''```json'' then substring_from c0 7
             else if startsWith c0 ''```'' then substring_from c0 3 else c0)"
  define c2 where "c2 = (if endsWith c1 ''```'' then substring c1 0 (length c1 - 3) else c1)"
  have l7: "length ''```json'' = 7" and l3: "length ''```'' = 3" by simp_all
  have w0: "wraps j c0" unfolding c0_def by (rule trim_wraps [OF j w])
  have d7: "startsWith c0 ''```json'' \<Longrightarrow> wraps j (drop 7 c0)"
    using drop_fence_wraps [OF j w0 _ fence_bracket_free(1)] unfolding l7 .
  have d3: "startsWith c0 ''```'' \<Longrightarrow> wraps j (drop 3 c0)"
    using drop_fence_wraps [OF j w0 _ fence_bracket_free(2)] unfolding l3 .
  have w1: "wraps j c1"
    unfolding c1_def using d7 d3 w0 by (simp add: substring_from_drop)
  have t3: "endsWith c1 ''```'' \<Longrightarrow> wraps j (take (length c1 - 3) c1)"
    using take_fence_wraps [OF j w1 _ fence_bracket_free(2)] unfolding l3 .
  have w2: "wraps j c2"
    unfolding c2_def using t3 w1 by (simp add: substring_0_take)
  have "strip_fences s = trim c2"
    by (simp add: strip_fences_def Let_def c0_def c1_def c2_def)
  with trim_wraps [OF j w2] show ?thesis by simp
qed


lemma bracket_free_notin: "bracket_free s \<Longrightarrow> is_bracket c \<Longrightarrow> c \<notin> set s"
  by (auto simp: bracket_free_def list_all_iff)

lemma json_shaped_decompose:
  assumes "json_shaped j"
  obtains (object) body where "j = CHR ''{'' # body @ [CHR ''}'']"
        | (array) body where "j = CHR ''['' # body @ [CHR '']'']"
proof -
  from assms have len: "2 \<le> length j" by (simp add: json_shaped_def)
  then obtain l t where lt: "j = l # t" "t \<noteq> []"
    by (cases j) (auto simp: Suc_le_length_iff)
  then obtain body r where br: "t = body @ [r]" by (metis rev_exhaust)
  have "hd j = l" "last j = r" by (simp_all add: lt br)
  with assms lt br object array show thesis
    by (auto simp: json_shaped_def)
qed

lemma match_span_wrapped:
  assumes "l \<notin> set pre" "r \<notin> set post"
  shows "match_span l r (pre @ (l # body @ [r]) @ post) = Some (length pre, l # body @ [r])"
proof -
  have "lastIndexOf (body @ r # post) r = Some (length body)"
    using assms(2) by (rule lastIndexOf_append_last)
  then show ?thesis
    unfolding match_span_def using regex_span_skip [OF assms(1), of r 0] by simp
qed

lemma match_span_other:
  assumes "l' \<notin> set pre" "l' \<noteq> l" "match_span l' r' (pre @ l # rest) = Some (i, t)"
  shows "length pre < i"
proof -
  from assms have "regex_span l' r' (Suc (length pre)) rest = Some (i, t)"
    unfolding match_span_def by (simp add: regex_span_skip)
  from regex_span_index [OF this] show ?thesis by simp
qed

lemma cleanJsonResponse_wraps:
  assumes j: "json_shaped j" and w: "wraps j content"
  shows "cleanJsonResponse content = j"
proof -
  from strip_fences_wraps [OF j w] obtain pre post
    where s: "strip_fences content = pre @ j @ post"
      and bf: "bracket_free pre" "bracket_free post" by (auto simp: wraps_def)
  have nb: "CHR ''{'' \<notin> set pre" "CHR ''['' \<notin> set pre"
           "CHR ''}'' \<notin> set post" "CHR '']'' \<notin> set post"
    using bf by (auto simp: bracket_free_def list_all_iff is_bracket_def)
  from j show ?thesis
  proof (cases rule: json_shaped_decompose)
    case (object body)
    have obj: "match_span CHR ''{'' CHR ''}'' (strip_fences content) = Some (length pre, j)"
      unfolding s object by (rule match_span_wrapped [OF nb(1) nb(3)])
    have arr: "match_span CHR ''['' CHR '']'' (strip_fences content) = Some (i, t)
        \<Longrightarrow> \<not> i < length pre" for i t
      using match_span_other [OF nb(2), of "CHR ''{''" "CHR '']''" "body @ [CHR ''}''] @ post" i t]
      unfolding s object by simp
    show ?thesis
      using obj arr by (auto simp: cleanJsonResponse_def Let_def split: option.splits)
  next
    case (array body)
    have arr: "match_span CHR ''['' CHR '']'' (strip_fences content) = Some (length pre, j)"
      unfolding s array by (rule match_span_wrapped [OF nb(2) nb(4)])
    have obj: "match_span CHR ''{'' CHR ''}'' (strip_fences content) = Some (i, t)
        \<Longrightarrow> length pre < i" for i t
      using match_span_other [OF nb(1), of "CHR ''[''" "CHR ''}''" "body @ [CHR '']''] @ post" i t]
      unfolding s array by simp
    show ?thesis
      using obj arr by (auto simp: cleanJsonResponse_def Let_def split: option.splits)
  qed
qed


lemma startsWith_Cons: "startsWith (c # cs) [c]"
  by (simp add: startsWith_def)

text \<open>
  Claim C1, as amended. Let a reply consist of the text \<open>j\<close> of one JSON object or array
  between two texts \<open>pre\<close> and \<open>post\<close> (code fences, white space, prose) that contain no
  brace and no square bracket. Then \<open>cleanJsonResponse\<close> returns exactly \<open>j\<close>, and on an
  \<open>ok\<close> response carrying that reply, with a key configured, \<open>makeGeminiRequest\<close> returns
  what \<open>JSON.parse\<close> makes of \<open>j\<close>, after one call of \<open>fetch\<close>.
\<close>

theorem cleanJsonResponse_returns_embedded_json:
  assumes shaped: "json_shaped j"
    and surround: "bracket_free pre" "bracket_free post"
    and parsed: "JSON_parse j = Inr v"
    and key: "or_empty GEMINI_API_KEY \<noteq> []"
    and reply: "ok response" "json_body response = Inr (Candidate_text (pre @ j @ post))"
  shows "cleanJsonResponse (pre @ j @ post) = j \<and>
         makeGeminiRequest JSON_parse GEMINI_API_KEY (Responded response) prompt
           = (Inr v, [Fetch_call prompt])"
proof -
  have "wraps j (pre @ j @ post)"
    using surround unfolding wraps_def by blast
  then have clean: "cleanJsonResponse (pre @ j @ post) = j"
    by (rule cleanJsonResponse_wraps [OF shaped])
  from shaped have "j \<noteq> []" "startsWith j ''['' \<or> startsWith j ''{''"
    by (cases j; auto simp: json_shaped_def startsWith_def)+
  then have "handle_response JSON_parse response = Inr v"
    using reply parsed clean by (simp add: handle_response_def)
  then have "makeGeminiRequest JSON_parse GEMINI_API_KEY (Responded response) prompt
      = (Inr v, [Fetch_call prompt])"
    using key by (simp add: makeGeminiRequest_def)
  with clean show ?thesis by simp
qed

text \<open>A fenced object, as the endpoint usually answers. The stand-in for \<open>JSON.parse\<close>
  returns the text it is given.\<close>

theorem cleanJsonResponse_returns_embedded_json_witness:
  \<open>json_shaped ''{"a":1}'' \<and> bracket_free (''```json'' @ [CHR 0x0A]) \<and>
   bracket_free (CHR 0x0A # ''```'') \<and>
   cleanJsonResponse ((''```json'' @ [CHR 0x0A]) @ ''{"a":1}'' @ CHR 0x0A # ''```'') = ''{"a":1}'' \<and>
   makeGeminiRequest Inr (Some ''k'')
     (Responded \<lparr>ok = True, status = 200, text_body = Inr [],
        json_body = Inr (Candidate_text
          ((''```json'' @ [CHR 0x0A]) @ ''{"a":1}'' @ CHR 0x0A # ''```''))\<rparr>) ''p''
     = (Inr ''{"a":1}'', [Fetch_call ''p''])\<close>
proof -
  have a: \<open>json_shaped ''{"a":1}''\<close> by (simp add: json_shaped_def)
  have b: "bracket_free (''```json'' @ [CHR 0x0A])" "bracket_free (CHR 0x0A # ''```'')"
    by (simp_all add: bracket_free_def is_bracket_def)
  have c: "or_empty (Some ''k'') \<noteq> []" by (simp add: or_empty_def)
  show ?thesis
    using a b cleanJsonResponse_returns_embedded_json
      [OF a b, of Inr _ "Some ''k''"
         "\<lparr>ok = True, status = 200, text_body = Inr [],
            json_body = Inr (Candidate_text
              ((''```json'' @ [CHR 0x0A]) @ ''{\"a\":1}'' @ CHR 0x0A # ''```''))\<rparr>" "''p''", OF refl c]
    by simp
qed

text \<open>
  Claim C1 as stated fails when the free-form text has brackets of its own: in the reply
  \<open>Note [1]: {"a":1}\<close> the array pattern matches first, at \<open>[1]\<close>, and that is what is
  extracted and parsed in place of the embedded object.
\<close>

theorem cleanJsonResponse_surrounding_text_counterexample:
  \<open>json_shaped ''{"a":1}'' \<and>
   cleanJsonResponse (''Note [1]: '' @ ''{"a":1}'' @ []) = ''[1]'' \<and>
   fst (makeGeminiRequest Inr (Some ''k'')
     (Responded \<lparr>ok = True, status = 200, text_body = Inr [],
        json_body = Inr (Candidate_text (''Note [1]: '' @ ''{"a":1}'' @ []))\<rparr>) ''p'')
     = Inr ''[1]''\<close>
  by code_simp

text \<open>
  Claim C2 at a failing input. A response with status 404 whose body reads
  \<open>Unable to fetch model\<close> makes the \<open>try\<close> block throw
  \<open>AI request failed: 404 - Unable to fetch model\<close>; the \<open>catch\<close> block of the same
  function finds \<open>fetch\<close> in that message and throws the network-connection error in its
  place, so what leaves \<open>makeGeminiRequest\<close> carries neither the status code nor the body.
\<close>

theorem makeGeminiRequest_body_mentions_fetch:
  "makeGeminiRequest Inr (Some ''k'')
     (Responded \<lparr>ok = False, status = 404, text_body = Inr ''Unable to fetch model'',
        json_body = Inr No_candidate\<rparr>) ''p''
   = (Inl (Error ''Network connection error. Please check your internet connection and try again.''),
      [Fetch_call ''p''])"
  by code_simp

section \<open>Properties of \<open>handleGenerateRoadmap\<close>\<close>


lemma length_week_lessons [simp]: "length (week_lessons rid wi w) = length (topics w)"
  by (simp add: week_lessons_def)

lemma nth_week_lessons:
  "j < length (topics w) \<Longrightarrow>
   week_lessons rid wi w ! j =
     \<lparr>roadmap_id = rid, week_number = wi + 1,
      lesson_title = title (topics w ! j), lesson_objective = lessonObjective (topics w ! j),
      estimated_time = estimatedTime (topics w ! j), order_index = j\<rparr>"
  by (simp add: week_lessons_def nth_enumerate_eq)

lemma lessons_from_Cons:
  "lessons_from rid k (w # ws) = week_lessons rid k w @ lessons_from rid (Suc k) ws"
  by (simp add: lessons_from_def)

lemma length_lessons_from:
  "length (lessons_from rid k ws) = sum_list (map (\<lambda>w. length (topics w)) ws)"
  by (induction ws arbitrary: k) (simp_all add: lessons_from_Cons, simp add: lessons_from_def)

lemma nth_lessons_from:
  "i < length ws \<Longrightarrow> j < length (topics (ws ! i)) \<Longrightarrow>
   lessons_from rid k ws ! (sum_list (map (\<lambda>w. length (topics w)) (take i ws)) + j) =
     \<lparr>roadmap_id = rid, week_number = k + i + 1,
      lesson_title = title (topics (ws ! i) ! j),
      lesson_objective = lessonObjective (topics (ws ! i) ! j),
      estimated_time = estimatedTime (topics (ws ! i) ! j), order_index = j\<rparr>"
proof (induction ws arbitrary: k i)
  case Nil
  then show ?case by simp
next
  case (Cons w ws)
  show ?case
  proof (cases i)
    case 0
    with Cons.prems show ?thesis
      by (simp add: lessons_from_Cons nth_append nth_week_lessons)
  next
    case (Suc i')
    with Cons.prems have "i' < length ws" "j < length (topics (ws ! i'))" by simp_all
    from Cons.IH [OF this, of "Suc k"] Suc show ?thesis
      by (simp add: lessons_from_Cons nth_append)
  qed
qed


lemma roadmap_lessons_from: "roadmap_lessons rid ws = lessons_from rid 0 ws"
  by (simp add: roadmap_lessons_def lessons_from_def)

text \<open>
  Claim C5. Let the generator return a roadmap that reads as the weeks \<open>ws\<close>, and let the
  store accept every insert and return the new roadmap row with identifier \<open>rid\<close>. Then
  \<open>handleGenerateRoadmap\<close> inserts the rows \<open>roadmap_lessons rid ws\<close> (no insert is issued when
  there is no topic at all) and then the progress record with \<open>total_lessons\<close> the number of
  topics, \<open>completed_lessons\<close>, \<open>total_time_spent\<close> and \<open>average_accuracy\<close> zero and
  \<open>current_week\<close> one. The rows are one per topic: there are as many as topics, and the
  topic at position \<open>j\<close> of the week at position \<open>i\<close> is the row behind the rows of the earlier
  weeks and the \<open>j\<close> earlier topics of its week, with \<open>week_number = i + 1\<close>,
  \<open>order_index = j\<close> and the topic's title, objective and estimated time.
\<close>

theorem handleGenerateRoadmap_lessons_and_progress:
  assumes gen: "generateRoadmap JSON_parse isArray GEMINI_API_KEY (ai_reply world) prompt
                  = (Inr roadmapData, calls)"
    and ws: "weeks_of roadmapData = ws"
    and ok: "roadmap_error world = None" "roadmap_data world = Some rid"
      "lessons_error world = None" "progress_error world = None" "profile_error world = None"
  shows
    "handleGenerateRoadmap JSON_parse isArray weeks_of GEMINI_API_KEY (Some user) goal prompt world
       = [Set_loading True] @ map Net calls @
         [Insert_roadmap user (''Learning Roadmap: '' @ goal) goal roadmapData] @
         (if roadmap_lessons rid ws = [] then [] else [Insert_lessons (roadmap_lessons rid ws)]) @
         [Insert_progress
            \<lparr>progress_user_id = user, progress_roadmap_id = rid,
             total_lessons = sum_list (map (\<lambda>w. length (topics w)) ws),
             completed_lessons = 0, total_time_spent = 0, average_accuracy = Some 0,
             current_week = 1\<rparr>,
          Upsert_profile user goal,
          Show (showSuccess ''Roadmap Created'' ''Your personalized learning roadmap is ready!''),
          Navigate ''/dashboard'', Set_loading False] \<and>
     length (roadmap_lessons rid ws) = sum_list (map (\<lambda>w. length (topics w)) ws) \<and>
     (\<forall>i j. i < length ws \<and> j < length (topics (ws ! i)) \<longrightarrow>
        roadmap_lessons rid ws ! (sum_list (map (\<lambda>w. length (topics w)) (take i ws)) + j) =
          \<lparr>roadmap_id = rid, week_number = i + 1,
           lesson_title = title (topics (ws ! i) ! j),
           lesson_objective = lessonObjective (topics (ws ! i) ! j),
           estimated_time = estimatedTime (topics (ws ! i) ! j), order_index = j\<rparr>)"
proof (intro conjI allI impI)
  have len: "length (roadmap_lessons rid ws) = sum_list (map (\<lambda>w. length (topics w)) ws)"
    by (simp add: roadmap_lessons_from length_lessons_from)
  show "length (roadmap_lessons rid ws) = sum_list (map (\<lambda>w. length (topics w)) ws)"
    by (rule len)
  have "create_lessons_and_progress user goal world rid ws =
          (None :: js_error option,
           (if roadmap_lessons rid ws = [] then [] else [Insert_lessons (roadmap_lessons rid ws)]) @
           [Insert_progress
              \<lparr>progress_user_id = user, progress_roadmap_id = rid,
               total_lessons = sum_list (map (\<lambda>w. length (topics w)) ws),
               completed_lessons = 0, total_time_spent = 0, average_accuracy = Some 0,
               current_week = 1\<rparr>,
            Upsert_profile user goal,
            Show (showSuccess ''Roadmap Created'' ''Your personalized learning roadmap is ready!''),
            Navigate ''/dashboard'' :: 'a effect])"
    using ok len [symmetric]
    by (simp add: create_lessons_and_progress_def Let_def updateProfile_def)
  then show "handleGenerateRoadmap JSON_parse isArray weeks_of GEMINI_API_KEY (Some user) goal prompt world
       = [Set_loading True] @ map Net calls @
         [Insert_roadmap user (''Learning Roadmap: '' @ goal) goal roadmapData] @
         (if roadmap_lessons rid ws = [] then [] else [Insert_lessons (roadmap_lessons rid ws)]) @
         [Insert_progress
            \<lparr>progress_user_id = user, progress_roadmap_id = rid,
             total_lessons = sum_list (map (\<lambda>w. length (topics w)) ws),
             completed_lessons = 0, total_time_spent = 0, average_accuracy = Some 0,
             current_week = 1\<rparr>,
          Upsert_profile user goal,
          Show (showSuccess ''Roadmap Created'' ''Your personalized learning roadmap is ready!''),
          Navigate ''/dashboard'', Set_loading False]"
    using gen ws ok by (simp add: handleGenerateRoadmap_def)
next
  fix i j
  assume "i < length ws \<and> j < length (topics (ws ! i))"
  then show "roadmap_lessons rid ws ! (sum_list (map (\<lambda>w. length (topics w)) (take i ws)) + j) =
          \<lparr>roadmap_id = rid, week_number = i + 1,
           lesson_title = title (topics (ws ! i) ! j),
           lesson_objective = lessonObjective (topics (ws ! i) ! j),
           estimated_time = estimatedTime (topics (ws ! i) ! j), order_index = j\<rparr>"
    using nth_lessons_from [of i ws j rid 0] by (simp add: roadmap_lessons_from)
qed


text \<open>A roadmap of two weeks with two topics and one topic.\<close>

theorem handleGenerateRoadmap_lessons_and_progress_witness:
  "generateRoadmap Inr (\<lambda>v. True) (Some ''k'')
     (ai_reply \<lparr>ai_reply = Responded \<lparr>ok = True, status = 200, text_body = Inr [],
                   json_body = Inr (Candidate_text ''[]'')\<rparr>,
                 roadmap_error = None, roadmap_data = Some ''r1'', lessons_error = None,
                 progress_error = None, profile_error = None\<rparr>) ''p''
     = (Inr ''[]'', [Fetch_call ''p'']) \<and>
   handleGenerateRoadmap Inr (\<lambda>v. True)
     (\<lambda>v. [\<lparr>topics = [\<lparr>title = ''A'', lessonObjective = ''a'', estimatedTime = ''1h''\<rparr>,
                       \<lparr>title = ''B'', lessonObjective = ''b'', estimatedTime = ''2h''\<rparr>]\<rparr>,
           \<lparr>topics = [\<lparr>title = ''C'', lessonObjective = ''c'', estimatedTime = ''3h''\<rparr>]\<rparr>])
     (Some ''k'') (Some ''u1'') ''g'' ''p''
     \<lparr>ai_reply = Responded \<lparr>ok = True, status = 200, text_body = Inr [],
                   json_body = Inr (Candidate_text ''[]'')\<rparr>,
      roadmap_error = None, roadmap_data = Some ''r1'', lessons_error = None,
      progress_error = None, profile_error = None\<rparr>
   = [Set_loading True, Net (Fetch_call ''p''),
      Insert_roadmap ''u1'' ''Learning Roadmap: g'' ''g'' ''[]'',
      Insert_lessons
        [\<lparr>roadmap_id = ''r1'', week_number = 1, lesson_title = ''A'', lesson_objective = ''a'',
          estimated_time = ''1h'', order_index = 0\<rparr>,
         \<lparr>roadmap_id = ''r1'', week_number = 1, lesson_title = ''B'', lesson_objective = ''b'',
          estimated_time = ''2h'', order_index = 1\<rparr>,
         \<lparr>roadmap_id = ''r1'', week_number = 2, lesson_title = ''C'', lesson_objective = ''c'',
          estimated_time = ''3h'', order_index = 0\<rparr>],
      Insert_progress
        \<lparr>progress_user_id = ''u1'', progress_roadmap_id = ''r1'', total_lessons = 3,
         completed_lessons = 0, total_time_spent = 0, average_accuracy = Some 0,
         current_week = 1\<rparr>,
      Upsert_profile ''u1'' ''g'',
      Show (showSuccess ''Roadmap Created'' ''Your personalized learning roadmap is ready!''),
      Navigate ''/dashboard'', Set_loading False]"
proof -
  let ?world = "\<lparr>ai_reply = Responded \<lparr>ok = True, status = 200, text_body = Inr [],
                   json_body = Inr (Candidate_text ''[]'')\<rparr>,
      roadmap_error = None, roadmap_data = Some ''r1'', lessons_error = None,
      progress_error = None, profile_error = None\<rparr>"
  let ?ws = "[\<lparr>topics = [\<lparr>title = ''A'', lessonObjective = ''a'', estimatedTime = ''1h''\<rparr>,
                       \<lparr>title = ''B'', lessonObjective = ''b'', estimatedTime = ''2h''\<rparr>]\<rparr>,
           \<lparr>topics = [\<lparr>title = ''C'', lessonObjective = ''c'', estimatedTime = ''3h''\<rparr>]\<rparr>]"
  have gen: "generateRoadmap Inr (\<lambda>v. True) (Some ''k'') (ai_reply ?world) ''p''
     = (Inr ''[]'', [Fetch_call ''p''])"
    by code_simp
  have rows: "roadmap_lessons ''r1'' ?ws =
        [\<lparr>roadmap_id = ''r1'', week_number = 1, lesson_title = ''A'', lesson_objective = ''a'',
          estimated_time = ''1h'', order_index = 0\<rparr>,
         \<lparr>roadmap_id = ''r1'', week_number = 1, lesson_title = ''B'', lesson_objective = ''b'',
          estimated_time = ''2h'', order_index = 1\<rparr>,
         \<lparr>roadmap_id = ''r1'', week_number = 2, lesson_title = ''C'', lesson_objective = ''c'',
          estimated_time = ''3h'', order_index = 0\<rparr>]"
    by (simp add: roadmap_lessons_def week_lessons_def)
  from handleGenerateRoadmap_lessons_and_progress
    [where weeks_of = "\<lambda>v. ?ws" and rid = "''r1''" and user = "''u1''" and goal = "''g''",
      OF gen refl]
  show ?thesis using gen rows by simp
qed

section \<open>Properties of \<open>fetchLesson\<close>\<close>

lemma generator_calls_simps [simp]:
  "generator_calls [] = 0"
  "generator_calls (Generator_call # es) = Suc (generator_calls es)"
  "generator_calls (Net n # es) = generator_calls es"
  "generator_calls (Show t # es) = generator_calls es"
  "generator_calls (xs @ ys) = generator_calls xs + generator_calls ys"
  by (simp_all add: generator_calls_def)

lemma generator_calls_Net [simp]: "generator_calls (map Net calls) = 0"
  by (induction calls) simp_all

lemma fetch_calls_simps [simp]:
  "fetch_calls [] = []"
  "fetch_calls (Generator_call # es) = fetch_calls es"
  "fetch_calls (Net n # es) = n # fetch_calls es"
  "fetch_calls (Show t # es) = fetch_calls es"
  "fetch_calls (Set_loading b # es) = fetch_calls es"
  "fetch_calls (Navigate p # es) = fetch_calls es"
  "fetch_calls (Insert_roadmap u ti g w # es) = fetch_calls es"
  "fetch_calls (Insert_lessons ls # es) = fetch_calls es"
  "fetch_calls (Insert_progress pr # es) = fetch_calls es"
  "fetch_calls (Upsert_profile u g # es) = fetch_calls es"
  "fetch_calls (xs @ ys) = fetch_calls xs @ fetch_calls ys"
  by (simp_all add: fetch_calls_def)

lemma fetch_calls_Net [simp]: "fetch_calls (map Net calls) = calls"
  by (induction calls) simp_all

lemma loading_failed_storage [simp]:
  "fst (snd (loading_failed view st es e)) = st"
  "snd (snd (loading_failed view st es e)) = es @ [Show (showError ''Loading Failed''
      (message_or e ''Failed to load lesson'')
      (Some \<lparr>label = Some ''Retry'', onClick = Some Call_fetchLesson\<rparr>))]"
  by (simp_all add: loading_failed_def)














section \<open>Properties of \<open>fetchLessons\<close>\<close>


lemma promise_all_settles:
  "promise_all order p q = Some (await_in_turn order p q)"
  by (cases order; cases p; cases q)
     (simp_all add: promise_all_def await_in_turn_def settle_first_def settle_second_def
        resolve_aggregate_def reject_aggregate_def)

lemma await_in_turn_fulfilled:
  "await_in_turn first (Fulfilled a) (Fulfilled b) = Inr (a, b)"
  by (cases first) (simp_all add: await_in_turn_def)

lemma fetchLessons_as_sequential:
  "fetchLessons order roadmap p q view =
     Some (fetchLessons_sequential order roadmap p q view)"
  by (simp add: fetchLessons_def fetchLessons_sequential_def promise_all_settles Let_def
      split: settled.splits option.splits sum.splits prod.splits)

lemma lessons_failed_keeps [simp]:
  "list_lessons (lessons_failed view e) = list_lessons view"
  "list_completions (lessons_failed view e) = list_completions view"
  by (simp_all add: lessons_failed_def)

lemma sequential_lists_order_free:
  "list_lessons (fetchLessons_sequential first roadmap p q view) =
     list_lessons (fetchLessons_sequential first' roadmap p q view) \<and>
   list_completions (fetchLessons_sequential first roadmap p q view) =
     list_completions (fetchLessons_sequential first' roadmap p q view)"
  by (cases first; cases first'; cases p; cases q)
     (simp_all add: fetchLessons_sequential_def await_in_turn_def Let_def
        split: settled.splits option.splits)

text \<open>
  Claim C8. Whichever of the two promises settles first (\<open>order\<close>), and in whichever order
  the same two queries would be awaited one after the other (\<open>first\<close>): when both queries
  resolve with a result, as the queries of the store's client do, \<open>fetchLessons\<close> returns
  and the state of the page is the one the sequential function gives; and however the two
  promises settle, \<open>fetchLessons\<close> returns and the lessons and completions of the page are
  those of the sequential function. So the merged state is a function of the two results
  alone.
\<close>

theorem fetchLessons_parallel_as_sequential:
  "fetchLessons order roadmap (Fulfilled lessonsResult) (Fulfilled completionsResult) view
     = Some (fetchLessons_sequential first roadmap
               (Fulfilled lessonsResult) (Fulfilled completionsResult) view) \<and>
   (\<exists>view'. fetchLessons order roadmap lessonsQuery completionsQuery view = Some view' \<and>
      list_lessons view' =
        list_lessons (fetchLessons_sequential first roadmap lessonsQuery completionsQuery view) \<and>
      list_completions view' =
        list_completions (fetchLessons_sequential first roadmap lessonsQuery completionsQuery view))"
proof
  have "fetchLessons_sequential order roadmap (Fulfilled lessonsResult)
          (Fulfilled completionsResult) view =
        fetchLessons_sequential first roadmap (Fulfilled lessonsResult)
          (Fulfilled completionsResult) view"
    by (simp add: fetchLessons_sequential_def await_in_turn_fulfilled Let_def
        split: settled.splits option.splits)
  then show "fetchLessons order roadmap (Fulfilled lessonsResult) (Fulfilled completionsResult) view
     = Some (fetchLessons_sequential first roadmap
               (Fulfilled lessonsResult) (Fulfilled completionsResult) view)"
    by (simp add: fetchLessons_as_sequential)
next
  show "\<exists>view'. fetchLessons order roadmap lessonsQuery completionsQuery view = Some view' \<and>
      list_lessons view' =
        list_lessons (fetchLessons_sequential first roadmap lessonsQuery completionsQuery view) \<and>
      list_completions view' =
        list_completions (fetchLessons_sequential first roadmap lessonsQuery completionsQuery view)"
    using sequential_lists_order_free [of order roadmap lessonsQuery completionsQuery view first]
    by (simp add: fetchLessons_as_sequential)
qed

text \<open>The completions settle first; the sequential function awaits the lessons first.\<close>

theorem fetchLessons_parallel_as_sequential_witness:
  "fetchLessons Completions_first
     (Fulfilled \<lparr>result_data = Some ''R'', result_error = None\<rparr>)
     (Fulfilled \<lparr>result_data = Some [\<lparr>roadmap_id = ''R'', week_number = 1,
         lesson_title = ''T'', lesson_objective = ''O'', estimated_time = ''1h'',
         order_index = 0, lesson_id = ''L1''\<rparr>], result_error = None\<rparr>)
     (Fulfilled \<lparr>result_data = None, result_error = None\<rparr>)
     \<lparr>list_lessons = [], list_completions = [], list_error = None, list_loading = True\<rparr>
   = Some \<lparr>list_lessons = [\<lparr>roadmap_id = ''R'', week_number = 1,
         lesson_title = ''T'', lesson_objective = ''O'', estimated_time = ''1h'',
         order_index = 0, lesson_id = ''L1''\<rparr>],
       list_completions = [], list_error = None, list_loading = False\<rparr>"
proof -
  have "fetchLessons_sequential Lessons_first
     (Fulfilled \<lparr>result_data = Some ''R'', result_error = None\<rparr>)
     (Fulfilled \<lparr>result_data = Some [\<lparr>roadmap_id = ''R'', week_number = 1,
         lesson_title = ''T'', lesson_objective = ''O'', estimated_time = ''1h'',
         order_index = 0, lesson_id = ''L1''\<rparr>], result_error = None\<rparr>)
     (Fulfilled \<lparr>result_data = None, result_error = None\<rparr>)
     \<lparr>list_lessons = [], list_completions = [], list_error = None, list_loading = True\<rparr>
   = \<lparr>list_lessons = [\<lparr>roadmap_id = ''R'', week_number = 1,
         lesson_title = ''T'', lesson_objective = ''O'', estimated_time = ''1h'',
         order_index = 0, lesson_id = ''L1''\<rparr>],
       list_completions = [], list_error = None, list_loading = False\<rparr>"
    by (simp add: fetchLessons_sequential_def await_in_turn_def merge_results_def)
  with fetchLessons_parallel_as_sequential
    [where order = Completions_first and first = Lessons_first
       and roadmap = "Fulfilled \<lparr>result_data = Some ''R'', result_error = None\<rparr>"
       and lessonsResult = "\<lparr>result_data = Some [\<lparr>roadmap_id = ''R'', week_number = 1,
         lesson_title = ''T'', lesson_objective = ''O'', estimated_time = ''1h'',
         order_index = 0, lesson_id = ''L1''\<rparr>], result_error = None\<rparr>"
       and completionsResult = "\<lparr>result_data = None, result_error = None\<rparr>"
       and view = "\<lparr>list_lessons = [], list_completions = [], list_error = None,
                     list_loading = True\<rparr>"]
  show ?thesis by simp
qed

section \<open>Properties of the score of a test\<close>


lemma bit_length_bounds:
  "0 < n \<Longrightarrow> 2 ^ (bit_length n - 1) \<le> n \<and> n < 2 ^ bit_length n"
proof (induction n rule: bit_length.induct)
  case (1 n)
  show ?case
  proof (cases "n div 2 = 0")
    case True
    with "1.prems" have "n = 1" by (simp add: div_eq_0_iff)
    then show ?thesis by (simp add: bit_length.simps [of "Suc 0"] bit_length.simps [of 0])
  next
    case False
    then have pos: "0 < n div 2" by simp
    from "1.IH" [OF _ pos] "1.prems"
    have IH: "2 ^ (bit_length (n div 2) - 1) \<le> n div 2" "n div 2 < 2 ^ bit_length (n div 2)"
      by simp_all
    have bl: "bit_length n = Suc (bit_length (n div 2))"
      using "1.prems" by (simp add: bit_length.simps [of n])
    have "0 < bit_length (n div 2)"
      using pos by (simp add: bit_length.simps [of "n div 2"])
    then obtain k where k: "bit_length (n div 2) = Suc k" by (cases "bit_length (n div 2)") auto
    from IH(1) have "2 * 2 ^ k \<le> 2 * (n div 2)" by (simp add: k)
    also have "\<dots> \<le> n" by simp
    finally have lo: "2 ^ (bit_length n - 1) \<le> n" by (simp add: bl k)
    from IH(2) have "n div 2 + 1 \<le> 2 ^ bit_length (n div 2)" by simp
    then have "2 * (n div 2) + 2 \<le> 2 * 2 ^ bit_length (n div 2)" by simp
    moreover have "n < 2 * (n div 2) + 2" by arith
    ultimately have "n < 2 ^ bit_length n" by (simp add: bl)
    with lo show ?thesis by simp
  qed
qed

lemma bit_length_pos: "0 < n \<Longrightarrow> 0 < bit_length n"
  by (simp add: bit_length.simps [of n])

lemma binary_exponent_lower:
  assumes "0 < x"
  shows "2 powi (binary_exponent x) \<le> x"
proof (cases "1 \<le> x")
  case True
  let ?n = "nat \<lfloor>x\<rfloor>"
  from True have n: "0 < ?n" by simp
  from bit_length_bounds [OF n] have "2 ^ (bit_length ?n - 1) \<le> ?n" by simp
  then have "(2::rat) ^ (bit_length ?n - 1) \<le> of_nat ?n"
    by (metis of_nat_le_iff of_nat_numeral of_nat_power)
  also have "\<dots> \<le> x" using True by simp
  finally have "(2::rat) ^ (bit_length ?n - 1) \<le> x" .
  moreover have "binary_exponent x = int (bit_length ?n - 1)"
    using True bit_length_pos [OF n] by (simp add: binary_exponent_def)
  ultimately show ?thesis by simp
next
  case False
  with assms have x1: "x < 1" by simp
  let ?m = "nat (\<lceil>1 / x\<rceil> - 1)"
  let ?k = "bit_length ?m"
  have "1 < 1 / x" using assms x1 by simp
  then have "2 \<le> \<lceil>1 / x\<rceil>" by (simp add: le_ceiling_iff)
  then have m: "0 < ?m" by simp
  from bit_length_bounds [OF m] have "?m < 2 ^ ?k" by simp
  then have "int ?m < 2 ^ ?k" by (metis of_nat_less_iff of_nat_numeral of_nat_power)
  then have "\<lceil>1 / x\<rceil> \<le> 2 ^ ?k" using assms by simp
  then have "1 / x \<le> 2 ^ ?k" by (simp add: ceiling_le_iff)
  then have "1 \<le> 2 ^ ?k * x" using assms by (simp add: field_simps)
  then have "1 / 2 ^ ?k \<le> x" by (simp add: field_simps)
  moreover have "binary_exponent x = - int ?k" using False by (simp add: binary_exponent_def)
  ultimately show ?thesis by (simp add: power_int_minus_divide)
qed

lemma binary_exponent_upper:
  assumes "0 < x"
  shows "x < 2 powi (binary_exponent x + 1)"
proof (cases "1 \<le> x")
  case True
  let ?n = "nat \<lfloor>x\<rfloor>"
  from True have n: "0 < ?n" by simp
  from bit_length_bounds [OF n] have "?n < 2 ^ bit_length ?n" by simp
  then have "int ?n + 1 \<le> 2 ^ bit_length ?n"
    by (metis of_nat_less_iff of_nat_numeral of_nat_power zless_imp_add1_zle)
  then have "\<lfloor>x\<rfloor> + 1 \<le> 2 ^ bit_length ?n" using True by simp
  then have "of_int (\<lfloor>x\<rfloor> + 1) \<le> (2::rat) ^ bit_length ?n"
    by (metis of_int_le_iff of_int_numeral of_int_power)
  moreover have "x < of_int (\<lfloor>x\<rfloor> + 1)" by linarith
  ultimately have "x < 2 ^ bit_length ?n" by linarith
  moreover have "binary_exponent x + 1 = int (bit_length ?n)"
    using True by (simp add: binary_exponent_def)
  ultimately show ?thesis by simp
next
  case False
  with assms have x1: "x < 1" by simp
  let ?m = "nat (\<lceil>1 / x\<rceil> - 1)"
  let ?k = "bit_length ?m"
  have "1 < 1 / x" using assms x1 by simp
  then have c2: "2 \<le> \<lceil>1 / x\<rceil>" by (simp add: le_ceiling_iff)
  then have m: "0 < ?m" by simp
  from bit_length_bounds [OF m] have "2 ^ (?k - 1) \<le> ?m" by simp
  then have "(2::int) ^ (?k - 1) \<le> int ?m" by (metis of_nat_le_iff of_nat_numeral of_nat_power)
  then have "(2::int) ^ (?k - 1) \<le> \<lceil>1 / x\<rceil> - 1" using assms by simp
  then have "of_int ((2::int) ^ (?k - 1)) < 1 / x" by (simp only: less_ceiling_iff [symmetric])
  then have "(2::rat) ^ (?k - 1) < 1 / x" by simp
  then have "x * 2 ^ (?k - 1) < 1" using assms by (simp add: field_simps)
  then have "x < 1 / 2 ^ (?k - 1)" by (simp add: field_simps)
  moreover have "binary_exponent x + 1 = - int (?k - 1)"
    using False bit_length_pos [OF m] by (simp add: binary_exponent_def)
  ultimately show ?thesis by (simp add: power_int_minus_divide)
qed

lemma round_half_even_error: "\<bar>of_int (round_half_even q) - q\<bar> \<le> 1 / 2"
proof -
  define f where "f = \<lfloor>q\<rfloor>"
  have "of_int f \<le> q" "q < of_int f + 1" unfolding f_def by linarith+
  then have "\<bar>of_int (if q - of_int f < 1 / 2 then f else if 1 / 2 < q - of_int f then f + 1
                 else if even f then f else f + 1) - q\<bar> \<le> 1 / 2"
    by (auto simp: abs_if)
  then show ?thesis unfolding round_half_even_def Let_def f_def .
qed

lemma round_half_even_of_int [simp]: "round_half_even (of_int z) = z"
  by (simp add: round_half_even_def)

lemma to_double_pos:
  assumes "0 < x"
  shows "to_double x =
    of_int (round_half_even (x * 2 powi (52 - binary_exponent x))) / 2 powi (52 - binary_exponent x)"
  using assms by (simp add: to_double_def Let_def)

lemma to_double_error:
  assumes "0 < x"
  shows "\<bar>to_double x - x\<bar> \<le> x / 2 ^ 53"
proof -
  let ?s = "52 - binary_exponent x"
  let ?p = "(2::rat) powi ?s"
  have p: "0 < ?p" by (simp add: zero_less_power_int)
  have "\<bar>to_double x - x\<bar> = \<bar>of_int (round_half_even (x * ?p)) - x * ?p\<bar> / ?p"
    using p by (simp add: to_double_pos [OF assms] abs_if field_simps)
  also have "\<dots> \<le> (1 / 2) / ?p"
    by (rule divide_right_mono [OF round_half_even_error less_imp_le [OF p]])
  also have "\<dots> = 2 powi (binary_exponent x) / 2 ^ 53"
  proof -
    have "(2::rat) powi (52 + (- binary_exponent x)) = 2 powi 52 * 2 powi (- binary_exponent x)"
      by (rule power_int_add) simp
    then have "(2::rat) powi ?s = 2 ^ 52 / 2 powi (binary_exponent x)"
      by (simp add: power_int_minus field_simps)
    then show ?thesis by (simp add: field_simps)
  qed
  also have "\<dots> \<le> x / 2 ^ 53"
    using binary_exponent_lower [OF assms] by (simp add: divide_right_mono)
  finally show ?thesis .
qed

lemma to_double_exact:
  assumes x: "0 < x" and int: "x * 2 ^ j = of_int z" and small: "x < 2 ^ (53 - j)" and j: "j \<le> 53"
  shows "to_double x = x"
proof -
  let ?e = "binary_exponent x"
  have "(2::rat) powi ?e < 2 powi (int (53 - j))"
    using binary_exponent_lower [OF x] small by simp
  then have "?e < int (53 - j)" by (rule power_int_le_imp_less_exp [rotated]) simp_all
  then have "0 \<le> 52 - ?e - int j" using j by simp
  then obtain d where d: "52 - ?e = int d + int j"
    by (metis add.commute diff_add_cancel nonneg_int_cases)
  have "x * 2 powi (52 - ?e) = x * 2 ^ j * 2 ^ d"
    by (simp add: d power_int_add power_add)
  also have "\<dots> = of_int (z * 2 ^ d)" by (simp add: int)
  finally have sc: "x * 2 powi (52 - ?e) = of_int (z * 2 ^ d)" .
  have "to_double x = of_int (z * 2 ^ d) / 2 powi (52 - ?e)"
    by (simp only: to_double_pos [OF x] sc round_half_even_of_int)
  also have "\<dots> = x" by (simp only: sc [symmetric]) simp
  finally show ?thesis .
qed

lemma to_double_0 [simp]: "to_double 0 = 0"
  by (simp add: to_double_def)

lemma final_score_0: "0 < n \<Longrightarrow> final_score 0 n = Some 0"
  by (simp add: final_score_def double_div_def double_mul_def Math_round_def floor_eq_iff)

text \<open>The double computed for \<open>(c / n) * 100\<close> is within \<open>300 / 2\<^sup>5\<^sup>3\<close> of \<open>100 c / n\<close>.\<close>

lemma score_double_error:
  assumes c: "0 < c" "c \<le> n"
  shows "\<bar>double_mul (double_div (of_nat c) (of_nat n)) 100 - 100 * (of_nat c / of_nat n)\<bar>
           \<le> 300 * (1 / 2 ^ 53)"
proof -
  define x :: rat where "x = of_nat c / of_nat n"
  define d where "d = to_double x"
  define y where "y = to_double (d * 100)"
  define u :: rat where "u = 1 / 2 ^ 53"
  have u: "0 < u" "u < 1" by (simp_all add: u_def)
  have x: "0 < x" "x \<le> 1" using c by (simp_all add: x_def)
  have "\<bar>d - x\<bar> \<le> x / 2 ^ 53" unfolding d_def by (rule to_double_error [OF x(1)])
  then have e1: "\<bar>d - x\<bar> \<le> x * u" by (simp add: u_def)
  have "x * u \<le> 1 * u" using x(2) u(1) by (intro mult_right_mono) simp_all
  with e1 have e1': "\<bar>d - x\<bar> \<le> u" by simp
  have "x * u < x * 1" using x(1) u(2) by (intro mult_strict_left_mono) simp_all
  then have xu: "x * u < x" by simp
  from e1 xu have d: "0 < d" by linarith
  from e1' x(2) u(2) have d2: "d \<le> 2" by linarith
  from d have d100: "0 < d * 100" by simp
  have "\<bar>y - d * 100\<bar> \<le> d * 100 / 2 ^ 53" unfolding y_def by (rule to_double_error [OF d100])
  then have e2: "\<bar>y - d * 100\<bar> \<le> (d * 100) * u" by (simp add: u_def)
  have "(d * 100) * u \<le> 200 * u" using d2 u(1) by (intro mult_right_mono) simp_all
  with e2 have e2': "\<bar>y - d * 100\<bar> \<le> 200 * u" by simp
  have "\<bar>y - 100 * x\<bar> \<le> \<bar>y - d * 100\<bar> + 100 * \<bar>d - x\<bar>" by (simp add: abs_if)
  also have "\<dots> \<le> 200 * u + 100 * u"
    using e1' e2' by (intro add_mono mult_left_mono) simp_all
  finally have "\<bar>y - 100 * x\<bar> \<le> 300 * u" by simp
  then show ?thesis
    unfolding y_def d_def x_def double_mul_def double_div_def u_def .
qed

lemma score_non_tie:
  assumes c: "0 < c" "c \<le> n" and n: "n < 2 ^ 32" and nt: "\<not> rounding_tie c n"
  shows "Math_round (double_mul (double_div (of_nat c) (of_nat n)) 100)
           = \<lfloor>100 * (of_nat c / of_nat n) + 1 / 2 :: rat\<rfloor>"
proof -
  define N :: rat where "N = of_nat n"
  define y where "y = double_mul (double_div (of_nat c) (of_nat n)) 100"
  define X :: rat where "X = 100 * (of_nat c / of_nat n)"
  define k where "k = (200 * c + n) div (2 * n)"
  define r where "r = (200 * c + n) mod (2 * n)"
  define R :: rat where "R = of_nat r / (2 * N)"
  define \<delta> :: rat where "\<delta> = 1 / (2 * N)"
  define \<epsilon> :: rat where "\<epsilon> = 300 * (1 / 2 ^ 53)"
  have n0: "0 < n" using c by simp
  then have N: "0 < N" by (simp add: N_def)
  have "of_nat n < (of_nat (2 ^ 32) :: rat)" using n by (simp only: of_nat_less_iff)
  then have N32: "N < 2 ^ 32" by (simp add: N_def)
  have r: "0 < r" "r < 2 * n" using nt n0 by (simp_all add: r_def rounding_tie_def)
  have "200 * c + n = 2 * n * k + r" by (simp add: k_def r_def)
  then have "(of_nat (200 * c + n) :: rat) = of_nat (2 * n * k + r)" by simp
  then have "200 * of_nat c + N = 2 * N * of_nat k + of_nat r" by (simp add: N_def)
  then have "(200 * of_nat c + N) / (2 * N) = (2 * N * of_nat k + of_nat r) / (2 * N)" by simp
  then have B: "X + 1 / 2 = of_nat k + R"
    using N by (simp add: X_def R_def N_def [symmetric] field_simps)
  have "1 \<le> (of_nat r :: rat)" using r(1) by simp
  then have C1: "\<delta> \<le> R" unfolding \<delta>_def R_def using N by (intro divide_right_mono) simp_all
  have "(of_nat r :: rat) + 1 \<le> of_nat (2 * n)" using r(2) by (simp only: of_nat_Suc [symmetric] of_nat_le_iff)
  then have "(of_nat r :: rat) \<le> 2 * N - 1" by (simp add: N_def)
  then have "of_nat r / (2 * N) \<le> (2 * N - 1) / (2 * N)" using N by (intro divide_right_mono) simp_all
  also have "\<dots> = 1 - \<delta>" using N by (simp add: \<delta>_def field_simps)
  finally have C2: "R \<le> 1 - \<delta>" by (simp add: R_def)
  have "1 / 2 ^ 33 < 1 / (2 * N)" using N N32 by (intro divide_strict_left_mono) simp_all
  moreover have "\<epsilon> < 1 / 2 ^ 33" by (simp add: \<epsilon>_def)
  ultimately have D: "\<epsilon> < \<delta>" by (simp add: \<delta>_def)
  have "\<bar>y - X\<bar> \<le> \<epsilon>" unfolding y_def X_def \<epsilon>_def by (rule score_double_error [OF c])
  then have A: "y - X \<le> \<epsilon>" "X - y \<le> \<epsilon>" by linarith+
  have dpos: "0 < \<delta>" using N by (simp add: \<delta>_def)
  define K :: rat where "K = of_int (int k)"
  have B': "X + 1 / 2 = K + R" using B by (simp add: K_def)
  have "K \<le> y + 1 / 2" "y + 1 / 2 < K + 1"
    using A B' C1 C2 D by linarith+
  then have fy: "\<lfloor>y + 1 / 2\<rfloor> = int k" unfolding K_def by (rule floor_unique)
  have "K \<le> X + 1 / 2" "X + 1 / 2 < K + 1"
    using B' C1 C2 dpos by linarith+
  then have fx: "\<lfloor>X + 1 / 2\<rfloor> = int k" unfolding K_def by (rule floor_unique)
  from fy fx show ?thesis by (simp add: Math_round_def y_def X_def)
qed

text \<open>When \<open>c / n\<close> is a multiple of an eighth, the quotient and the product are exact.\<close>

lemma score_eighths:
  assumes c: "0 < c" "c \<le> n" and dv: "n dvd 8 * c"
  shows "Math_round (double_mul (double_div (of_nat c) (of_nat n)) 100)
           = \<lfloor>100 * (of_nat c / of_nat n) + 1 / 2 :: rat\<rfloor>"
proof -
  define x :: rat where "x = of_nat c / of_nat n"
  from dv obtain a where a: "8 * c = n * a" by (auto simp: dvd_def)
  have n0: "0 < n" using c by simp
  have x: "0 < x" "x \<le> 1" using c by (simp_all add: x_def)
  have "(of_nat (8 * c) :: rat) = of_nat (n * a)" by (simp only: a)
  then have "8 * of_nat c = of_nat n * (of_nat a :: rat)" by simp
  then have x8: "x * 2 ^ 3 = of_int (int a)" using n0 by (simp add: x_def field_simps)
  have "x < 2 ^ (53 - 3)" using x(2) by simp
  from to_double_exact [OF x(1) x8 this] have d: "to_double x = x" by simp
  have x100: "0 < x * 100" using x(1) by simp
  have "x * 100 * 2 ^ 1 = of_int (int a * 25)" using x8 by simp
  moreover have "x * 100 < 2 ^ (53 - 1)"
  proof -
    have "x * 100 \<le> 100" using x(2) by simp
    also have "(100::rat) < 2 ^ (53 - 1)" by simp
    finally show ?thesis .
  qed
  ultimately have "to_double (x * 100) = x * 100"
    using to_double_exact [OF x100, of 1 "int a * 25"] by simp
  with d show ?thesis
    by (simp add: double_mul_def double_div_def Math_round_def x_def mult.commute)
qed

text \<open>With fewer than 40 questions a tie occurs only at multiples of an eighth.\<close>

lemma tie_below_40:
  assumes n: "0 < n" "n < 40" and tie: "rounding_tie c n"
  shows "n dvd 8 * c"
proof -
  from tie obtain k where k: "200 * c + n = 2 * n * k"
    by (auto simp: rounding_tie_def mod_eq_0_iff_dvd dvd_def)
  have "0 < k" using k n by (cases k) auto
  then obtain j where j: "k = Suc j" by (cases k) auto
  from k j have eq: "200 * c = n * (2 * j + 1)" by (simp add: algebra_simps)
  have "n * (2 * j + 1) = 8 * (25 * c)" using eq by simp
  then have d8: "8 dvd n * (2 * j + 1)" by (simp only: dvd_triv_left)
  have "coprime ((2::nat) ^ 3) (2 * j + 1)" by (simp only: coprime_power_left_iff) simp
  then have c8: "coprime 8 (2 * j + 1)" by simp
  have "8 dvd n" using coprime_dvd_mult_left_iff [OF c8, of n] d8 by blast
  then obtain m where m: "n = 8 * m" by (auto simp: dvd_def)
  with n have m4: "0 < m" "m < 5" by simp_all
  from eq m have "25 * c = m * (2 * j + 1)" by simp
  then have dm: "m dvd 25 * c" by (simp only: dvd_triv_left)
  have cm: "coprime m 25"
  proof -
    from m4 have "m = 1 \<or> m = 2 \<or> m = 3 \<or> m = 4" by arith
    moreover have "coprime (2::nat) 25" "coprime (3::nat) 25" "coprime (4::nat) 25"
      by code_simp+
    ultimately show ?thesis by auto
  qed
  have "m dvd c" using coprime_dvd_mult_right_iff [OF cm, of c] dm by blast
  then show ?thesis by (simp add: m)
qed

lemma final_score_rounds:
  assumes n: "0 < n" "n < 2 ^ 32" and c: "c \<le> n" and nt: "n < 40 \<or> \<not> rounding_tie c n"
  shows "final_score c n = Some \<lfloor>100 * (of_nat c / of_nat n) + 1 / 2 :: rat\<rfloor>"
proof (cases "c = 0")
  case True
  then show ?thesis using n(1) by (simp add: final_score_0 floor_eq_iff)
next
  case False
  then have c0: "0 < c" by simp
  have "Math_round (double_mul (double_div (of_nat c) (of_nat n)) 100)
           = \<lfloor>100 * (of_nat c / of_nat n) + 1 / 2 :: rat\<rfloor>"
  proof (cases "rounding_tie c n")
    case True
    with nt have "n < 40" by simp
    from tie_below_40 [OF n(1) this True] show ?thesis by (rule score_eighths [OF c0 c])
  next
    case False
    then show ?thesis by (rule score_non_tie [OF c0 c n(2)])
  qed
  then show ?thesis using n(1) by (simp add: final_score_def)
qed

lemma count_correct_filter:
  "count_correct questions userAnswers k =
     length (filter (\<lambda>i. normalized (at_index userAnswers (k + i)) =
                           normalized (answer (questions ! i))) [0..<length questions])"
proof (induction questions arbitrary: k)
  case Nil
  then show ?case by simp
next
  case (Cons q qs)
  have "[0..<length (q # qs)] = 0 # map Suc [0..<length qs]"
    by (simp add: upt_conv_Cons map_Suc_upt del: upt_Suc)
  then show ?case
    by (simp add: Cons.IH [of "Suc k"] filter_map comp_def Let_def del: upt_Suc)
qed

lemma count_correct_le: "count_correct questions userAnswers k \<le> length questions"
  unfolding count_correct_filter
  by (metis length_filter_le length_upt minus_nat.diff_0)

lemma completeTest_completions:
  "lesson_completions (fst (completeTest policy now user lessonId lesson' questions userAnswers db))
     = upsert_completion policy
         \<lparr>completion_user_id = user, completion_lesson_id = lessonId,
          score = test_score questions userAnswers, time_spent = 30, answers = userAnswers,
          completed_at = now\<rparr> (lesson_completions db)"
  by (simp add: completeTest_def record_completion_def Let_def split: option.splits)

text \<open>
  Claim C9, as amended. For a test with at least one question (and fewer than \<open>2\<^sup>3\<^sup>2\<close>, the
  bound on the length of an array), \<open>completeTest\<close> stores the score
  \<open>\<lfloor>100 c / n + 1/2\<rfloor>\<close>, that is \<open>100 c / n\<close> rounded to the nearest integer and upwards
  on a tie, provided the test has fewer than 40 questions or \<open>100 c / n\<close> is not halfway
  between two integers. Here \<open>c\<close> is the number of positions at which the user's answer,
  trimmed and in lower case (the empty string if unanswered), equals the stored answer,
  trimmed and in lower case (the empty string if absent). So a question whose answer does
  not match never counts, and an unanswered question counts exactly when the stored answer
  is blank or absent.
\<close>

theorem completeTest_final_score:
  assumes n: "1 \<le> length questions" "length questions < 2 ^ 32"
    and nt: "length questions < 40 \<or>
             \<not> rounding_tie (count_correct questions userAnswers 0) (length questions)"
  shows
    "test_score questions userAnswers =
       Some \<lfloor>100 * (of_nat (count_correct questions userAnswers 0) / of_nat (length questions))
              + 1 / 2 :: rat\<rfloor> \<and>
     count_correct questions userAnswers 0 =
       length (filter (\<lambda>i. normalized (at_index userAnswers i) =
                             normalized (answer (questions ! i))) [0..<length questions]) \<and>
     (\<forall>i < length questions. at_index userAnswers i = None \<longrightarrow>
        (normalized (at_index userAnswers i) = normalized (answer (questions ! i))
           \<longleftrightarrow> normalized (answer (questions ! i)) = [])) \<and>
     lesson_completions
         (fst (completeTest policy now user lessonId lesson' questions userAnswers db))
       = upsert_completion policy
           \<lparr>completion_user_id = user, completion_lesson_id = lessonId,
            score = Some \<lfloor>100 * (of_nat (count_correct questions userAnswers 0) /
                                  of_nat (length questions)) + 1 / 2 :: rat\<rfloor>,
            time_spent = 30, answers = userAnswers, completed_at = now\<rparr>
           (lesson_completions db)"
proof -
  have sc: "test_score questions userAnswers =
       Some \<lfloor>100 * (of_nat (count_correct questions userAnswers 0) / of_nat (length questions))
              + 1 / 2 :: rat\<rfloor>"
  proof -
    from n(1) have "0 < length questions" by (cases questions) simp_all
    then show ?thesis
      unfolding test_score_def using n(2) nt
      by (intro final_score_rounds count_correct_le)
  qed
  have cnt: "count_correct questions userAnswers 0 =
       length (filter (\<lambda>i. normalized (at_index userAnswers i) =
                             normalized (answer (questions ! i))) [0..<length questions])"
    using count_correct_filter [of questions userAnswers 0] by simp
  have un: "\<forall>i < length questions. at_index userAnswers i = None \<longrightarrow>
        (normalized (at_index userAnswers i) = normalized (answer (questions ! i))
           \<longleftrightarrow> normalized (answer (questions ! i)) = [])"
    by (auto simp: normalized_def)
  from sc cnt un completeTest_completions [of policy now user lessonId lesson' questions userAnswers db]
  show ?thesis by simp
qed

text \<open>Three questions: one answered rightly up to case and spaces, one wrongly, one not at
  all.\<close>

theorem completeTest_final_score_witness:
  "test_score
     [\<lparr>question_text = ''Capital of France?'', answer = Some ''Paris''\<rparr>,
      \<lparr>question_text = ''2 + 2?'', answer = Some ''4''\<rparr>,
      \<lparr>question_text = ''Colour of the sky?'', answer = Some ''Blue''\<rparr>]
     [Some '' paris '', Some ''5'', None] = Some 33"
proof -
  let ?qs = "[\<lparr>question_text = ''Capital of France?'', answer = Some ''Paris''\<rparr>,
      \<lparr>question_text = ''2 + 2?'', answer = Some ''4''\<rparr>,
      \<lparr>question_text = ''Colour of the sky?'', answer = Some ''Blue''\<rparr>]"
  let ?as = "[Some '' paris '', Some ''5'', None]"
  have c: "count_correct ?qs ?as 0 = 1" by code_simp
  have "test_score ?qs ?as =
       Some \<lfloor>100 * (of_nat (count_correct ?qs ?as 0) / of_nat (length ?qs)) + 1 / 2 :: rat\<rfloor>"
    using completeTest_final_score [of ?qs ?as] by simp
  also have "\<dots> = Some 33" unfolding c by (simp add: floor_eq_iff)
  finally show ?thesis .
qed

text \<open>
  Claim C9 as stated fails twice. An unanswered question counts as correct when the stored
  answer is blank: the one question of the first test is unanswered and the score is 100. And
  the score is computed in double precision as \<open>(c / n) * 100\<close>: with 23 of 40 answers right
  the quotient \<open>23 / 40\<close> is not a double, the product comes out just below 57.5, and the
  score is 57, where \<open>100 c / n = 57.5\<close> rounds to 58.
\<close>

theorem completeTest_score_counterexample:
  "at_index [] 0 = None \<and>
   test_score [\<lparr>question_text = ''Why?'', answer = Some ''  ''\<rparr>] [] = Some 100 \<and>
   count_correct
     (replicate 40 \<lparr>question_text = ''Which?'', answer = Some ''a''\<rparr>)
     (replicate 23 (Some ''a'') @ replicate 17 (Some ''b'')) 0 = 23 \<and>
   test_score
     (replicate 40 \<lparr>question_text = ''Which?'', answer = Some ''a''\<rparr>)
     (replicate 23 (Some ''a'') @ replicate 17 (Some ''b'')) = Some 57 \<and>
   \<lfloor>100 * (23 / 40) + 1 / 2 :: rat\<rfloor> = 58"
  by code_simp

section \<open>Properties of the progress record\<close>


lemma select_progress_Some:
  "select_progress u r table = Some p \<longleftrightarrow>
     filter (\<lambda>p. progress_user_id p = u \<and> progress_roadmap_id p = r) table = [p]"
  by (auto simp: select_progress_def split: list.splits)

lemma update_progress_select:
  assumes "select_progress u r table = Some p"
  shows "select_progress u r (update_progress p (Some s) table) = Some (progressed p s)"
proof -
  define key where "key = (\<lambda>p :: progress. progress_user_id p = u \<and> progress_roadmap_id p = r)"
  define f where "f = (\<lambda>q :: progress. if progress_id q = progress_id p
              then q\<lparr>completed_lessons := completed_lessons p + 1,
                     total_time_spent := total_time_spent p + 30,
                     average_accuracy :=
                       Some ((or_zero (average_accuracy p) * of_nat (completed_lessons p) + of_int s) /
                             of_nat (completed_lessons p + 1))\<rparr>
              else q)"
  from assms have fl: "filter key table = [p]" by (simp add: select_progress_Some key_def)
  have up: "update_progress p (Some s) table = map f table"
    by (simp add: update_progress_def Let_def f_def)
  have kf: "key \<circ> f = key" by (auto simp: fun_eq_iff key_def f_def)
  have "filter key (map f table) = map f (filter (key \<circ> f) table)" by (rule filter_map)
  also have "\<dots> = map f [p]" by (simp only: kf fl)
  also have "\<dots> = [progressed p s]" by (simp add: f_def progressed_def)
  finally have "filter key (update_progress p (Some s) table) = [progressed p s]"
    by (simp only: up)
  then show ?thesis by (simp add: select_progress_Some key_def)
qed

lemma record_completion_progress:
  assumes "select_progress (completion_user_id row) r (user_progress db) = Some p"
    and "score row = Some s"
  shows "select_progress (completion_user_id row) r
           (user_progress (record_completion policy row r db)) = Some (progressed p s)"
  using assms update_progress_select [OF assms(1), of s]
  by (simp add: record_completion_def Let_def)








section \<open>The counter of completed lessons and the completion records\<close>


lemma record_completion_tables:
  "lessons (record_completion policy row r db) = lessons db"
  "lesson_completions (record_completion policy row r db)
     = upsert_completion policy row (lesson_completions db)"
  by (simp_all add: record_completion_def Let_def split: option.splits)

lemma record_completion_no_progress:
  "select_progress (completion_user_id row) r (user_progress db) = None \<Longrightarrow>
   user_progress (record_completion policy row r db) = user_progress db"
  by (simp add: record_completion_def Let_def)

lemma lesson_in_roadmap_record [simp]:
  "lesson_in_roadmap (record_completion policy row r' db) l r = lesson_in_roadmap db l r"
  by (simp add: lesson_in_roadmap_def record_completion_tables)

text \<open>A completion of a lesson that the user has not completed before keeps the counter in
  step with the completion records.\<close>

lemma first_completion_keeps_counter:
  assumes inv: "counter_matches db u r"
    and fresh: "\<not> list_ex (same_key row) (lesson_completions db)"
    and row: "completion_user_id row = u" "score row = Some s"
    and inr: "lesson_in_roadmap db (completion_lesson_id row) r"
  shows "counter_matches (record_completion policy row r db) u r"
proof -
  let ?db' = "record_completion policy row r db"
  have comp: "completions_in_roadmap ?db' u r = completions_in_roadmap db u r @ [row]"
    using fresh row(1) inr
    by (simp add: completions_in_roadmap_def record_completion_tables upsert_completion_def)
  show ?thesis
  proof (cases "select_progress u r (user_progress db)")
    case None
    with row(1) have "user_progress ?db' = user_progress db"
      by (simp add: record_completion_no_progress)
    with None show ?thesis by (simp add: counter_matches_def)
  next
    case (Some p)
    with row have "select_progress u r (user_progress ?db') = Some (progressed p s)"
      using record_completion_progress [of row r db p s policy] by simp
    moreover from inv Some have "completed_lessons p = length (completions_in_roadmap db u r)"
      by (simp add: counter_matches_def)
    ultimately show ?thesis by (simp add: counter_matches_def comp progressed_def)
  qed
qed

text \<open>
  Claim C3 at a failing input. A user with a progress record at count 0 marks lesson \<open>L1\<close>
  complete and then takes its test (the button "Take Test" stays on the page of a completed
  lesson; only "Mark Complete" is hidden). The first completion keeps the counter equal to
  the number of completion records, 1. The second leaves one completion record for the
  lesson, whether the store replaces the row or rejects the request, and raises the counter
  to 2.
\<close>

theorem completing_again_breaks_counter:
  "counter_matches
     \<lparr>lessons = [\<lparr>roadmap_id = ''R'', week_number = 1, lesson_title = ''A'',
                  lesson_objective = ''a'', estimated_time = ''1h'', order_index = 0,
                  lesson_id = ''L1''\<rparr>],
      user_progress = [\<lparr>progress_user_id = ''u'', progress_roadmap_id = ''R'',
                  total_lessons = 1, completed_lessons = 0, total_time_spent = 0,
                  average_accuracy = Some 0, current_week = 1, progress_id = ''P''\<rparr>],
      lesson_completions = []\<rparr> ''u'' ''R'' \<and>
   counter_matches
     (fst (handleMarkComplete Reject_row ''t1'' ''u'' ''L1''
        \<lparr>roadmap_id = ''R'', week_number = 1, lesson_title = ''A'',
                  lesson_objective = ''a'', estimated_time = ''1h'', order_index = 0,
                  lesson_id = ''L1''\<rparr>
     \<lparr>lessons = [\<lparr>roadmap_id = ''R'', week_number = 1, lesson_title = ''A'',
                  lesson_objective = ''a'', estimated_time = ''1h'', order_index = 0,
                  lesson_id = ''L1''\<rparr>],
      user_progress = [\<lparr>progress_user_id = ''u'', progress_roadmap_id = ''R'',
                  total_lessons = 1, completed_lessons = 0, total_time_spent = 0,
                  average_accuracy = Some 0, current_week = 1, progress_id = ''P''\<rparr>],
      lesson_completions = []\<rparr>)) ''u'' ''R'' \<and>
   \<not> counter_matches
     (fst (completeTest Reject_row ''t2'' ''u'' ''L1''
        \<lparr>roadmap_id = ''R'', week_number = 1, lesson_title = ''A'',
                  lesson_objective = ''a'', estimated_time = ''1h'', order_index = 0,
                  lesson_id = ''L1''\<rparr>
        [\<lparr>question_text = ''2 + 2?'', answer = Some ''4''\<rparr>] [Some ''4'']
     (fst (handleMarkComplete Reject_row ''t1'' ''u'' ''L1''
        \<lparr>roadmap_id = ''R'', week_number = 1, lesson_title = ''A'',
                  lesson_objective = ''a'', estimated_time = ''1h'', order_index = 0,
                  lesson_id = ''L1''\<rparr>
     \<lparr>lessons = [\<lparr>roadmap_id = ''R'', week_number = 1, lesson_title = ''A'',
                  lesson_objective = ''a'', estimated_time = ''1h'', order_index = 0,
                  lesson_id = ''L1''\<rparr>],
      user_progress = [\<lparr>progress_user_id = ''u'', progress_roadmap_id = ''R'',
                  total_lessons = 1, completed_lessons = 0, total_time_spent = 0,
                  average_accuracy = Some 0, current_week = 1, progress_id = ''P''\<rparr>],
      lesson_completions = []\<rparr>)))) ''u'' ''R'' \<and>
   \<not> counter_matches
     (fst (completeTest Replace_row ''t2'' ''u'' ''L1''
        \<lparr>roadmap_id = ''R'', week_number = 1, lesson_title = ''A'',
                  lesson_objective = ''a'', estimated_time = ''1h'', order_index = 0,
                  lesson_id = ''L1''\<rparr>
        [\<lparr>question_text = ''2 + 2?'', answer = Some ''4''\<rparr>] [Some ''4'']
     (fst (handleMarkComplete Replace_row ''t1'' ''u'' ''L1''
        \<lparr>roadmap_id = ''R'', week_number = 1, lesson_title = ''A'',
                  lesson_objective = ''a'', estimated_time = ''1h'', order_index = 0,
                  lesson_id = ''L1''\<rparr>
     \<lparr>lessons = [\<lparr>roadmap_id = ''R'', week_number = 1, lesson_title = ''A'',
                  lesson_objective = ''a'', estimated_time = ''1h'', order_index = 0,
                  lesson_id = ''L1''\<rparr>],
      user_progress = [\<lparr>progress_user_id = ''u'', progress_roadmap_id = ''R'',
                  total_lessons = 1, completed_lessons = 0, total_time_spent = 0,
                  average_accuracy = Some 0, current_week = 1, progress_id = ''P''\<rparr>],
      lesson_completions = []\<rparr>)))) ''u'' ''R''"
  by code_simp

section \<open>Properties of the transition system: requests to the AI endpoint\<close>

lemma fetch_calls_more [simp]:
  "fetch_calls (Update_roadmap u w # es) = fetch_calls es"
  "fetch_calls (Delete_lessons u # es) = fetch_calls es"
  "fetch_calls (Reset_progress u n # es) = fetch_calls es"
  "fetch_calls (Select_roadmap_data # es) = fetch_calls es"
  by (simp_all add: fetch_calls_def)

lemma makeGeminiRequest_calls:
  "snd (makeGeminiRequest JSON_parse key outcome prompt) =
     (if or_empty key = [] then [] else [Fetch_call prompt])"
  by (simp add: makeGeminiRequest_def split: fetch_outcome.splits sum.splits)

lemma generator_calls_le:
  "length (snd (generateQuestions JSON_parse isArray key outcome prompt)) \<le> 1"
  "length (snd (generateRoadmap JSON_parse isArray key outcome prompt)) \<le> 1"
  "length (snd (generateLessonContent JSON_parse isObject key outcome prompt)) \<le> 1"
  using makeGeminiRequest_calls [of JSON_parse key outcome prompt]
  by (auto simp: generateQuestions_def generateRoadmap_def generateLessonContent_def
      split: prod.splits sum.splits if_splits)

lemma handleGoalSubmit_calls:
  "length (fetch_calls (snd (handleGoalSubmit JSON_parse isArray key goal prompt outcome))) \<le> 1"
  using generator_calls_le(1) [of JSON_parse isArray key outcome prompt]
  by (auto simp: handleGoalSubmit_def split: prod.splits sum.splits)

lemma updateProfile_calls [simp]: "fetch_calls (snd (updateProfile user goal reply)) = []"
  by (simp add: updateProfile_def split: option.splits)

lemma create_lessons_and_progress_calls [simp]:
  "fetch_calls (snd (create_lessons_and_progress user goal world rid ws)) = []"
proof -
  have "fetch_calls effects = []"
    if "updateProfile user goal (profile_error world) = (r, effects)" for r and effects :: "'a effect list"
  proof -
    from that have "effects = snd (updateProfile user goal (profile_error world))" by simp
    then show ?thesis by (simp only: updateProfile_calls)
  qed
  then show ?thesis
    by (auto simp: create_lessons_and_progress_def Let_def split: prod.splits option.splits)
qed

lemma handleGenerateRoadmap_calls:
  "length (fetch_calls (handleGenerateRoadmap JSON_parse isArray weeks_of key user goal prompt world))
     \<le> 1"
proof -
  have "fetch_calls effects = []"
    if "create_lessons_and_progress u goal world rid ws = (r, effects)"
    for u rid ws r and effects :: "'a effect list"
  proof -
    from that have "effects = snd (create_lessons_and_progress u goal world rid ws)" by simp
    then show ?thesis by (simp only: create_lessons_and_progress_calls)
  qed
  then show ?thesis
    using generator_calls_le(2) [of JSON_parse isArray key "ai_reply world" prompt]
    by (auto simp: handleGenerateRoadmap_def split: prod.splits sum.splits option.splits)
qed

lemma fetchRoadmapData_calls [simp]: "fetch_calls (fetchRoadmapData world) = []"
  by (simp add: fetchRoadmapData_def roadmap_loading_failed_def split: option.splits)

lemma replace_lessons_calls [simp]: "fetch_calls (replace_lessons world rid v ws) = []"
  by (simp add: replace_lessons_def update_failed_def split: option.splits)

lemma handleAlterRoadmap_calls:
  "length (fetch_calls (handleAlterRoadmap JSON_parse isArray weeks_of key roadmap alterRequest
      prompt world)) \<le> 1"
  using generator_calls_le(2) [of JSON_parse isArray key "alter_ai_reply world" prompt]
  by (auto simp: handleAlterRoadmap_def update_failed_def split: prod.splits sum.splits option.splits)

lemma fetchLesson_calls:
  "length (fetch_calls (snd (snd (fetchLesson JSON_parse JSON_stringify isObject key lessonId prompt
      world localStorage view)))) \<le> 1"
  using generator_calls_le(3) [of JSON_parse isObject key "content_reply world" prompt]
  by (auto simp: fetchLesson_def load_content_def generate_and_store_def loading_failed_def
      split: prod.splits sum.splits option.splits)

lemma history_record_effects [simp]: "history (record_effects effects s) = history s @ effects"
  by (simp add: record_effects_def)

lemma run_fetchLesson_history:
  "\<exists>effects. history (run_fetchLesson a w s) = history s @ effects \<and>
             length (fetch_calls effects) \<le> 1"
proof -
  obtain view st effects where f:
    "fetchLesson (app_JSON_parse a) (app_JSON_stringify a) (app_isObject a) (app_key a)
       (app_lessonId a) (lesson_prompt a) (lesson_page_replies w) (page_storage s)
       (page_lesson s) = (view, st, effects)"
    by (metis prod_cases3)
  from fetchLesson_calls [of "app_JSON_parse a" "app_JSON_stringify a" "app_isObject a"
      "app_key a" "app_lessonId a" "lesson_prompt a" "lesson_page_replies w" "page_storage s"
      "page_lesson s"] f
  have "length (fetch_calls effects) \<le> 1" by simp
  moreover have "history (run_fetchLesson a w s) = history s @ effects"
    by (simp add: run_fetchLesson_def f)
  ultimately show ?thesis by blast
qed

lemma run_handleGenerateRoadmap_history:
  "\<exists>effects. history (run_handleGenerateRoadmap a w s) = history s @ effects \<and>
             length (fetch_calls effects) \<le> 1"
  using handleGenerateRoadmap_calls by (auto simp: run_handleGenerateRoadmap_def)

lemma run_callback_history:
  "\<exists>effects. history (run_callback a w c s) = history s @ effects \<and>
             length (fetch_calls effects) \<le> 1"
  using run_fetchLesson_history [of a w s] run_handleGenerateRoadmap_history [of a w s]
  by (cases c) (auto simp: run_callback_def)

lemma click_toast_history:
  "\<exists>effects. history (click_toast a w i s) = history s @ effects \<and>
             length (fetch_calls effects) \<le> 1"
  using run_callback_history [of a w _ s]
  by (auto simp: click_toast_def split: option.splits)

lemma lesson_hook_history:
  "\<exists>effects. history (lesson_hook a u w s) = history s @ effects \<and>
             length (fetch_calls effects) \<le> 1"
  using run_fetchLesson_history [of a w s] by (simp add: lesson_hook_def)

lemma roadmap_hook_history:
  "\<exists>effects. history (roadmap_hook u w s) = history s @ effects \<and>
             length (fetch_calls effects) = 0"
  by (simp add: roadmap_hook_def)

lemma react_history:
  "\<exists>effects. history (react a (e, w) s) = history s @ effects \<and>
             length (fetch_calls effects)
               \<le> (if user_initiated e \<or> hook_rerun e then 1 else 0)"
proof (cases e)
  case Click_continue
  then show ?thesis using handleGoalSubmit_calls by (auto simp: react_def user_initiated_def)
next
  case Click_generate_roadmap
  then show ?thesis using run_handleGenerateRoadmap_history [of a w s]
    by (simp add: react_def user_initiated_def)
next
  case Click_update_roadmap
  then show ?thesis using handleAlterRoadmap_calls by (auto simp: react_def user_initiated_def)
next
  case Click_try_again
  then show ?thesis using run_fetchLesson_history [of a w s]
    by (simp add: react_def user_initiated_def)
next
  case Open_lesson_page
  then show ?thesis using lesson_hook_history [of a "app_user a" w s]
    by (simp add: react_def user_initiated_def)
next
  case Open_roadmap_page
  then show ?thesis using roadmap_hook_history [of "app_user a" w s]
    by (auto simp: react_def user_initiated_def)
next
  case (Click_toast_action i)
  then show ?thesis using click_toast_history [of a w i s]
    by (simp add: react_def user_initiated_def)
next
  case (Dismiss_toast i)
  then show ?thesis by (simp add: react_def user_initiated_def)
next
  case (Toast_expired i)
  then show ?thesis by (simp add: react_def user_initiated_def hook_rerun_def)
next
  case (Auth_state_changed p u)
  show ?thesis
  proof (cases "p = Lesson_page \<and> u \<noteq> None")
    case True
    then show ?thesis using Auth_state_changed lesson_hook_history [of a u w s]
      by (simp add: react_def hook_rerun_def)
  next
    case False
    then show ?thesis using Auth_state_changed roadmap_hook_history [of u w s]
      by (cases p) (auto simp: react_def hook_rerun_def user_initiated_def lesson_hook_def)
  qed
qed

lemma fold_react_calls:
  "length (fetch_calls (history (fold (react a) es s)))
     \<le> length (fetch_calls (history s)) + user_events es + hook_reruns es"
proof (induction es arbitrary: s)
  case Nil
  then show ?case by (simp add: user_events_def hook_reruns_def)
next
  case (Cons ew es)
  obtain e w where ew: "ew = (e, w)" by (cases ew)
  from react_history [of a e w s] obtain effects where
    h: "history (react a (e, w) s) = history s @ effects"
    and l: "length (fetch_calls effects) \<le> (if user_initiated e \<or> hook_rerun e then 1 else 0)"
    by blast
  have "length (fetch_calls (history (fold (react a) es (react a (e, w) s))))
          \<le> length (fetch_calls (history (react a (e, w) s))) + user_events es + hook_reruns es"
    by (rule Cons.IH)
  also have "\<dots> \<le> length (fetch_calls (history s)) + user_events ((e, w) # es)
                 + hook_reruns ((e, w) # es)"
    using l by (cases "user_initiated e"; cases "hook_rerun e")
      (simp_all add: h user_events_def hook_reruns_def)
  finally show ?case by (simp add: ew)
qed

lemma creation_failed_unbound:
  "action (creation_failed e) = None \<or>
   action (creation_failed e) = Some \<lparr>label = None, onClick = None\<rparr>"
  by (simp add: creation_failed_def showError_def Let_def)

lemma makeGeminiRequest_timeout:
  "or_empty key \<noteq> [] \<Longrightarrow>
   makeGeminiRequest JSON_parse key (Rejected \<lparr>name = ''AbortError'', message = m\<rparr>) prompt =
     (Inl (Error
        ''Request timeout - the AI service is taking too long to respond. Please try again.''),
      [Fetch_call prompt])"
  by (simp add: makeGeminiRequest_def rethrow_def)

text \<open>
  Claim C7, as amended. No failure triggers a request by itself, and a request to the AI
  endpoint is issued only on an action of the user or when the hook of the lesson page runs
  again.
  \<^item> \<open>makeGeminiRequest\<close> performs at most one \<open>fetch\<close> per call, whatever the outcome of
    the request; when the request is aborted by the timer (the rejection is an
    \<open>AbortError\<close>) it raises the time-out error after that single \<open>fetch\<close>.
  \<^item> In the pages that call the generators, one event appends effects to the history of the
    page, and these effects contain a request to the endpoint only if the event is an action
    of the user (a button, the opening of a page, the action button of a notification) or an
    event of the authentication client that arrives while the lesson page is displayed and
    carries a user, on which the hook of that page runs \<open>fetchLesson\<close> again; and then at
    most one. The expiry of a notification and every other event of the authentication
    client issue none.
  \<^item> Hence along any run the number of requests is bounded by the number of actions of the
    user plus the number of such re-runs of the hook.
\<close>

theorem requests_by_user_action_or_hook_rerun:
  "length (snd (makeGeminiRequest JSON_parse key outcome prompt)) \<le> 1 \<and>
   (or_empty key \<noteq> [] \<longrightarrow>
      makeGeminiRequest JSON_parse key (Rejected \<lparr>name = ''AbortError'', message = m\<rparr>) prompt =
        (Inl (Error
           ''Request timeout - the AI service is taking too long to respond. Please try again.''),
         [Fetch_call prompt])) \<and>
   (\<exists>effects. history (react a (e, w) s) = history s @ effects \<and>
              length (fetch_calls effects)
                \<le> (if user_initiated e \<or> hook_rerun e then 1 else 0)) \<and>
   length (fetch_calls (history (fold (react a) es s)))
     \<le> length (fetch_calls (history s)) + user_events es + hook_reruns es"
  using react_history [of a e w s] fold_react_calls [of a es s]
    makeGeminiRequest_timeout [of key JSON_parse m prompt]
  by (simp add: makeGeminiRequest_calls)

text \<open>
  A run of the onboarding page against an unavailable endpoint (status 503): the user asks for
  the roadmap, clicks the action of the notification (which is bound to no callback), the
  notification expires, and the authentication client reports an event. One request is
  issued.
\<close>

theorem requests_by_user_action_or_hook_rerun_witness:
  "length (fetch_calls (history (fold
      (react \<lparr>app_JSON_parse = Inr, app_JSON_stringify = (\<lambda>v. v), app_isArray = (\<lambda>v. True),
               app_isObject = (\<lambda>v. True), app_weeks_of = (\<lambda>v. []), app_key = Some ''k'',
               app_user = Some ''u'', app_goal = ''g'', app_roadmap = None,
               app_alterRequest = [], app_lessonId = ''L1'', questions_prompt = ''q'',
               roadmap_prompt = ''r'', alter_prompt = ''a'', lesson_prompt = ''l''\<rparr>)
      [(Click_generate_roadmap,
        \<lparr>questions_reply = Rejected (Error ''x''),
         onboarding_replies =
           \<lparr>ai_reply = Responded \<lparr>ok = False, status = 503, text_body = Inr ''down'',
                          json_body = Inr No_candidate\<rparr>,
            roadmap_error = None, roadmap_data = None, lessons_error = None,
            progress_error = None, profile_error = None\<rparr>,
         altering_replies =
           \<lparr>alter_ai_reply = Rejected (Error ''x''), update_roadmap_error = None,
            delete_lessons_error = None, insert_lessons_error = None,
            update_progress_error = None,
            refetch_replies = \<lparr>fetch_roadmap_error = None, roadmap_found = False,
              fetch_lessons_error = None, fetch_completions_error = None\<rparr>\<rparr>,
         lesson_page_replies =
           \<lparr>lesson_data = Some \<lparr>roadmap_id = ''R'', week_number = 1, lesson_title = ''T'',
              lesson_objective = ''O'', estimated_time = ''1h'', order_index = 0,
              lesson_id = ''L1''\<rparr>,
            lesson_error = None, all_lessons_data = Some [],
            all_lessons_error = None,
            content_reply = Responded \<lparr>ok = False, status = 503, text_body = Inr ''down'',
                          json_body = Inr No_candidate\<rparr>\<rparr>,
         roadmap_page_replies = \<lparr>fetch_roadmap_error = None, roadmap_found = False,
              fetch_lessons_error = None, fetch_completions_error = None\<rparr>\<rparr>),
       (Click_toast_action 0,
        \<lparr>questions_reply = Rejected (Error ''x''),
         onboarding_replies =
           \<lparr>ai_reply = Responded \<lparr>ok = False, status = 503, text_body = Inr ''down'',
                          json_body = Inr No_candidate\<rparr>,
            roadmap_error = None, roadmap_data = None, lessons_error = None,
            progress_error = None, profile_error = None\<rparr>,
         altering_replies =
           \<lparr>alter_ai_reply = Rejected (Error ''x''), update_roadmap_error = None,
            delete_lessons_error = None, insert_lessons_error = None,
            update_progress_error = None,
            refetch_replies = \<lparr>fetch_roadmap_error = None, roadmap_found = False,
              fetch_lessons_error = None, fetch_completions_error = None\<rparr>\<rparr>,
         lesson_page_replies =
           \<lparr>lesson_data = Some \<lparr>roadmap_id = ''R'', week_number = 1, lesson_title = ''T'',
              lesson_objective = ''O'', estimated_time = ''1h'', order_index = 0,
              lesson_id = ''L1''\<rparr>,
            lesson_error = None, all_lessons_data = Some [],
            all_lessons_error = None,
            content_reply = Responded \<lparr>ok = False, status = 503, text_body = Inr ''down'',
                          json_body = Inr No_candidate\<rparr>\<rparr>,
         roadmap_page_replies = \<lparr>fetch_roadmap_error = None, roadmap_found = False,
              fetch_lessons_error = None, fetch_completions_error = None\<rparr>\<rparr>),
       (Toast_expired 0,
        \<lparr>questions_reply = Rejected (Error ''x''),
         onboarding_replies =
           \<lparr>ai_reply = Responded \<lparr>ok = False, status = 503, text_body = Inr ''down'',
                          json_body = Inr No_candidate\<rparr>,
            roadmap_error = None, roadmap_data = None, lessons_error = None,
            progress_error = None, profile_error = None\<rparr>,
         altering_replies =
           \<lparr>alter_ai_reply = Rejected (Error ''x''), update_roadmap_error = None,
            delete_lessons_error = None, insert_lessons_error = None,
            update_progress_error = None,
            refetch_replies = \<lparr>fetch_roadmap_error = None, roadmap_found = False,
              fetch_lessons_error = None, fetch_completions_error = None\<rparr>\<rparr>,
         lesson_page_replies =
           \<lparr>lesson_data = Some \<lparr>roadmap_id = ''R'', week_number = 1, lesson_title = ''T'',
              lesson_objective = ''O'', estimated_time = ''1h'', order_index = 0,
              lesson_id = ''L1''\<rparr>,
            lesson_error = None, all_lessons_data = Some [],
            all_lessons_error = None,
            content_reply = Responded \<lparr>ok = False, status = 503, text_body = Inr ''down'',
                          json_body = Inr No_candidate\<rparr>\<rparr>,
         roadmap_page_replies = \<lparr>fetch_roadmap_error = None, roadmap_found = False,
              fetch_lessons_error = None, fetch_completions_error = None\<rparr>\<rparr>),
       (Auth_state_changed Onboarding_page (Some ''u''),
        \<lparr>questions_reply = Rejected (Error ''x''),
         onboarding_replies =
           \<lparr>ai_reply = Responded \<lparr>ok = False, status = 503, text_body = Inr ''down'',
                          json_body = Inr No_candidate\<rparr>,
            roadmap_error = None, roadmap_data = None, lessons_error = None,
            progress_error = None, profile_error = None\<rparr>,
         altering_replies =
           \<lparr>alter_ai_reply = Rejected (Error ''x''), update_roadmap_error = None,
            delete_lessons_error = None, insert_lessons_error = None,
            update_progress_error = None,
            refetch_replies = \<lparr>fetch_roadmap_error = None, roadmap_found = False,
              fetch_lessons_error = None, fetch_completions_error = None\<rparr>\<rparr>,
         lesson_page_replies =
           \<lparr>lesson_data = Some \<lparr>roadmap_id = ''R'', week_number = 1, lesson_title = ''T'',
              lesson_objective = ''O'', estimated_time = ''1h'', order_index = 0,
              lesson_id = ''L1''\<rparr>,
            lesson_error = None, all_lessons_data = Some [],
            all_lessons_error = None,
            content_reply = Responded \<lparr>ok = False, status = 503, text_body = Inr ''down'',
                          json_body = Inr No_candidate\<rparr>\<rparr>,
         roadmap_page_replies = \<lparr>fetch_roadmap_error = None, roadmap_found = False,
              fetch_lessons_error = None, fetch_completions_error = None\<rparr>\<rparr>)]
      \<lparr>shown = [], history = [], page_storage = Map.empty,
       page_lesson = \<lparr>lesson = None, allLessons = [], lessonContent = None,
                       loading = True\<rparr>\<rparr>))) \<le> 2 \<and>
   fetch_calls (history (fold
      (react \<lparr>app_JSON_parse = Inr, app_JSON_stringify = (\<lambda>v. v), app_isArray = (\<lambda>v. True),
               app_isObject = (\<lambda>v. True), app_weeks_of = (\<lambda>v. []), app_key = Some ''k'',
               app_user = Some ''u'', app_goal = ''g'', app_roadmap = None,
               app_alterRequest = [], app_lessonId = ''L1'', questions_prompt = ''q'',
               roadmap_prompt = ''r'', alter_prompt = ''a'', lesson_prompt = ''l''\<rparr>)
      [(Click_generate_roadmap,
        \<lparr>questions_reply = Rejected (Error ''x''),
         onboarding_replies =
           \<lparr>ai_reply = Responded \<lparr>ok = False, status = 503, text_body = Inr ''down'',
                          json_body = Inr No_candidate\<rparr>,
            roadmap_error = None, roadmap_data = None, lessons_error = None,
            progress_error = None, profile_error = None\<rparr>,
         altering_replies =
           \<lparr>alter_ai_reply = Rejected (Error ''x''), update_roadmap_error = None,
            delete_lessons_error = None, insert_lessons_error = None,
            update_progress_error = None,
            refetch_replies = \<lparr>fetch_roadmap_error = None, roadmap_found = False,
              fetch_lessons_error = None, fetch_completions_error = None\<rparr>\<rparr>,
         lesson_page_replies =
           \<lparr>lesson_data = Some \<lparr>roadmap_id = ''R'', week_number = 1, lesson_title = ''T'',
              lesson_objective = ''O'', estimated_time = ''1h'', order_index = 0,
              lesson_id = ''L1''\<rparr>,
            lesson_error = None, all_lessons_data = Some [],
            all_lessons_error = None,
            content_reply = Responded \<lparr>ok = False, status = 503, text_body = Inr ''down'',
                          json_body = Inr No_candidate\<rparr>\<rparr>,
         roadmap_page_replies = \<lparr>fetch_roadmap_error = None, roadmap_found = False,
              fetch_lessons_error = None, fetch_completions_error = None\<rparr>\<rparr>),
       (Click_toast_action 0,
        \<lparr>questions_reply = Rejected (Error ''x''),
         onboarding_replies =
           \<lparr>ai_reply = Responded \<lparr>ok = False, status = 503, text_body = Inr ''down'',
                          json_body = Inr No_candidate\<rparr>,
            roadmap_error = None, roadmap_data = None, lessons_error = None,
            progress_error = None, profile_error = None\<rparr>,
         altering_replies =
           \<lparr>alter_ai_reply = Rejected (Error ''x''), update_roadmap_error = None,
            delete_lessons_error = None, insert_lessons_error = None,
            update_progress_error = None,
            refetch_replies = \<lparr>fetch_roadmap_error = None, roadmap_found = False,
              fetch_lessons_error = None, fetch_completions_error = None\<rparr>\<rparr>,
         lesson_page_replies =
           \<lparr>lesson_data = Some \<lparr>roadmap_id = ''R'', week_number = 1, lesson_title = ''T'',
              lesson_objective = ''O'', estimated_time = ''1h'', order_index = 0,
              lesson_id = ''L1''\<rparr>,
            lesson_error = None, all_lessons_data = Some [],
            all_lessons_error = None,
            content_reply = Responded \<lparr>ok = False, status = 503, text_body = Inr ''down'',
                          json_body = Inr No_candidate\<rparr>\<rparr>,
         roadmap_page_replies = \<lparr>fetch_roadmap_error = None, roadmap_found = False,
              fetch_lessons_error = None, fetch_completions_error = None\<rparr>\<rparr>),
       (Toast_expired 0,
        \<lparr>questions_reply = Rejected (Error ''x''),
         onboarding_replies =
           \<lparr>ai_reply = Responded \<lparr>ok = False, status = 503, text_body = Inr ''down'',
                          json_body = Inr No_candidate\<rparr>,
            roadmap_error = None, roadmap_data = None, lessons_error = None,
            progress_error = None, profile_error = None\<rparr>,
         altering_replies =
           \<lparr>alter_ai_reply = Rejected (Error ''x''), update_roadmap_error = None,
            delete_lessons_error = None, insert_lessons_error = None,
            update_progress_error = None,
            refetch_replies = \<lparr>fetch_roadmap_error = None, roadmap_found = False,
              fetch_lessons_error = None, fetch_completions_error = None\<rparr>\<rparr>,
         lesson_page_replies =
           \<lparr>lesson_data = Some \<lparr>roadmap_id = ''R'', week_number = 1, lesson_title = ''T'',
              lesson_objective = ''O'', estimated_time = ''1h'', order_index = 0,
              lesson_id = ''L1''\<rparr>,
            lesson_error = None, all_lessons_data = Some [],
            all_lessons_error = None,
            content_reply = Responded \<lparr>ok = False, status = 503, text_body = Inr ''down'',
                          json_body = Inr No_candidate\<rparr>\<rparr>,
         roadmap_page_replies = \<lparr>fetch_roadmap_error = None, roadmap_found = False,
              fetch_lessons_error = None, fetch_completions_error = None\<rparr>\<rparr>),
       (Auth_state_changed Onboarding_page (Some ''u''),
        \<lparr>questions_reply = Rejected (Error ''x''),
         onboarding_replies =
           \<lparr>ai_reply = Responded \<lparr>ok = False, status = 503, text_body = Inr ''down'',
                          json_body = Inr No_candidate\<rparr>,
            roadmap_error = None, roadmap_data = None, lessons_error = None,
            progress_error = None, profile_error = None\<rparr>,
         altering_replies =
           \<lparr>alter_ai_reply = Rejected (Error ''x''), update_roadmap_error = None,
            delete_lessons_error = None, insert_lessons_error = None,
            update_progress_error = None,
            refetch_replies = \<lparr>fetch_roadmap_error = None, roadmap_found = False,
              fetch_lessons_error = None, fetch_completions_error = None\<rparr>\<rparr>,
         lesson_page_replies =
           \<lparr>lesson_data = Some \<lparr>roadmap_id = ''R'', week_number = 1, lesson_title = ''T'',
              lesson_objective = ''O'', estimated_time = ''1h'', order_index = 0,
              lesson_id = ''L1''\<rparr>,
            lesson_error = None, all_lessons_data = Some [],
            all_lessons_error = None,
            content_reply = Responded \<lparr>ok = False, status = 503, text_body = Inr ''down'',
                          json_body = Inr No_candidate\<rparr>\<rparr>,
         roadmap_page_replies = \<lparr>fetch_roadmap_error = None, roadmap_found = False,
              fetch_lessons_error = None, fetch_completions_error = None\<rparr>\<rparr>)]
      \<lparr>shown = [], history = [], page_storage = Map.empty,
       page_lesson = \<lparr>lesson = None, allLessons = [], lessonContent = None,
                       loading = True\<rparr>\<rparr>)) = [Fetch_call ''r''] \<and>
   makeGeminiRequest (Inr :: string \<Rightarrow> js_error + string) (Some ''k'')
     (Rejected \<lparr>name = ''AbortError'', message = ''The user aborted a request.''\<rparr>) ''r'' =
     (Inl (Error
        ''Request timeout - the AI service is taking too long to respond. Please try again.''),
      [Fetch_call ''r''])"
proof -
  let ?w = "\<lparr>questions_reply = Rejected (Error ''x''),
         onboarding_replies =
           \<lparr>ai_reply = Responded \<lparr>ok = False, status = 503, text_body = Inr ''down'',
                          json_body = Inr No_candidate\<rparr>,
            roadmap_error = None, roadmap_data = None, lessons_error = None,
            progress_error = None, profile_error = None\<rparr>,
         altering_replies =
           \<lparr>alter_ai_reply = Rejected (Error ''x''), update_roadmap_error = None,
            delete_lessons_error = None, insert_lessons_error = None,
            update_progress_error = None,
            refetch_replies = \<lparr>fetch_roadmap_error = None, roadmap_found = False,
              fetch_lessons_error = None, fetch_completions_error = None\<rparr>\<rparr>,
         lesson_page_replies =
           \<lparr>lesson_data = Some \<lparr>roadmap_id = ''R'', week_number = 1, lesson_title = ''T'',
              lesson_objective = ''O'', estimated_time = ''1h'', order_index = 0,
              lesson_id = ''L1''\<rparr>,
            lesson_error = None, all_lessons_data = Some [],
            all_lessons_error = None,
            content_reply = Responded \<lparr>ok = False, status = 503, text_body = Inr ''down'',
                          json_body = Inr No_candidate\<rparr>\<rparr>,
         roadmap_page_replies = \<lparr>fetch_roadmap_error = None, roadmap_found = False,
              fetch_lessons_error = None, fetch_completions_error = None\<rparr>\<rparr>"
  let ?a = "\<lparr>app_JSON_parse = Inr, app_JSON_stringify = (\<lambda>v. v), app_isArray = (\<lambda>v. True),
               app_isObject = (\<lambda>v. True), app_weeks_of = (\<lambda>v. []), app_key = Some ''k'',
               app_user = Some ''u'', app_goal = ''g'', app_roadmap = None,
               app_alterRequest = [], app_lessonId = ''L1'', questions_prompt = ''q'',
               roadmap_prompt = ''r'', alter_prompt = ''a'', lesson_prompt = ''l''\<rparr>"
  let ?s = "\<lparr>shown = [], history = [], page_storage = Map.empty :: storage,
       page_lesson = \<lparr>lesson = None, allLessons = [], lessonContent = None :: string option,
                       loading = True\<rparr>\<rparr>"
  let ?es = "[(Click_generate_roadmap, ?w), (Click_toast_action 0, ?w), (Toast_expired 0, ?w), (Auth_state_changed Onboarding_page (Some ''u''), ?w)]"
  have u: "user_events ?es = 2"
    by (simp add: user_events_def user_initiated_def)
  have r: "hook_reruns ?es = 0"
    by (simp add: hook_reruns_def hook_rerun_def)
  have "length (fetch_calls (history (fold (react ?a) ?es ?s)))
     \<le> length (fetch_calls (history ?s)) + user_events ?es + hook_reruns ?es"
    using requests_by_user_action_or_hook_rerun [where es = ?es and s = ?s and a = ?a]
    by (rule conjunct2 [THEN conjunct2, THEN conjunct2])
  then have bound: "length (fetch_calls (history (fold (react ?a) ?es ?s))) \<le> 2"
    unfolding u r by simp
  have run: "fetch_calls (history (fold (react ?a) ?es ?s)) = [Fetch_call ''r'']"
    by code_simp
  have "or_empty (Some ''k'') \<noteq> []"
    by (simp add: or_empty_def)
  with requests_by_user_action_or_hook_rerun
    [where key = "Some ''k''" and JSON_parse = "Inr :: string \<Rightarrow> js_error + string"
       and m = "''The user aborted a request.''" and prompt = "''r''"]
  have timeout: "makeGeminiRequest (Inr :: string \<Rightarrow> js_error + string) (Some ''k'')
     (Rejected \<lparr>name = ''AbortError'', message = ''The user aborted a request.''\<rparr>) ''r'' =
     (Inl (Error
        ''Request timeout - the AI service is taking too long to respond. Please try again.''),
      [Fetch_call ''r''])"
    by blast
  from bound run timeout show ?thesis
    by (intro conjI)
qed

text \<open>
  Claim C7 as stated fails: a failed request is issued again without an action of the user.
  The user opens the lesson \<open>L1\<close>, whose content is not in the storage, and the endpoint
  answers with status 503: the request fails and nothing is cached. Then the authentication
  client reports an event (a refreshed token, say) for the same user: the hook of the lesson
  page runs again and \<open>fetchLesson\<close> sends the same request a second time. The run has one
  action of the user and two requests.
\<close>

theorem automatic_reissue_counterexample:
  "fetch_calls (history (fold
      (react \<lparr>app_JSON_parse = Inr, app_JSON_stringify = (\<lambda>v. v), app_isArray = (\<lambda>v. True),
               app_isObject = (\<lambda>v. True), app_weeks_of = (\<lambda>v. []), app_key = Some ''k'',
               app_user = Some ''u'', app_goal = ''g'', app_roadmap = None,
               app_alterRequest = [], app_lessonId = ''L1'', questions_prompt = ''q'',
               roadmap_prompt = ''r'', alter_prompt = ''a'', lesson_prompt = ''l''\<rparr>)
      [(Open_lesson_page,
        \<lparr>questions_reply = Rejected (Error ''x''),
         onboarding_replies =
           \<lparr>ai_reply = Responded \<lparr>ok = False, status = 503, text_body = Inr ''down'',
                          json_body = Inr No_candidate\<rparr>,
            roadmap_error = None, roadmap_data = None, lessons_error = None,
            progress_error = None, profile_error = None\<rparr>,
         altering_replies =
           \<lparr>alter_ai_reply = Rejected (Error ''x''), update_roadmap_error = None,
            delete_lessons_error = None, insert_lessons_error = None,
            update_progress_error = None,
            refetch_replies = \<lparr>fetch_roadmap_error = None, roadmap_found = False,
              fetch_lessons_error = None, fetch_completions_error = None\<rparr>\<rparr>,
         lesson_page_replies =
           \<lparr>lesson_data = Some \<lparr>roadmap_id = ''R'', week_number = 1, lesson_title = ''T'',
              lesson_objective = ''O'', estimated_time = ''1h'', order_index = 0,
              lesson_id = ''L1''\<rparr>,
            lesson_error = None, all_lessons_data = Some [],
            all_lessons_error = None,
            content_reply = Responded \<lparr>ok = False, status = 503, text_body = Inr ''down'',
                          json_body = Inr No_candidate\<rparr>\<rparr>,
         roadmap_page_replies = \<lparr>fetch_roadmap_error = None, roadmap_found = False,
              fetch_lessons_error = None, fetch_completions_error = None\<rparr>\<rparr>),
       (Auth_state_changed Lesson_page (Some ''u''),
        \<lparr>questions_reply = Rejected (Error ''x''),
         onboarding_replies =
           \<lparr>ai_reply = Responded \<lparr>ok = False, status = 503, text_body = Inr ''down'',
                          json_body = Inr No_candidate\<rparr>,
            roadmap_error = None, roadmap_data = None, lessons_error = None,
            progress_error = None, profile_error = None\<rparr>,
         altering_replies =
           \<lparr>alter_ai_reply = Rejected (Error ''x''), update_roadmap_error = None,
            delete_lessons_error = None, insert_lessons_error = None,
            update_progress_error = None,
            refetch_replies = \<lparr>fetch_roadmap_error = None, roadmap_found = False,
              fetch_lessons_error = None, fetch_completions_error = None\<rparr>\<rparr>,
         lesson_page_replies =
           \<lparr>lesson_data = Some \<lparr>roadmap_id = ''R'', week_number = 1, lesson_title = ''T'',
              lesson_objective = ''O'', estimated_time = ''1h'', order_index = 0,
              lesson_id = ''L1''\<rparr>,
            lesson_error = None, all_lessons_data = Some [],
            all_lessons_error = None,
            content_reply = Responded \<lparr>ok = False, status = 503, text_body = Inr ''down'',
                          json_body = Inr No_candidate\<rparr>\<rparr>,
         roadmap_page_replies = \<lparr>fetch_roadmap_error = None, roadmap_found = False,
              fetch_lessons_error = None, fetch_completions_error = None\<rparr>\<rparr>)]
      \<lparr>shown = [], history = [], page_storage = Map.empty,
       page_lesson = \<lparr>lesson = None, allLessons = [], lessonContent = None,
                       loading = True\<rparr>\<rparr>)) = [Fetch_call ''l'', Fetch_call ''l''] \<and>
   user_events [(Open_lesson_page, \<lparr>questions_reply = Rejected (Error ''x''),
           onboarding_replies =
             \<lparr>ai_reply = Responded \<lparr>ok = False, status = 503, text_body = Inr ''down'',
                            json_body = Inr No_candidate\<rparr>,
              roadmap_error = None, roadmap_data = None, lessons_error = None,
              progress_error = None, profile_error = None\<rparr>,
           altering_replies =
             \<lparr>alter_ai_reply = Rejected (Error ''x''), update_roadmap_error = None,
              delete_lessons_error = None, insert_lessons_error = None,
              update_progress_error = None,
              refetch_replies = \<lparr>fetch_roadmap_error = None, roadmap_found = False,
                fetch_lessons_error = None, fetch_completions_error = None\<rparr>\<rparr>,
           lesson_page_replies =
             \<lparr>lesson_data = Some \<lparr>roadmap_id = ''R'', week_number = 1, lesson_title = ''T'',
                lesson_objective = ''O'', estimated_time = ''1h'', order_index = 0,
                lesson_id = ''L1''\<rparr>,
              lesson_error = None, all_lessons_data = Some [],
              all_lessons_error = None,
              content_reply = Responded \<lparr>ok = False, status = 503, text_body = Inr ''down'',
                            json_body = Inr No_candidate\<rparr>\<rparr>,
           roadmap_page_replies = \<lparr>fetch_roadmap_error = None, roadmap_found = False,
                fetch_lessons_error = None, fetch_completions_error = None\<rparr>\<rparr>), (Auth_state_changed Lesson_page (Some ''u''), \<lparr>questions_reply = Rejected (Error ''x''),
           onboarding_replies =
             \<lparr>ai_reply = Responded \<lparr>ok = False, status = 503, text_body = Inr ''down'',
                            json_body = Inr No_candidate\<rparr>,
              roadmap_error = None, roadmap_data = None, lessons_error = None,
              progress_error = None, profile_error = None\<rparr>,
           altering_replies =
             \<lparr>alter_ai_reply = Rejected (Error ''x''), update_roadmap_error = None,
              delete_lessons_error = None, insert_lessons_error = None,
              update_progress_error = None,
              refetch_replies = \<lparr>fetch_roadmap_error = None, roadmap_found = False,
                fetch_lessons_error = None, fetch_completions_error = None\<rparr>\<rparr>,
           lesson_page_replies =
             \<lparr>lesson_data = Some \<lparr>roadmap_id = ''R'', week_number = 1, lesson_title = ''T'',
                lesson_objective = ''O'', estimated_time = ''1h'', order_index = 0,
                lesson_id = ''L1''\<rparr>,
              lesson_error = None, all_lessons_data = Some [],
              all_lessons_error = None,
              content_reply = Responded \<lparr>ok = False, status = 503, text_body = Inr ''down'',
                            json_body = Inr No_candidate\<rparr>\<rparr>,
           roadmap_page_replies = \<lparr>fetch_roadmap_error = None, roadmap_found = False,
                fetch_lessons_error = None, fetch_completions_error = None\<rparr>\<rparr>)] = 1"
  by code_simp

end
